theory Spec2Isabelle
  imports Main "HOL-Library.Sublist"
begin

section \<open>The API-key rotation Lambda\<close>

text \<open>
  The inline Python handler of \<open>RotateApiKeysLambdaFunction\<close>
  (maintain-metadata-stack.ts, the second revision of the stack). The handler talks to two
  AWS services through boto3, SSM Parameter Store and AppSync; both are modelled as part of
  an explicit world that every helper takes and returns. Every boto3 call is appended to a
  trace, so that the sequence of calls an invocation makes is a value of the model.
\<close>

subsection \<open>The world outside the handler\<close>

datatype py_error = ValueError | OverflowError | ClientError | BotoCoreError

record api_key =
  key_id :: string
  description :: "string option"
  expires :: int

datatype aws_call =
    GetParameter string
  | CreateApiKey string string int
  | PutParameter string string
  | ListApiKeys string
  | DeleteApiKey string string

text \<open>
  \<open>ssm\<close> is the parameter store, \<open>appsync\<close> maps an API id to its keys,
  \<open>new_key_id\<close> is the id AppSync gives the next key it creates, \<open>page_size\<close> the
  number of keys one \<open>list_api_keys\<close> response holds (the handler never follows a
  \<open>nextToken\<close>). \<open>clock n\<close> is the system time at the \<open>n\<close>-th call of
  \<open>datetime.datetime.now()\<close>, in microseconds since the epoch (the resolution of a
  Python datetime), and \<open>reads\<close> counts the calls made so far. \<open>faults\<close> says
  which calls the service refuses, and with which exception.
\<close>

record world =
  ssm :: "string \<Rightarrow> string option"
  appsync :: "string \<Rightarrow> api_key list option"
  new_key_id :: string
  page_size :: nat
  clock :: "nat \<Rightarrow> int"
  reads :: nat
  faults :: "aws_call \<Rightarrow> py_error option"
  trace :: "aws_call list"

text \<open>
  The value of \<open>DAYS_FOR_KEY_TO_LAST\<close> as \<open>int(os.environ.get(..., 7))\<close> sees it:
  unset, a string \<open>int\<close> accepts (with its value), or a string \<open>int\<close> rejects.
\<close>

datatype days_var = Unset | Parses int | Rejected

record env =
  GRAPHQL_API_ID_KEY_PATH :: "string option"
  GRAPHQL_API_KEY_KEY_PATH :: "string option"
  DAYS_FOR_KEY_TO_LAST :: days_var

definition auto_description :: string where
  "auto_description = ''auto maintained api key''"

definition call :: "aws_call \<Rightarrow> world \<Rightarrow> world" where
  "call c w = w\<lparr>trace := trace w @ [c]\<rparr>"

text \<open>Python truthiness of an optional string: \<open>None\<close> and \<open>''\<close> are false.\<close>

fun truthy :: "string option \<Rightarrow> bool" where
  "truthy None = False"
| "truthy (Some s) = (s \<noteq> [])"

definition microseconds_per_day :: int where
  "microseconds_per_day = 86400 * 1000000"

text \<open>
  The range of a Python datetime, years 1 to 9999, in microseconds since the epoch;
  \<open>seconds_min\<close> is its first second. The runtime is CPython 3.8 and its time zone is UTC,
  as on Lambda.
\<close>

definition seconds_min :: int where
  "seconds_min = - 62135596800"

definition datetime_min :: int where
  "datetime_min = seconds_min * 1000000"

definition datetime_max :: int where
  "datetime_max = 253402300799 * 1000000 + 999999"

text \<open>
  \<open>datetime.now()\<close> turns the system time into a naive datetime and, to find the fold,
  looks up the local time one day earlier. It raises \<open>ValueError\<close> when the year of either
  is not in 1 to 9999: \<open>in_range\<close> is false of such a time. (CPython reads the system
  clock as a 64-bit count of nanoseconds, which keeps a reading between the years 1678 and
  2262; the clock of the model may read any time.)
\<close>

definition in_range :: "int \<Rightarrow> bool" where
  "in_range t = (seconds_min + 86400 \<le> t div 1000000 \<and> t \<le> datetime_max)"

definition now :: "world \<Rightarrow> (py_error + int) \<times> world" where
  "now w =
     (let t = clock w (reads w); w1 = w\<lparr>reads := Suc (reads w)\<rparr>
      in if in_range t then (Inr t, w1) else (Inl ValueError, w1))"

text \<open>
  Floats. A Python float is a double: 53 significant bits, every operation rounded to the
  nearest double, ties to the even one. The doubles that occur below are whole numbers of
  seconds below \<open>2 ^ 53\<close>, quotients \<open>microsecond / 1e6\<close>, which are zero or at least
  \<open>2 ^ - 20\<close>, and sums of the two; all of them are multiples of \<open>2 ^ - 72\<close>. A double is
  therefore given as an integer, the number of such units it holds.

  \<open>nearest_double n d\<close> is the double nearest to the quotient of \<open>n\<close> units by \<open>d\<close>, for
  \<open>0 \<le> n\<close> and \<open>0 < d\<close>: the quotient is cut to 53 bits, \<open>shift\<close> bits above the unit.
\<close>

definition double_unit :: int where
  "double_unit = 2 ^ 72"

function bit_length :: "nat \<Rightarrow> nat" where
  "bit_length n = (if n = 0 then 0 else Suc (bit_length (n div 2)))"
  by pat_completeness auto
termination
  by (relation "measure (\<lambda>n. n)") auto

definition round_half_even :: "int \<Rightarrow> int \<Rightarrow> int" where
  "round_half_even n d =
     (let q = n div d; r = n mod d
      in if d < 2 * r \<or> (2 * r = d \<and> odd q) then q + 1 else q)"

definition nearest_double :: "int \<Rightarrow> int \<Rightarrow> int" where
  "nearest_double n d =
     (let shift = bit_length (nat (n div d)) - 53
      in round_half_even n (d * 2 ^ shift) * 2 ^ shift)"

definition double_add :: "int \<Rightarrow> int \<Rightarrow> int" where
  "double_add x y =
     (if 0 \<le> x + y then nearest_double (x + y) 1 else - nearest_double (- (x + y)) 1)"

text \<open>
  \<open>d.timestamp()\<close> for the naive datetime \<open>d\<close> at \<open>t\<close> microseconds: the double
  \<open>seconds + d.microsecond / 1e6\<close>. The seconds are found by a search that looks up the
  local time one day earlier, and that raises \<open>ValueError\<close> on the first day of year 1.
\<close>

definition timestamp_double :: "int \<Rightarrow> int" where
  "timestamp_double t =
     double_add (t div 1000000 * double_unit)
                (nearest_double (t mod 1000000 * double_unit) 1000000)"

definition timestamp :: "int \<Rightarrow> py_error + int" where
  "timestamp t =
     (if t div 1000000 < seconds_min + 86400 then Inl ValueError else Inr (timestamp_double t))"

text \<open>\<open>int(x)\<close> on a float truncates towards zero.\<close>

definition int_of_double :: "int \<Rightarrow> int" where
  "int_of_double x = (if 0 \<le> x then x div double_unit else - ((- x) div double_unit))"

subsection \<open>The helpers\<close>

text \<open>
  \<open>_get_parameter\<close> catches \<open>ClientError\<close> (a missing parameter is one) and returns
  \<open>None\<close>; any other exception propagates.
\<close>

definition get_parameter :: "string \<Rightarrow> world \<Rightarrow> (py_error + string option) \<times> world" where
  "get_parameter name w =
     (let w1 = call (GetParameter name) w in
      case faults w (GetParameter name) of
        Some ClientError \<Rightarrow> (Inr None, w1)
      | Some e \<Rightarrow> (Inl e, w1)
      | None \<Rightarrow> (Inr (ssm w name), w1))"

text \<open>
  \<open>_get_expire_time\<close>: the cap at 364 days, then \<open>now()\<close>, then
  \<open>timedelta(days)\<close> and the sum, which raise \<open>OverflowError\<close> when the number of days
  or the resulting date is out of range, then \<open>timestamp()\<close> and \<open>int\<close>.
\<close>

definition get_expire_time :: "int \<Rightarrow> world \<Rightarrow> (py_error + int) \<times> world" where
  "get_expire_time days w =
     (let days1 = (if days > 364 then 364 else days) in
      case now w of
        (Inl err, w1) \<Rightarrow> (Inl err, w1)
      | (Inr t, w1) \<Rightarrow>
          (let expire_at = t + days1 * microseconds_per_day in
           if days1 < - 999999999 \<or> expire_at < datetime_min \<or> datetime_max < expire_at
           then (Inl OverflowError, w1)
           else (case timestamp expire_at of
                   Inl err \<Rightarrow> (Inl err, w1)
                 | Inr new_expire_time \<Rightarrow> (Inr (int_of_double new_expire_time), w1))))"

text \<open>
  \<open>_generate_new_api_key\<close>: one \<open>create_api_key\<close>. AppSync stores the expiry rounded
  down to the hour and answers with the new key, whose id the helper returns.
\<close>

definition generate_new_api_key :: "string \<Rightarrow> int \<Rightarrow> world \<Rightarrow> (py_error + string) \<times> world" where
  "generate_new_api_key graphql_api_id new_expire_time w =
     (let c = CreateApiKey graphql_api_id auto_description new_expire_time;
          w1 = call c w in
      case faults w c of
        Some e \<Rightarrow> (Inl e, w1)
      | None \<Rightarrow>
          (case appsync w graphql_api_id of
             None \<Rightarrow> (Inl ClientError, w1)
           | Some ks \<Rightarrow>
               (let k = \<lparr>key_id = new_key_id w, description = Some auto_description,
                         expires = new_expire_time - new_expire_time mod 3600\<rparr>
                in (Inr (key_id k),
                    w1\<lparr>appsync := (appsync w)(graphql_api_id \<mapsto> ks @ [k])\<rparr>))))"

definition save_secure_parameter :: "string \<Rightarrow> string \<Rightarrow> world \<Rightarrow> (py_error + unit) \<times> world" where
  "save_secure_parameter name kid w =
     (let c = PutParameter name kid; w1 = call c w in
      case faults w c of
        Some e \<Rightarrow> (Inl e, w1)
      | None \<Rightarrow> (Inr (), w1\<lparr>ssm := (ssm w)(name \<mapsto> kid)\<rparr>))"

definition list_api_keys :: "string \<Rightarrow> world \<Rightarrow> (py_error + api_key list) \<times> world" where
  "list_api_keys graphql_api_id w =
     (let c = ListApiKeys graphql_api_id; w1 = call c w in
      case faults w c of
        Some e \<Rightarrow> (Inl e, w1)
      | None \<Rightarrow>
          (case appsync w graphql_api_id of
             None \<Rightarrow> (Inl ClientError, w1)
           | Some ks \<Rightarrow> (Inr (take (page_size w) ks), w1)))"

definition delete_api_key :: "string \<Rightarrow> string \<Rightarrow> world \<Rightarrow> (py_error + unit) \<times> world" where
  "delete_api_key graphql_api_id kid w =
     (let c = DeleteApiKey graphql_api_id kid; w1 = call c w in
      case faults w c of
        Some e \<Rightarrow> (Inl e, w1)
      | None \<Rightarrow>
          (case appsync w graphql_api_id of
             None \<Rightarrow> (Inl ClientError, w1)
           | Some ks \<Rightarrow>
               if kid \<in> key_id ` set ks
               then (Inr (), w1\<lparr>appsync := (appsync w)(graphql_api_id \<mapsto>
                                     filter (\<lambda>k. key_id k \<noteq> kid) ks)\<rparr>)
               else (Inl ClientError, w1)))"

text \<open>
  The loop of \<open>_delete_expired_api_keys\<close>: at every key the clock is read first, and
  the integer expiry (seconds) is compared with the double \<open>now().timestamp()\<close>; Python
  compares an integer and a float by their exact values.
\<close>

fun delete_loop :: "string \<Rightarrow> api_key list \<Rightarrow> world \<Rightarrow> (py_error + unit) \<times> world" where
  "delete_loop graphql_api_id [] w = (Inr (), w)"
| "delete_loop graphql_api_id (k # ks) w =
     (case now w of
        (Inl err, w1) \<Rightarrow> (Inl err, w1)
      | (Inr t, w1) \<Rightarrow>
          (case timestamp t of
             Inl err \<Rightarrow> (Inl err, w1)
           | Inr x \<Rightarrow>
               if expires k * double_unit < x \<and> description k = Some auto_description
               then (case delete_api_key graphql_api_id (key_id k) w1 of
                       (Inl e, w2) \<Rightarrow> (Inl e, w2)
                     | (Inr u, w2) \<Rightarrow> delete_loop graphql_api_id ks w2)
               else delete_loop graphql_api_id ks w1))"

definition delete_expired_api_keys :: "string \<Rightarrow> world \<Rightarrow> (py_error + unit) \<times> world" where
  "delete_expired_api_keys graphql_api_id w =
     (case list_api_keys graphql_api_id w of
        (Inl e, w1) \<Rightarrow> (Inl e, w1)
      | (Inr ks, w1) \<Rightarrow> delete_loop graphql_api_id ks w1)"

subsection \<open>The handler\<close>

text \<open>
  \<open>run\<close> returns its event unchanged, so the result is \<open>Inr ()\<close> or the exception
  that left the handler. The three environment reads come first; \<open>int\<close> may raise there.
  The \<open>print\<close> calls write to the log only and are left out.
\<close>

definition days_value :: "days_var \<Rightarrow> py_error + int" where
  "days_value d = (case d of Unset \<Rightarrow> Inr 7 | Parses n \<Rightarrow> Inr n | Rejected \<Rightarrow> Inl ValueError)"

definition run :: "env \<Rightarrow> world \<Rightarrow> (py_error + unit) \<times> world" where
  "run e w =
     (let graphql_api_id_key_path = GRAPHQL_API_ID_KEY_PATH e;
          graphql_api_key_key_path = GRAPHQL_API_KEY_KEY_PATH e in
      case days_value (DAYS_FOR_KEY_TO_LAST e) of
        Inl err \<Rightarrow> (Inl err, w)
      | Inr days_for_key_to_last \<Rightarrow>
          if truthy graphql_api_id_key_path then
            (case get_parameter (the graphql_api_id_key_path) w of
               (Inl err, w1) \<Rightarrow> (Inl err, w1)
             | (Inr graphql_api_id, w1) \<Rightarrow>
                 if truthy graphql_api_id \<and> truthy graphql_api_key_key_path then
                   (case get_expire_time days_for_key_to_last w1 of
                      (Inl err, w2) \<Rightarrow> (Inl err, w2)
                    | (Inr expire_time, w2) \<Rightarrow>
                        (case generate_new_api_key (the graphql_api_id) expire_time w2 of
                           (Inl err, w3) \<Rightarrow> (Inl err, w3)
                         | (Inr new_api_key, w3) \<Rightarrow>
                             if new_api_key \<noteq> [] then
                               (case save_secure_parameter (the graphql_api_key_key_path)
                                       new_api_key w3 of
                                  (Inl err, w4) \<Rightarrow> (Inl err, w4)
                                | (Inr u, w4) \<Rightarrow>
                                    delete_expired_api_keys (the graphql_api_id) w4)
                             else (Inr (), w3)))
                 else (Inr (), w1))
          else (Inr (), w))"

text \<open>The calls an invocation adds to the trace.\<close>

definition calls_of :: "env \<Rightarrow> world \<Rightarrow> aws_call list" where
  "calls_of e w = drop (length (trace w)) (trace (snd (run e w)))"


subsection \<open>What the handler is expected to do\<close>

text \<open>
  The definitions of this subsection are not part of the handler: they say, from the
  environment and the world an invocation starts in, which calls a complete rotation makes.
  \<open>int_timestamp t\<close> is \<open>int(d.timestamp())\<close> for the datetime \<open>d\<close> at \<open>t\<close>
  microseconds. \<open>expired k t\<close> is the test of the loop for the key \<open>k\<close> when the clock reads
  \<open>t\<close>. \<open>due_keys clk n ks\<close> are the keys of a listing that the loop finds expired and
  auto-maintained, the first key being tested against the \<open>n\<close>-th reading of the clock; the
  loop ends at a reading that \<open>now()\<close> refuses.
\<close>

definition int_timestamp :: "int \<Rightarrow> int" where
  "int_timestamp t = int_of_double (timestamp_double t)"

definition expired :: "api_key \<Rightarrow> int \<Rightarrow> bool" where
  "expired k t = (expires k * double_unit < timestamp_double t)"

fun due_keys :: "(nat \<Rightarrow> int) \<Rightarrow> nat \<Rightarrow> api_key list \<Rightarrow> api_key list" where
  "due_keys clk n [] = []"
| "due_keys clk n (k # ks) =
     (if \<not> in_range (clk n) then []
      else if expired k (clk n) \<and> description k = Some auto_description
      then k # due_keys clk (Suc n) ks else due_keys clk (Suc n) ks)"

definition id_path :: "env \<Rightarrow> string" where
  "id_path e = (case GRAPHQL_API_ID_KEY_PATH e of Some p \<Rightarrow> p | None \<Rightarrow> [])"

definition key_path :: "env \<Rightarrow> string" where
  "key_path e = (case GRAPHQL_API_KEY_KEY_PATH e of Some q \<Rightarrow> q | None \<Rightarrow> [])"

definition api_id :: "env \<Rightarrow> world \<Rightarrow> string" where
  "api_id e w = (case ssm w (id_path e) of Some a \<Rightarrow> a | None \<Rightarrow> [])"

definition days_requested :: "env \<Rightarrow> int" where
  "days_requested e = (case DAYS_FOR_KEY_TO_LAST e of Parses n \<Rightarrow> n | _ \<Rightarrow> 7)"

definition expire_time :: "env \<Rightarrow> world \<Rightarrow> int" where
  "expire_time e w =
     int_timestamp (clock w (reads w) + min (days_requested e) 364 * microseconds_per_day)"

definition created_key :: "env \<Rightarrow> world \<Rightarrow> api_key" where
  "created_key e w = \<lparr>key_id = new_key_id w, description = Some auto_description,
                       expires = expire_time e w - expire_time e w mod 3600\<rparr>"

definition listing :: "env \<Rightarrow> world \<Rightarrow> api_key list" where
  "listing e w = take (page_size w)
     ((case appsync w (api_id e w) of Some ks \<Rightarrow> ks | None \<Rightarrow> []) @ [created_key e w])"

definition rotation_calls :: "env \<Rightarrow> world \<Rightarrow> aws_call list" where
  "rotation_calls e w =
     [GetParameter (id_path e),
      CreateApiKey (api_id e w) auto_description (expire_time e w),
      PutParameter (key_path e) (new_key_id w),
      ListApiKeys (api_id e w)]
     @ map (\<lambda>k. DeleteApiKey (api_id e w) (key_id k))
           (due_keys (clock w) (Suc (reads w)) (listing e w))"


definition example_keys :: "api_key list" where
  "example_keys =
     [\<lparr>key_id = ''k1'', description = Some auto_description, expires = 1600000000\<rparr>,
      \<lparr>key_id = ''k2'', description = Some ''manual'', expires = 1600000000\<rparr>,
      \<lparr>key_id = ''k3'', description = Some auto_description, expires = 1800000000\<rparr>,
      \<lparr>key_id = ''k4'', description = None, expires = 1600000000\<rparr>]"

definition example_env :: env where
  "example_env = \<lparr>GRAPHQL_API_ID_KEY_PATH = Some ''/id'',
                   GRAPHQL_API_KEY_KEY_PATH = Some ''/key'',
                   DAYS_FOR_KEY_TO_LAST = Parses 400\<rparr>"

definition example_world :: world where
  "example_world =
     \<lparr>ssm = (\<lambda>n. if n = ''/id'' then Some ''api1'' else None),
      appsync = (\<lambda>a. if a = ''api1'' then Some example_keys else None),
      new_key_id = ''k9'',
      page_size = 25,
      clock = (\<lambda>n. 1700000000000000 + int n),
      reads = 0,
      faults = (\<lambda>c. None),
      trace = []\<rparr>"

fun is_ssm_read :: "aws_call \<Rightarrow> bool" where
  "is_ssm_read (GetParameter n) = True"
| "is_ssm_read c = False"

fun is_ssm_write :: "aws_call \<Rightarrow> bool" where
  "is_ssm_write (PutParameter n v) = True"
| "is_ssm_write c = False"

record cron_options =
  minute :: "string option"
  hour :: "string option"
  day :: "string option"
  month :: "string option"
  year :: "string option"
  weekDay :: "string option"

definition RotateAPIKeysRule :: cron_options where
  "RotateAPIKeysRule = \<lparr>minute = Some ''0'', hour = Some ''0'', day = None, month = None,
                         year = None, weekDay = None\<rparr>"

fun decimal :: "nat \<Rightarrow> string \<Rightarrow> nat option" where
  "decimal acc [] = Some acc"
| "decimal acc (c # cs) =
     (if 48 \<le> (of_char c :: nat) \<and> (of_char c :: nat) \<le> 57
      then decimal (10 * acc + (of_char c - 48)) cs else None)"

definition field_matches :: "string option \<Rightarrow> nat \<Rightarrow> bool" where
  "field_matches f v =
     (case f of None \<Rightarrow> True
      | Some s \<Rightarrow> s = ''*'' \<or> s = ''?'' \<or> (s \<noteq> [] \<and> decimal 0 s = Some v))"

record instant =
  at_year :: nat
  at_month :: nat
  at_day :: nat
  at_weekDay :: nat
  at_hour :: nat
  at_minute :: nat

definition fires :: "cron_options \<Rightarrow> instant \<Rightarrow> bool" where
  "fires c t = (field_matches (minute c) (at_minute t) \<and> field_matches (hour c) (at_hour t)
     \<and> field_matches (day c) (at_day t) \<and> field_matches (month c) (at_month t)
     \<and> field_matches (year c) (at_year t) \<and> field_matches (weekDay c) (at_weekDay t))"


section \<open>The resolver mapping templates\<close>

text \<open>
  The AppSync resolvers and pipeline functions of maintain-metadata-stack.ts. The file
  holds two revisions of the stack, one after the other; a template is taken from the second
  revision where both have it and they agree, and from the first where only the first has
  it. The templates are written in the Velocity template language; each \<open>#set\<close> of a
  template is a \<open>let\<close> of its definition, in the order of the template.
\<close>

subsection \<open>Values, maps and the utilities of the template engine\<close>

datatype json = JNull | JBool bool | JNum int | JStr string | JList "json list"
  | JMap "(string \<times> json) list"

datatype attribute_value = DS string | DN int | DBOOL bool | DNULL
  | DL "attribute_value list" | DM "(string \<times> attribute_value) list"

primrec toDynamoDB :: "json \<Rightarrow> attribute_value" where
  "toDynamoDB JNull = DNULL"
| "toDynamoDB (JBool b) = DBOOL b"
| "toDynamoDB (JNum n) = DN n"
| "toDynamoDB (JStr s) = DS s"
| "toDynamoDB (JList xs) = DL (map toDynamoDB xs)"
| "toDynamoDB (JMap m) = DM (map (map_prod id toDynamoDB) m)"

type_synonym 'v linked_map = "(string \<times> 'v) list"

fun map_put :: "string \<Rightarrow> 'v \<Rightarrow> 'v linked_map \<Rightarrow> 'v linked_map" where
  "map_put k v [] = [(k, v)]"
| "map_put k v (e # m) = (if fst e = k then (k, v) # m else e # map_put k v m)"

definition copyAndRemoveAllKeys :: "'v linked_map \<Rightarrow> string list \<Rightarrow> 'v linked_map" where
  "copyAndRemoveAllKeys m ks = filter (\<lambda>e. fst e \<notin> set ks) m"

definition isNull :: "json \<Rightarrow> bool" where
  "isNull v = (v = JNull)"

definition field :: "json \<Rightarrow> string \<Rightarrow> json" where
  "field v k = (case v of JMap m \<Rightarrow> (case map_of m k of Some x \<Rightarrow> x | None \<Rightarrow> JNull)
                | _ \<Rightarrow> JNull)"

definition entries :: "json \<Rightarrow> json linked_map" where
  "entries v = (case v of JMap m \<Rightarrow> m | _ \<Rightarrow> [])"

definition elements :: "json \<Rightarrow> json list" where
  "elements v = (case v of JList xs \<Rightarrow> xs | _ \<Rightarrow> [])"

definition str :: "json \<Rightarrow> string option" where
  "str v = (case v of JStr s \<Rightarrow> Some s | _ \<Rightarrow> None)"

definition json_of :: "string option \<Rightarrow> json" where
  "json_of x = (case x of Some s \<Rightarrow> JStr s | None \<Rightarrow> JNull)"

text \<open>
  Strings. A string is the sequence of the bytes of its UTF-8 encoding: a byte below 128 is
  an ASCII character, and a character outside ASCII is a byte from 128 on followed by its
  continuation bytes (128 to 191). \<open>$util.str.toUpper\<close> is Java's
  \<open>String.toUpperCase\<close>, and a string is blank, for \<open>$util.defaultIfNullOrBlank\<close>,
  when \<open>Character.isWhitespace\<close> holds of each of its characters. What the two do to
  ASCII is defined here: \<open>upper_char\<close> and \<open>isWhitespace\<close>. What they do to a character
  outside ASCII is in the Unicode tables of the runtime, not in the repository; it is the
  parameter \<open>unicode\<close>, which every context of a template extends: \<open>unicode_upper\<close> is
  the upper case of one such character, \<open>unicode_whitespace\<close> says whether it is white
  space. The locale of the service is taken to be one in which upper-casing goes character
  by character (any but Turkish, Azeri and Lithuanian).
\<close>

record unicode =
  unicode_upper :: "string \<Rightarrow> string"
  unicode_whitespace :: "string \<Rightarrow> bool"

definition ascii :: "char \<Rightarrow> bool" where
  "ascii ch = ((of_char ch :: nat) < 128)"

definition continuation :: "char \<Rightarrow> bool" where
  "continuation ch = (128 \<le> (of_char ch :: nat) \<and> (of_char ch :: nat) < 192)"

definition isWhitespace :: "char \<Rightarrow> bool" where
  "isWhitespace c = (let n = (of_char c :: nat) in (9 \<le> n \<and> n \<le> 13) \<or> (28 \<le> n \<and> n \<le> 32))"

function isBlank :: "'a unicode_scheme \<Rightarrow> string \<Rightarrow> bool" where
  "isBlank u [] = True"
| "isBlank u (ch # s) =
     (if ascii ch then isWhitespace ch \<and> isBlank u s
      else unicode_whitespace u (ch # takeWhile continuation s)
           \<and> isBlank u (dropWhile continuation s))"
  by pat_completeness auto

termination
  by (relation "measure (\<lambda>(u, s). length s)") (auto simp: length_dropWhile_le le_imp_less_Suc)

definition defaultIfNullOrBlank ::
  "'a unicode_scheme \<Rightarrow> string option \<Rightarrow> string option \<Rightarrow> string option" where
  "defaultIfNullOrBlank u x d = (case x of None \<Rightarrow> d | Some s \<Rightarrow> if isBlank u s then d else Some s)"

definition upper_char :: "char \<Rightarrow> char" where
  "upper_char c = (let n = (of_char c :: nat) in if 97 \<le> n \<and> n \<le> 122 then char_of (n - 32) else c)"

function toUpperCase :: "'a unicode_scheme \<Rightarrow> string \<Rightarrow> string" where
  "toUpperCase u [] = []"
| "toUpperCase u (ch # s) =
     (if ascii ch then upper_char ch # toUpperCase u s
      else unicode_upper u (ch # takeWhile continuation s)
           @ toUpperCase u (dropWhile continuation s))"
  by pat_completeness auto

termination
  by (relation "measure (\<lambda>(u, s). length s)") (auto simp: length_dropWhile_le le_imp_less_Suc)

definition toUpper :: "'a unicode_scheme \<Rightarrow> string option \<Rightarrow> string option" where
  "toUpper u x = map_option (toUpperCase u) x"

function replace :: "string \<Rightarrow> string \<Rightarrow> string \<Rightarrow> string" where
  "replace [] t r = (if t = [] then r else [])"
| "replace (c # cs) t r =
     (if t = [] then r @ c # replace cs t r
      else if prefix t (c # cs) then r @ replace (drop (length t) (c # cs)) t r
      else c # replace cs t r)"
  by pat_completeness auto

termination
  by (relation "measure (\<lambda>(s, t, r). length s)") auto

definition toReplace :: "string option \<Rightarrow> string \<Rightarrow> string \<Rightarrow> string option" where
  "toReplace x t r = map_option (\<lambda>s. replace s t r) x"

definition render :: "string \<Rightarrow> string option \<Rightarrow> string" where
  "render reference x = (case x of Some s \<Rightarrow> s | None \<Rightarrow> reference)"

subsection \<open>The partial-update expression builder\<close>

text \<open>
  The three copies of the builder, each written out from its own template: the loop over
  the arguments that fills \<open>expSet\<close>, \<open>expRemove\<close>, \<open>expNames\<close> and
  \<open>expValues\<close>, and the three loops that extend the expression, where
  \<open>$foreach.hasNext\<close> is "the rest of the list is not empty". A map literal of the
  template language keeps its entries in insertion order.
\<close>

record update_state =
  expNames :: "string linked_map"
  expValues :: "attribute_value linked_map"
  expSet :: "string linked_map"
  expAdd :: "string linked_map"
  expRemove :: "string list"

definition empty_update_state :: update_state where
  "empty_update_state = \<lparr>expNames = [], expValues = [], expSet = [], expAdd = [], expRemove = []\<rparr>"

definition dateAddedToDynamo_clause :: string where
  "dateAddedToDynamo_clause =
     '', dateAddedToDynamo = if_not_exists(dateAddedToDynamo, :dateAddedToDynamo)''"

fun updateItemFunction_entries :: "json linked_map \<Rightarrow> update_state \<Rightarrow> update_state" where
  "updateItemFunction_entries [] st = st"
| "updateItemFunction_entries (entry # rest) st =
     updateItemFunction_entries rest
       (if isNull (snd entry)
        then st\<lparr>expRemove := expRemove st @ [''#'' @ fst entry],
                expNames := map_put (''#'' @ fst entry) (fst entry) (expNames st)\<rparr>
        else st\<lparr>expSet := map_put (''#'' @ fst entry) ('':'' @ fst entry) (expSet st),
                expNames := map_put (''#'' @ fst entry) (fst entry) (expNames st),
                expValues := map_put ('':'' @ fst entry) (toDynamoDB (snd entry)) (expValues st)\<rparr>)"

fun updateItemFunction_set :: "string \<Rightarrow> string linked_map \<Rightarrow> string" where
  "updateItemFunction_set expression [] = expression"
| "updateItemFunction_set expression (entry # rest) =
     (let expression = expression @ '' '' @ fst entry @ '' = '' @ snd entry;
          expression = (if rest \<noteq> [] then expression @ '','' else expression)
      in updateItemFunction_set expression rest)"

fun updateItemFunction_add :: "string \<Rightarrow> string linked_map \<Rightarrow> string" where
  "updateItemFunction_add expression [] = expression"
| "updateItemFunction_add expression (entry # rest) =
     (let expression = expression @ '' '' @ fst entry @ '' '' @ snd entry;
          expression = (if rest \<noteq> [] then expression @ '','' else expression)
      in updateItemFunction_add expression rest)"

fun updateItemFunction_remove :: "string \<Rightarrow> string list \<Rightarrow> string" where
  "updateItemFunction_remove expression [] = expression"
| "updateItemFunction_remove expression (entry # rest) =
     (let expression = expression @ '' '' @ entry;
          expression = (if rest \<noteq> [] then expression @ '','' else expression)
      in updateItemFunction_remove expression rest)"

fun updateSupplementalDataFunction_entries :: "json linked_map \<Rightarrow> update_state \<Rightarrow> update_state" where
  "updateSupplementalDataFunction_entries [] st = st"
| "updateSupplementalDataFunction_entries (entry # rest) st =
     updateSupplementalDataFunction_entries rest
       (if isNull (snd entry)
        then st\<lparr>expRemove := expRemove st @ [''#'' @ fst entry],
                expNames := map_put (''#'' @ fst entry) (fst entry) (expNames st)\<rparr>
        else st\<lparr>expSet := map_put (''#'' @ fst entry) ('':'' @ fst entry) (expSet st),
                expNames := map_put (''#'' @ fst entry) (fst entry) (expNames st),
                expValues := map_put ('':'' @ fst entry) (toDynamoDB (snd entry)) (expValues st)\<rparr>)"

fun updateSupplementalDataFunction_set :: "string \<Rightarrow> string linked_map \<Rightarrow> string" where
  "updateSupplementalDataFunction_set expression [] = expression"
| "updateSupplementalDataFunction_set expression (entry # rest) =
     (let expression = expression @ '' '' @ fst entry @ '' = '' @ snd entry;
          expression = (if rest \<noteq> [] then expression @ '','' else expression)
      in updateSupplementalDataFunction_set expression rest)"

fun updateSupplementalDataFunction_add :: "string \<Rightarrow> string linked_map \<Rightarrow> string" where
  "updateSupplementalDataFunction_add expression [] = expression"
| "updateSupplementalDataFunction_add expression (entry # rest) =
     (let expression = expression @ '' '' @ fst entry @ '' '' @ snd entry;
          expression = (if rest \<noteq> [] then expression @ '','' else expression)
      in updateSupplementalDataFunction_add expression rest)"

fun updateSupplementalDataFunction_remove :: "string \<Rightarrow> string list \<Rightarrow> string" where
  "updateSupplementalDataFunction_remove expression [] = expression"
| "updateSupplementalDataFunction_remove expression (entry # rest) =
     (let expression = expression @ '' '' @ entry;
          expression = (if rest \<noteq> [] then expression @ '','' else expression)
      in updateSupplementalDataFunction_remove expression rest)"

fun updateSupplementalDataRecordFunction_entries :: "json linked_map \<Rightarrow> update_state \<Rightarrow> update_state" where
  "updateSupplementalDataRecordFunction_entries [] st = st"
| "updateSupplementalDataRecordFunction_entries (entry # rest) st =
     updateSupplementalDataRecordFunction_entries rest
       (if isNull (snd entry)
        then st\<lparr>expRemove := expRemove st @ [''#'' @ fst entry],
                expNames := map_put (''#'' @ fst entry) (fst entry) (expNames st)\<rparr>
        else st\<lparr>expSet := map_put (''#'' @ fst entry) ('':'' @ fst entry) (expSet st),
                expNames := map_put (''#'' @ fst entry) (fst entry) (expNames st),
                expValues := map_put ('':'' @ fst entry) (toDynamoDB (snd entry)) (expValues st)\<rparr>)"

fun updateSupplementalDataRecordFunction_set :: "string \<Rightarrow> string linked_map \<Rightarrow> string" where
  "updateSupplementalDataRecordFunction_set expression [] = expression"
| "updateSupplementalDataRecordFunction_set expression (entry # rest) =
     (let expression = expression @ '' '' @ fst entry @ '' = '' @ snd entry;
          expression = (if rest \<noteq> [] then expression @ '','' else expression)
      in updateSupplementalDataRecordFunction_set expression rest)"

fun updateSupplementalDataRecordFunction_add :: "string \<Rightarrow> string linked_map \<Rightarrow> string" where
  "updateSupplementalDataRecordFunction_add expression [] = expression"
| "updateSupplementalDataRecordFunction_add expression (entry # rest) =
     (let expression = expression @ '' '' @ fst entry @ '' '' @ snd entry;
          expression = (if rest \<noteq> [] then expression @ '','' else expression)
      in updateSupplementalDataRecordFunction_add expression rest)"

fun updateSupplementalDataRecordFunction_remove :: "string \<Rightarrow> string list \<Rightarrow> string" where
  "updateSupplementalDataRecordFunction_remove expression [] = expression"
| "updateSupplementalDataRecordFunction_remove expression (entry # rest) =
     (let expression = expression @ '' '' @ entry;
          expression = (if rest \<noteq> [] then expression @ '','' else expression)
      in updateSupplementalDataRecordFunction_remove expression rest)"

record update_document =
  expression :: string
  expressionNames :: "string linked_map option"
  expressionValues :: "attribute_value linked_map option"

definition updateItemFunction_update :: "json linked_map \<Rightarrow> update_document" where
  "updateItemFunction_update args =
     (let st = updateItemFunction_entries
                 (copyAndRemoveAllKeys args [''itemId'', ''expectedVersion'']) empty_update_state;
          expression = [];
          expression = (if expSet st \<noteq> [] then updateItemFunction_set ''SET'' (expSet st) else expression);
          expression = (if expAdd st \<noteq> []
                        then updateItemFunction_add (expression @ '' ADD'') (expAdd st) else expression);
          expression = (if expRemove st \<noteq> []
                        then updateItemFunction_remove (expression @ '' REMOVE'') (expRemove st)
                        else expression)
      in \<lparr>expression = expression,
          expressionNames = (if expNames st \<noteq> [] then Some (expNames st) else None),
          expressionValues = (if expValues st \<noteq> [] then Some (expValues st) else None)\<rparr>)"

definition updateSupplementalDataFunction_update :: "json linked_map \<Rightarrow> update_document" where
  "updateSupplementalDataFunction_update args =
     (let st = updateSupplementalDataFunction_entries
                 (copyAndRemoveAllKeys args [''itemId'', ''expectedVersion'']) empty_update_state;
          expression = [];
          expression = (if expSet st \<noteq> [] then updateSupplementalDataFunction_set ''SET'' (expSet st) else expression);
          expression = (if expAdd st \<noteq> []
                        then updateSupplementalDataFunction_add (expression @ '' ADD'') (expAdd st) else expression);
          expression = (if expRemove st \<noteq> []
                        then updateSupplementalDataFunction_remove (expression @ '' REMOVE'') (expRemove st)
                        else expression)
      in \<lparr>expression = expression,
          expressionNames = (if expNames st \<noteq> [] then Some (expNames st) else None),
          expressionValues = (if expValues st \<noteq> [] then Some (expValues st) else None)\<rparr>)"

text \<open>
  The third copy has two more lines, after the loop over \<open>expSet\<close>: the
  \<open>dateAddedToDynamo\<close> clause and the value it refers to (\<open>stamp\<close> is the reading of
  \<open>$util.time.nowISO8601()\<close>).
\<close>

definition updateSupplementalDataRecordFunction_update :: "string \<Rightarrow> json linked_map \<Rightarrow> update_document" where
  "updateSupplementalDataRecordFunction_update stamp args =
     (let st = updateSupplementalDataRecordFunction_entries
                 (copyAndRemoveAllKeys args [''itemId'', ''expectedVersion'']) empty_update_state;
          expression = [];
          (expression, st) =
             (if expSet st \<noteq> []
              then (updateSupplementalDataRecordFunction_set ''SET'' (expSet st) @ dateAddedToDynamo_clause,
                    st\<lparr>expValues := map_put '':dateAddedToDynamo'' (toDynamoDB (JStr stamp))
                                        (expValues st)\<rparr>)
              else (expression, st));
          expression = (if expAdd st \<noteq> []
                        then updateSupplementalDataRecordFunction_add (expression @ '' ADD'') (expAdd st) else expression);
          expression = (if expRemove st \<noteq> []
                        then updateSupplementalDataRecordFunction_remove (expression @ '' REMOVE'') (expRemove st)
                        else expression)
      in \<lparr>expression = expression,
          expressionNames = (if expNames st \<noteq> [] then Some (expNames st) else None),
          expressionValues = (if expValues st \<noteq> [] then Some (expValues st) else None)\<rparr>)"

text \<open>
  What the claims say the expression is: the keys of the arguments, without \<open>itemId\<close>
  and \<open>expectedVersion\<close>, split by whether the value is null, a \<open>SET\<close> clause over the
  first kind and a \<open>REMOVE\<close> clause over the second.
\<close>

definition set_keys :: "json linked_map \<Rightarrow> string list" where
  "set_keys args = map fst (filter (\<lambda>e. snd e \<noteq> JNull)
     (filter (\<lambda>e. fst e \<noteq> ''itemId'' \<and> fst e \<noteq> ''expectedVersion'') args))"

definition remove_keys :: "json linked_map \<Rightarrow> string list" where
  "remove_keys args = map fst (filter (\<lambda>e. snd e = JNull)
     (filter (\<lambda>e. fst e \<noteq> ''itemId'' \<and> fst e \<noteq> ''expectedVersion'') args))"

fun comma_separated :: "string list \<Rightarrow> string" where
  "comma_separated [] = []"
| "comma_separated [x] = x"
| "comma_separated (x # y # ys) = x @ '', '' @ comma_separated (y # ys)"

definition set_clause :: "string list \<Rightarrow> string" where
  "set_clause ks = (if ks = [] then []
     else ''SET '' @ comma_separated (map (\<lambda>k. ''#'' @ k @ '' = :'' @ k) ks))"

definition remove_clause :: "string list \<Rightarrow> string" where
  "remove_clause ks = (if ks = [] then []
     else '' REMOVE '' @ comma_separated (map (\<lambda>k. ''#'' @ k) ks))"

text \<open>
  An argument map to evaluate the builder on.
\<close>

definition example_args :: "json linked_map" where
  "example_args = [(''TYPE'', JStr ''Item''), (''itemId'', JStr ''i 1''), (''copyrightStatement'', JNull),
                   (''expectedVersion'', JNum 2), (''copyrightStatus'', JStr ''Copyright'')]"

subsection \<open>The request templates and the keys they address\<close>

text \<open>
  A request template is evaluated in a context, which extends \<open>unicode\<close>: the
  arguments, the source object and the
  stash (JSON objects), the \<open>netid\<close> claim of the caller, the reading of
  \<open>$util.time.nowISO8601()\<close> (every call within one evaluation is given the same reading)
  and the value of \<open>$util.autoId()\<close>. Identifiers are strings or null: \<open>str\<close> reads
  anything else as null.

  Two points of the template language are not settled by the repository and are kept as
  parameters of the context. \<open>set_null_allowed\<close>: whether a \<open>#set\<close> whose right-hand
  side is null assigns null (Velocity's \<open>directive.set.null.allowed\<close>) or leaves the
  variable as it was (the default of Velocity 1.7). \<open>velocity2_truth\<close>: whether a
  condition reads an empty string or a zero as false (Velocity 2) or only null and
  \<open>false\<close> (Velocity 1.7). A reference that is null renders as its own text inside a
  string, and a \<open>$util.str\<close> function given null returns null.

  A \<open>#set\<close> is a \<open>let\<close>; it goes through \<open>set_var\<close> where the variable already
  has a value and the right-hand side may be null. Each template is given by the values it
  places under \<open>PK\<close>, \<open>SK\<close> and the index keys \<open>GSI1PK\<close>, \<open>GSI1SK\<close>,
  \<open>GSI2PK\<close>, \<open>GSI2SK\<close>: in the key of the request, in its key condition, or as
  attributes it writes. Where both revisions of the stack define a template, the values are
  the same in both.
\<close>

record ctx = unicode +
  ctx_args :: json
  ctx_source :: json
  ctx_stash :: json
  ctx_netid :: "string option"
  nowISO8601 :: string
  autoId :: string
  set_null_allowed :: bool
  velocity2_truth :: bool

definition set_var :: "ctx \<Rightarrow> string option \<Rightarrow> string option \<Rightarrow> string option" where
  "set_var c old rhs = (case rhs of Some v \<Rightarrow> Some v
                        | None \<Rightarrow> if set_null_allowed c then None else old)"

definition condition :: "ctx \<Rightarrow> string option \<Rightarrow> bool" where
  "condition c x = (case x of None \<Rightarrow> False | Some s \<Rightarrow> s \<noteq> [] \<or> \<not> velocity2_truth c)"

definition json_condition :: "ctx \<Rightarrow> json \<Rightarrow> bool" where
  "json_condition c v = (case v of JNull \<Rightarrow> False | JBool b \<Rightarrow> b
      | JStr s \<Rightarrow> s \<noteq> [] \<or> \<not> velocity2_truth c
      | JNum n \<Rightarrow> n \<noteq> 0 \<or> \<not> velocity2_truth c
      | JList xs \<Rightarrow> xs \<noteq> [] \<or> \<not> velocity2_truth c
      | JMap m \<Rightarrow> m \<noteq> [] \<or> \<not> velocity2_truth c)"

text \<open>
  \<open>getMergedItemRecordFunction\<close>. The third \<open>#set\<close> reads \<open>$is\<close>, a variable
  that is never set, where the comment above it announces \<open>$id\<close>; the second \<open>#set\<close>
  of \<open>$suppliedWebsiteId\<close> calls \<open>defaultIfNullOrBland\<close>, which \<open>$util\<close> does not
  have, so its right-hand side is null.
\<close>

definition getMergedItemRecordFunction :: "ctx \<Rightarrow> (string \<times> string) list" where
  "getMergedItemRecordFunction c =
     (let id = defaultIfNullOrBlank c (str (field (ctx_stash c) ''itemId''))
                                    (str (field (ctx_source c) ''itemId''));
          id = set_var c id (defaultIfNullOrBlank c id (str (field (ctx_source c) ''id'')));
          id = set_var c id (defaultIfNullOrBlank c None
                               (str (field (ctx_source c) ''itemMetadataId'')));
          id = set_var c id (defaultIfNullOrBlank c id (Some []));
          id = set_var c id (defaultIfNullOrBlank c id (Some []));
          id = toUpper c id;
          id = toReplace id '' '' [];
          pk = ''ITEM#'' @ render ''$id'' id
      in [(''PK'', pk)])"

definition getMergedItemRecordFunction_suppliedWebsiteId :: "ctx \<Rightarrow> string option" where
  "getMergedItemRecordFunction_suppliedWebsiteId c =
     (let suppliedWebsiteId = defaultIfNullOrBlank c (str (field (ctx_stash c) ''websiteId''))
                                (str (field (ctx_source c) ''suppliedWebsiteId''));
          suppliedWebsiteId = set_var c suppliedWebsiteId None
      in suppliedWebsiteId)"

text \<open>\<open>expandSubjectTermsFunction\<close>: one key per distinct non-empty subject uri, or a
  placeholder key when there is none.\<close>

fun expandSubjectTermsFunction_subjects ::
  "ctx \<Rightarrow> json list \<Rightarrow> string list \<Rightarrow> (string \<times> string) list list \<Rightarrow> (string \<times> string) list list" where
  "expandSubjectTermsFunction_subjects c [] uriList keys = keys"
| "expandSubjectTermsFunction_subjects c (subject # rest) uriList keys =
     (let uri = toUpper c (defaultIfNullOrBlank c (str (field subject ''uri'')) (Some []))
      in if uri \<noteq> Some [] \<and> render ''$uri'' uri \<notin> set uriList
         then expandSubjectTermsFunction_subjects c rest (uriList @ [render ''$uri'' uri])
                (keys @ [[(''PK'', ''SUBJECTTERM''), (''SK'', ''URI#'' @ render ''$uri'' uri)]])
         else expandSubjectTermsFunction_subjects c rest uriList keys)"

definition expandSubjectTermsFunction :: "ctx \<Rightarrow> (string \<times> string) list" where
  "expandSubjectTermsFunction c =
     (let subjects = field (field (ctx_stash c) ''itemRecord'') ''subjects'';
          keys = expandSubjectTermsFunction_subjects c (elements subjects) [] [];
          keys = (if keys \<noteq> [] then keys
                  else keys @ [[(''PK'', ''NoKeyToFind''), (''SK'', ''YieldEmptyResultSet'')]])
      in concat keys)"

text \<open>\<open>deletePortfolioContentForUserFunction\<close>: the keys are the \<open>PK\<close> and \<open>SK\<close> of
  the records the preceding function stashed, passed on as they are.\<close>

fun deletePortfolioContentForUserFunction_records ::
  "json list \<Rightarrow> (string \<times> json) list list \<Rightarrow> (string \<times> json) list list" where
  "deletePortfolioContentForUserFunction_records [] keys = keys"
| "deletePortfolioContentForUserFunction_records (entry # rest) keys =
     deletePortfolioContentForUserFunction_records rest
       (keys @ [[(''PK'', field entry ''PK''), (''SK'', field entry ''SK'')]])"

definition deletePortfolioContentForUserFunction :: "ctx \<Rightarrow> (string \<times> json) list list" where
  "deletePortfolioContentForUserFunction c =
     (let portfolioRecordsToDelete = field (ctx_stash c) ''portfolioRecordsToDelete'';
          keys = deletePortfolioContentForUserFunction_records (elements portfolioRecordsToDelete) []
      in if keys \<noteq> [] then keys
         else keys @ [[(''PK'', JStr ''NoKeyToFind''), (''SK'', JStr ''YieldEmptyResultSet'')]])"

text \<open>The three update functions: key, index attributes put into the arguments, update
  document and condition.\<close>

record update_request =
  key :: "(string \<times> string) list"
  index_attributes :: "(string \<times> string) list"
  update :: update_document
  condition_value :: "attribute_value option"

definition updateSupplementalDataRecordFunction :: "ctx \<Rightarrow> update_request" where
  "updateSupplementalDataRecordFunction c =
     (let args = entries (field (ctx_stash c) ''supplementalDataArgs'');
          id = str (field (JMap args) ''itemId'');
          websiteId = str (field (JMap args) ''websiteId'');
          id = defaultIfNullOrBlank c id (Some []);
          idNotUpper = id;
          id = toUpper c id;
          id = toReplace id '' '' [];
          websiteId = defaultIfNullOrBlank c websiteId (Some ''All'');
          websiteIdNotUpper = websiteId;
          websiteId = toUpper c websiteId;
          websiteId = toReplace websiteId '' '' [];
          pk = ''ITEM#'' @ render ''$id'' id;
          sk = ''SUPPLEMENTALDATA#'' @ render ''$websiteId'' websiteId;
          args = map_put ''TYPE'' (JStr ''SupplementalData'') args;
          args = map_put ''dateModifiedInDynamo'' (JStr (nowISO8601 c)) args;
          args = map_put ''GSI1PK'' (JStr ''SUPPLEMENTALDATA'') args;
          args = map_put ''GSI1SK'' (JStr (''ITEM#'' @ render ''$id'' id)) args;
          args = map_put ''id'' (json_of idNotUpper) args;
          args = map_put ''websiteId'' (json_of websiteIdNotUpper) args
      in \<lparr>key = [(''PK'', pk), (''SK'', sk)],
          index_attributes = [(''GSI1PK'', ''SUPPLEMENTALDATA''),
                              (''GSI1SK'', ''ITEM#'' @ render ''$id'' id)],
          update = updateSupplementalDataRecordFunction_update (nowISO8601 c) args,
          condition_value = (if json_condition c (field (JMap args) ''expectedVersion'')
                             then Some (toDynamoDB (field (JMap args) ''expectedVersion''))
                             else None)\<rparr>)"

text \<open>In the first revision the function puts \<open>title\<close> where the second sets
  \<open>websiteId\<close>; key and index attributes are the same.\<close>

definition updateSupplementalDataRecordFunction_first :: "ctx \<Rightarrow> update_request" where
  "updateSupplementalDataRecordFunction_first c =
     (let args = entries (field (ctx_stash c) ''supplementalDataArgs'');
          id = str (field (JMap args) ''itemId'');
          websiteId = str (field (JMap args) ''websiteId'');
          id = defaultIfNullOrBlank c id (Some []);
          idNotUpper = id;
          id = toUpper c id;
          id = toReplace id '' '' [];
          websiteId = defaultIfNullOrBlank c websiteId (Some ''All'');
          websiteIdNotUpper = websiteId;
          websiteId = toUpper c websiteId;
          websiteId = toReplace websiteId '' '' [];
          pk = ''ITEM#'' @ render ''$id'' id;
          sk = ''SUPPLEMENTALDATA#'' @ render ''$websiteId'' websiteId;
          args = map_put ''TYPE'' (JStr ''SupplementalData'') args;
          args = map_put ''dateModifiedInDynamo'' (JStr (nowISO8601 c)) args;
          args = map_put ''GSI1PK'' (JStr ''SUPPLEMENTALDATA'') args;
          args = map_put ''GSI1SK'' (JStr (''ITEM#'' @ render ''$id'' id)) args;
          args = map_put ''id'' (json_of idNotUpper) args;
          args = map_put ''title'' (json_of idNotUpper) args
      in \<lparr>key = [(''PK'', pk), (''SK'', sk)],
          index_attributes = [(''GSI1PK'', ''SUPPLEMENTALDATA''),
                              (''GSI1SK'', ''ITEM#'' @ render ''$id'' id)],
          update = updateSupplementalDataRecordFunction_update (nowISO8601 c) args,
          condition_value = (if json_condition c (field (JMap args) ''expectedVersion'')
                             then Some (toDynamoDB (field (JMap args) ''expectedVersion''))
                             else None)\<rparr>)"

definition updateItemFunction :: "ctx \<Rightarrow> update_request" where
  "updateItemFunction c =
     (let id = str (field (ctx_stash c) ''itemId'');
          id = defaultIfNullOrBlank c id (Some []);
          id = toUpper c id;
          id = toReplace id '' '' [];
          pk = ''ITEM#'' @ render ''$id'' id;
          sk = ''ITEM#'' @ render ''$id'' id;
          args = entries (field (ctx_stash c) ''itemArgs'');
          args = map_put ''TYPE'' (JStr ''Item'') args;
          args = map_put ''dateModifiedInDynamo'' (JStr (nowISO8601 c)) args
      in \<lparr>key = [(''PK'', pk), (''SK'', sk)],
          index_attributes = [],
          update = updateItemFunction_update args,
          condition_value = (if json_condition c (field (JMap args) ''expectedVersion'')
                             then Some (toDynamoDB (field (JMap args) ''expectedVersion''))
                             else None)\<rparr>)"

definition updateSupplementalDataFunction :: "ctx \<Rightarrow> update_request" where
  "updateSupplementalDataFunction c =
     (let id = str (field (ctx_stash c) ''itemId'');
          id = defaultIfNullOrBlank c id (Some []);
          id = toUpper c id;
          id = toReplace id '' '' [];
          pk = ''ITEM#'' @ render ''$id'' id;
          sk = ''SUPPLEMENTALDATA#'' @ render ''$id'' id;
          args = entries (field (ctx_stash c) ''supplementalDataArgs'');
          args = map_put ''TYPE'' (JStr ''SupplementalData'') args;
          args = map_put ''dateModifiedInDynamo'' (JStr (nowISO8601 c)) args
      in \<lparr>key = [(''PK'', pk), (''SK'', sk)],
          index_attributes = [],
          update = updateSupplementalDataFunction_update args,
          condition_value = (if json_condition c (field (JMap args) ''expectedVersion'')
                             then Some (toDynamoDB (field (JMap args) ''expectedVersion''))
                             else None)\<rparr>)"

text \<open>The resolvers with a data source of their own.\<close>

definition FileFileGroupResolver :: "ctx \<Rightarrow> (string \<times> string) list" where
  "FileFileGroupResolver c =
     (let id = str (field (ctx_source c) ''objectFileGroupId'');
          id = defaultIfNullOrBlank c id (Some []);
          id = toUpper c id;
          id = toReplace id '' '' [];
          fullId = ''FILEGROUP#'' @ render ''$id'' id
      in [(''PK'', ''FILEGROUP''), (''SK'', fullId)])"

definition FileGroupFilesResolver :: "ctx \<Rightarrow> (string \<times> string) list" where
  "FileGroupFilesResolver c =
     (let id = str (field (ctx_source c) ''objectFileGroupId'');
          id = defaultIfNullOrBlank c id (Some []);
          id = toUpper c id;
          id = toReplace id '' '' [];
          fullId = ''FILEGROUP#'' @ render ''$id'' id
      in [(''GSI1PK'', fullId), (''GSI1SK'', ''SORT#'')])"

definition ItemMetadataDefaultFileResolver :: "ctx \<Rightarrow> (string \<times> string) list" where
  "ItemMetadataDefaultFileResolver c =
     (let id = str (field (ctx_source c) ''defaultFilePath'');
          id = defaultIfNullOrBlank c id (Some []);
          id = toUpper c id;
          id = toReplace id '' '' [];
          pk = ''FILE'';
          sk = ''FILE#'' @ render ''$id'' id
      in [(''PK'', pk), (''SK'', sk)])"

definition ItemMetadataChildrenResolver :: "ctx \<Rightarrow> (string \<times> string) list" where
  "ItemMetadataChildrenResolver c =
     (let id = str (field (ctx_source c) ''id'');
          id = defaultIfNullOrBlank c id (Some []);
          id = toUpper c id;
          id = toReplace id '' '' [];
          fullId = ''ITEM#'' @ render ''$id'' id
      in [(''GSI1PK'', fullId)])"

definition ItemMetadataFilesResolver :: "ctx \<Rightarrow> (string \<times> string) list" where
  "ItemMetadataFilesResolver c =
     (let id = str (field (ctx_source c) ''objectFileGroupId'');
          id = defaultIfNullOrBlank c id (Some []);
          id = toUpper c id;
          id = toReplace id '' '' [];
          fullId = ''FILEGROUP#'' @ render ''$id'' id
      in [(''GSI1PK'', fullId), (''GSI1SK'', ''SORT#'')])"

definition MutationAddItemToWebsiteResolver :: "ctx \<Rightarrow> (string \<times> string) list" where
  "MutationAddItemToWebsiteResolver c =
     (let websiteId = str (field (ctx_args c) ''websiteId'');
          websiteId = defaultIfNullOrBlank c websiteId (Some []);
          websiteId = toUpper c websiteId;
          websiteId = toReplace websiteId '' '' [];
          itemId = str (field (ctx_args c) ''itemId'');
          itemId = defaultIfNullOrBlank c itemId (Some []);
          itemId = toUpper c itemId;
          itemId = toReplace itemId '' '' [];
          pk = ''WEBSITE#'' @ render ''$websiteId'' websiteId;
          sk = ''ITEM#'' @ render ''$itemId'' itemId;
          GSI1PK = pk;
          GSI1SK = ''ADDED#'' @ nowISO8601 c
      in [(''PK'', pk), (''SK'', sk), (''GSI1PK'', GSI1PK), (''GSI1SK'', GSI1SK)])"

definition MutationAddItemToHarvestResolver :: "ctx \<Rightarrow> (string \<times> string) list" where
  "MutationAddItemToHarvestResolver c =
     (let harvestItemId = str (field (ctx_args c) ''harvestItemId'');
          harvestItemId = defaultIfNullOrBlank c harvestItemId (Some []);
          harvestItemId = toUpper c harvestItemId;
          harvestItemId = toReplace harvestItemId '' '' [];
          sourceSystem = str (field (ctx_args c) ''sourceSystem'');
          sourceSystem = defaultIfNullOrBlank c sourceSystem (Some []);
          sourceSystem = toUpper c sourceSystem;
          sourceSystem = toReplace sourceSystem '' '' [];
          pk = ''ITEMTOHARVEST'';
          sk = ''SOURCESYSTEM#'' @ render ''$sourceSystem'' sourceSystem @ ''#'' @ render ''$harvestItemId'' harvestItemId
      in [(''PK'', pk), (''SK'', sk)])"

definition MutationRemoveItemFromWebsiteResolver :: "ctx \<Rightarrow> (string \<times> string) list" where
  "MutationRemoveItemFromWebsiteResolver c =
     (let websiteId = str (field (ctx_args c) ''websiteId'');
          websiteId = defaultIfNullOrBlank c websiteId (Some []);
          websiteId = toUpper c websiteId;
          websiteId = toReplace websiteId '' '' [];
          itemId = str (field (ctx_args c) ''itemId'');
          itemId = defaultIfNullOrBlank c itemId (Some []);
          itemId = toUpper c itemId;
          itemId = toReplace itemId '' '' [];
          pk = ''WEBSITE#'' @ render ''$websiteId'' websiteId;
          sk = ''ITEM#'' @ render ''$itemId'' itemId
      in [(''PK'', pk), (''SK'', sk)])"

definition MutationRemoveDefaultImageForWebsiteResolver :: "ctx \<Rightarrow> (string \<times> string) list" where
  "MutationRemoveDefaultImageForWebsiteResolver c =
     (let itemId = str (field (ctx_args c) ''itemId'');
          itemId = defaultIfNullOrBlank c itemId (Some []);
          itemId = toUpper c itemId;
          itemId = toReplace itemId '' '' [];
          websiteId = str (field (ctx_args c) ''websiteId'');
          websiteId = defaultIfNullOrBlank c websiteId (Some ''All'');
          websiteId = toUpper c websiteId;
          websiteId = toReplace websiteId '' '' [];
          pk = ''ITEM#'' @ render ''$itemId'' itemId;
          sk = ''SUPPLEMENTALDATA#'' @ render ''$websiteId'' websiteId
      in [(''PK'', pk), (''SK'', sk)])"

definition MutationRemovePortfolioItemResolver :: "ctx \<Rightarrow> (string \<times> string) list" where
  "MutationRemovePortfolioItemResolver c =
     (let portfolioUserId = ctx_netid c;
          portfolioCollectionId = defaultIfNullOrBlank c (str (field (ctx_args c) ''portfolioCollectionId'')) (Some []);
          portfolioCollectionId = toUpper c portfolioCollectionId;
          portfolioCollectionId = toReplace portfolioCollectionId '' '' [];
          portfolioItemId = defaultIfNullOrBlank c (str (field (ctx_args c) ''portfolioItemId'')) (Some []);
          portfolioItemId = toUpper c portfolioItemId;
          portfolioItemId = toReplace portfolioItemId '' '' [];
          pk = ''PORTFOLIO'';
          sk = ''USER#'' @ render ''$util.str.toUpper($portfolioUserId)'' (toUpper c portfolioUserId) @ ''#'' @ render ''$portfolioCollectionId'' portfolioCollectionId @ ''#'' @ render ''$portfolioItemId'' portfolioItemId
      in [(''PK'', pk), (''SK'', sk)])"

definition MutationSaveFileLastProcessedDateResolver :: "ctx \<Rightarrow> (string \<times> string) list" where
  "MutationSaveFileLastProcessedDateResolver c =
     (let itemId = str (field (ctx_args c) ''itemId'');
          itemId = defaultIfNullOrBlank c itemId (Some []);
          itemId = toUpper c itemId;
          itemId = toReplace itemId '' '' [];
          pk = ''FILETOPROCESS'';
          sk = ''FILEPATH#'' @ render ''$itemId'' itemId;
          dateLastProcessed = nowISO8601 c;
          GSI2SK = ''DATELASTPROCESSED#'' @ dateLastProcessed
      in [(''PK'', pk), (''SK'', sk), (''GSI2PK'', ''FILETOPROCESS''), (''GSI2SK'', GSI2SK)])"

definition MutationSavePortfolioCollectionResolver :: "ctx \<Rightarrow> (string \<times> string) list" where
  "MutationSavePortfolioCollectionResolver c =
     (let portfolioUserId = ctx_netid c;
          portfolioCollectionId = defaultIfNullOrBlank c (str (field (ctx_args c) ''portfolioCollectionId'')) (Some (autoId c));
          portfolioCollectionId = defaultIfNullOrBlank c portfolioCollectionId (Some []);
          portfolioCollectionId = toUpper c portfolioCollectionId;
          portfolioCollectionId = toReplace portfolioCollectionId '' '' [];
          privacy = defaultIfNullOrBlank c (str (field (ctx_args c) ''privacy'')) (Some ''private'');
          pk = ''PORTFOLIO'';
          sk = toUpperCase c (''USER#'' @ render ''$portfolioUserId'' portfolioUserId @ ''#'' @ render ''$portfolioCollectionId'' portfolioCollectionId)
      in [(''PK'', pk), (''SK'', sk)] @
         (if privacy = Some ''private'' then []
          else [(''GSI1PK'', ''PORTFOLIOCOLLECTION''),
                (''GSI1SK'', ''PORTFOLIOCOLLECTION#'' @ render ''$util.str.toUpper($portfolioCollectionId)'' (toUpper c portfolioCollectionId)),
                (''GSI2PK'', ''PORTFOLIOCOLLECTION''),
                (''GSI2SK'', toUpperCase c (render ''$privacy'' privacy @ ''#'' @ render ''$portfolioCollectionId'' portfolioCollectionId))]))"

definition MutationSavePortfolioItemResolver :: "ctx \<Rightarrow> (string \<times> string) list" where
  "MutationSavePortfolioItemResolver c =
     (let portfolioUserId = ctx_netid c;
          portfolioCollectionId = str (field (ctx_args c) ''portfolioCollectionId'');
          portfolioCollectionId = defaultIfNullOrBlank c portfolioCollectionId (Some []);
          portfolioCollectionId = toUpper c portfolioCollectionId;
          portfolioCollectionId = toReplace portfolioCollectionId '' '' [];
          portfolioItemId = defaultIfNullOrBlank c (str (field (ctx_args c) ''portfolioItemId'')) (str (field (ctx_args c) ''internalItemId''));
          portfolioItemId = set_var c portfolioItemId (defaultIfNullOrBlank c portfolioItemId (str (field (ctx_args c) ''uri'')));
          portfolioItemId = defaultIfNullOrBlank c portfolioItemId (Some (autoId c));
          pk = ''PORTFOLIO'';
          sk = toUpperCase c (''USER#'' @ render ''$portfolioUserId'' portfolioUserId @ ''#'' @ render ''$portfolioCollectionId'' portfolioCollectionId @ ''#'' @ render ''$portfolioItemId'' portfolioItemId)
      in [(''PK'', pk), (''SK'', sk)] @
         (if \<not> condition c (defaultIfNullOrBlank c (str (field (ctx_args c) ''internalItemId'')) (Some [])) then []
          else [(''GSI1PK'', ''PORTFOLIOITEM''),
                (''GSI1SK'', toUpperCase c (''INTERNALITEM#'' @ render ''$portfolioItemId'' portfolioItemId))]))"

definition MutationSavePortfolioUserResolver :: "ctx \<Rightarrow> (string \<times> string) list" where
  "MutationSavePortfolioUserResolver c =
     (let portfolioUserId = ctx_netid c;
          pk = ''PORTFOLIO'';
          sk = ''USER#'' @ render ''$util.str.toUpper($portfolioUserId)'' (toUpper c portfolioUserId)
      in [(''PK'', pk), (''SK'', sk)])"

definition PortfolioUserPortfolioCollectionsResolver :: "ctx \<Rightarrow> (string \<times> string) list" where
  "PortfolioUserPortfolioCollectionsResolver c =
     (let portfolioUserId = str (field (ctx_source c) ''portfolioUserId'');
          portfolioUserId = defaultIfNullOrBlank c portfolioUserId (Some []);
          portfolioUserId = toUpper c portfolioUserId;
          portfolioUserId = toReplace portfolioUserId '' '' []
      in [(''PK'', ''PORTFOLIO''), (''SK'', ''USER#'' @ render ''$portfolioUserId'' portfolioUserId @ ''#'')])"

definition PortfolioCollectionPortfolioItemsResolver :: "ctx \<Rightarrow> (string \<times> string) list" where
  "PortfolioCollectionPortfolioItemsResolver c =
     (let portfolioUserId = str (field (ctx_source c) ''portfolioUserId'');
          portfolioUserId = defaultIfNullOrBlank c portfolioUserId (Some []);
          portfolioUserId = toUpper c portfolioUserId;
          portfolioUserId = toReplace portfolioUserId '' '' [];
          portfolioCollectionId = str (field (ctx_source c) ''portfolioCollectionId'');
          portfolioCollectionId = defaultIfNullOrBlank c portfolioCollectionId (Some []);
          portfolioCollectionId = toUpper c portfolioCollectionId;
          portfolioCollectionId = toReplace portfolioCollectionId '' '' []
      in [(''PK'', ''PORTFOLIO''), (''SK'', ''USER#'' @ render ''$portfolioUserId'' portfolioUserId @ ''#'' @ render ''$portfolioCollectionId'' portfolioCollectionId @ ''#'')])"

definition QueryGetExposedPortfolioCollectionResolver :: "ctx \<Rightarrow> (string \<times> string) list" where
  "QueryGetExposedPortfolioCollectionResolver c =
     (let portfolioCollectionId = str (field (ctx_args c) ''portfolioCollectionId'');
          portfolioCollectionId = defaultIfNullOrBlank c portfolioCollectionId (Some []);
          portfolioCollectionId = toUpper c portfolioCollectionId;
          portfolioCollectionId = toReplace portfolioCollectionId '' '' []
      in [(''GSI1PK'', ''PORTFOLIOCOLLECTION''), (''GSI1SK'', toUpperCase c (''PORTFOLIOCOLLECTION#'' @ render ''$portfolioCollectionId'' portfolioCollectionId))])"

definition QueryGetFileResolver :: "ctx \<Rightarrow> (string \<times> string) list" where
  "QueryGetFileResolver c =
     (let id = str (field (ctx_args c) ''id'');
          id = defaultIfNullOrBlank c id (Some []);
          id = toUpper c id;
          id = toReplace id '' '' [];
          fullId = ''FILE#'' @ render ''$id'' id
      in [(''PK'', ''FILE''), (''SK'', fullId)])"

definition QueryGetFileGroupResolver :: "ctx \<Rightarrow> (string \<times> string) list" where
  "QueryGetFileGroupResolver c =
     (let id = str (field (ctx_args c) ''id'');
          id = defaultIfNullOrBlank c id (Some []);
          id = toUpper c id;
          id = toReplace id '' '' [];
          fullId = ''FILEGROUP#'' @ render ''$id'' id
      in [(''PK'', ''FILEGROUP''), (''SK'', fullId)])"

definition QueryGetFileToProcessRecordResolver :: "ctx \<Rightarrow> (string \<times> string) list" where
  "QueryGetFileToProcessRecordResolver c =
     (let id = str (field (ctx_args c) ''filePath'');
          id = defaultIfNullOrBlank c id (Some []);
          id = toUpper c id;
          id = toReplace id '' '' [];
          fullId = ''FILEPATH#'' @ render ''$id'' id
      in [(''PK'', ''FILETOPROCESS''), (''SK'', fullId)])"

definition QueryGetPortfolioCollectionResolver :: "ctx \<Rightarrow> (string \<times> string) list" where
  "QueryGetPortfolioCollectionResolver c =
     (let portfolioUserId = ctx_netid c;
          portfolioCollectionId = str (field (ctx_args c) ''portfolioCollectionId'');
          portfolioCollectionId = defaultIfNullOrBlank c portfolioCollectionId (Some []);
          portfolioCollectionId = toUpper c portfolioCollectionId;
          portfolioCollectionId = toReplace portfolioCollectionId '' '' []
      in [(''PK'', ''PORTFOLIO''), (''SK'', toUpperCase c (''USER#'' @ render ''$portfolioUserId'' portfolioUserId @ ''#'' @ render ''$portfolioCollectionId'' portfolioCollectionId))])"

definition QueryGetPortfolioItemResolver :: "ctx \<Rightarrow> (string \<times> string) list" where
  "QueryGetPortfolioItemResolver c =
     (let portfolioUserId = ctx_netid c;
          portfolioCollectionId = str (field (ctx_args c) ''portfolioCollectionId'');
          portfolioCollectionId = defaultIfNullOrBlank c portfolioCollectionId (Some []);
          portfolioCollectionId = toUpper c portfolioCollectionId;
          portfolioCollectionId = toReplace portfolioCollectionId '' '' [];
          portfolioItemId = str (field (ctx_args c) ''portfolioItemId'');
          portfolioItemId = defaultIfNullOrBlank c portfolioItemId (Some []);
          portfolioItemId = toUpper c portfolioItemId;
          portfolioItemId = toReplace portfolioItemId '' '' []
      in [(''PK'', ''PORTFOLIO''), (''SK'', toUpperCase c (''USER#'' @ render ''$portfolioUserId'' portfolioUserId @ ''#'' @ render ''$portfolioCollectionId'' portfolioCollectionId @ ''#'' @ render ''$portfolioItemId'' portfolioItemId))])"

definition QueryGetPortfolioUserResolver :: "ctx \<Rightarrow> (string \<times> string) list" where
  "QueryGetPortfolioUserResolver c =
     (let portfolioUserId = ctx_netid c
      in [(''PK'', ''PORTFOLIO''), (''SK'', toUpperCase c (''USER#'' @ render ''$portfolioUserId'' portfolioUserId))])"

definition QueryGetWebsiteResolver :: "ctx \<Rightarrow> (string \<times> string) list" where
  "QueryGetWebsiteResolver c =
     (let id = str (field (ctx_args c) ''id'');
          id = defaultIfNullOrBlank c id (Some []);
          id = toUpper c id;
          id = toReplace id '' '' [];
          fullId = ''WEBSITE#'' @ render ''$id'' id
      in [(''PK'', ''WEBSITE''), (''SK'', fullId)])"

definition QueryListFileGroupsResolver :: "ctx \<Rightarrow> (string \<times> string) list" where
  "QueryListFileGroupsResolver c = [(''PK'', ''FILEGROUP'')]"

definition QueryListFileGroupsByStorageSystemResolver :: "ctx \<Rightarrow> (string \<times> string) list" where
  "QueryListFileGroupsByStorageSystemResolver c =
     (let storageSystem = str (field (ctx_args c) ''storageSystem'');
          storageSystem = defaultIfNullOrBlank c storageSystem (Some []);
          storageSystem = toUpper c storageSystem;
          storageSystem = toReplace storageSystem '' '' [];
          typeOfData = str (field (ctx_args c) ''typeOfData'');
          typeOfData = defaultIfNullOrBlank c typeOfData (Some []);
          typeOfData = toUpper c typeOfData;
          typeOfData = toReplace typeOfData '' '' [];
          fullId = ''FILESYSTEM#'' @ render ''$storageSystem'' storageSystem @ ''#'' @ render ''$typeOfData'' typeOfData;
          fullId = replace fullId '' '' []
      in [(''GSI2PK'', fullId)])"

definition QueryListFilesToProcessResolver :: "ctx \<Rightarrow> (string \<times> string) list" where
  "QueryListFilesToProcessResolver c =
     (let dateLastProcessedBefore = str (field (ctx_args c) ''dateLastProcessedBefore'');
          dateLastProcessedBefore = defaultIfNullOrBlank c dateLastProcessedBefore (Some []);
          dateLastProcessedBefore = toUpper c dateLastProcessedBefore;
          dateLastProcessedBefore = toReplace dateLastProcessedBefore '' '' [];
          pk = ''FILETOPROCESS'';
          sk = ''DATELASTPROCESSED#'' @ render ''$dateLastProcessedBefore'' dateLastProcessedBefore
      in [(''GSI2PK'', pk), (''GSI2SK'', sk)])"

definition QueryListFileGroupsForS3Resolver :: "ctx \<Rightarrow> (string \<times> string) list" where
  "QueryListFileGroupsForS3Resolver c =
     (let fullId = ''FILESYSTEM#S3#RBSCWEBSITEBUCKET''
      in [(''GSI2PK'', fullId)])"

definition QueryListItemsBySourceSystemResolver :: "ctx \<Rightarrow> (string \<times> string) list" where
  "QueryListItemsBySourceSystemResolver c =
     (let id = str (field (ctx_args c) ''id'');
          id = defaultIfNullOrBlank c id (Some []);
          id = toUpper c id;
          id = toReplace id '' '' [];
          fullId = ''SOURCESYSTEM#'' @ render ''$id'' id
      in [(''GSI2PK'', fullId), (''GSI2SK'', ''SORT#'')])"

definition QueryListItemsByWebsiteResolver :: "ctx \<Rightarrow> (string \<times> string) list" where
  "QueryListItemsByWebsiteResolver c =
     (let id = str (field (ctx_args c) ''id'');
          id = defaultIfNullOrBlank c id (Some []);
          id = toUpper c id;
          id = toReplace id '' '' [];
          fullId = ''WEBSITE#'' @ render ''$id'' id
      in [(''PK'', fullId)])"

definition QueryListPublicPortfolioCollectionsResolver :: "ctx \<Rightarrow> (string \<times> string) list" where
  "QueryListPublicPortfolioCollectionsResolver c = [(''GSI2PK'', ''PORTFOLIOCOLLECTION''), (''GSI2SK'', toUpperCase c ''PUBLIC#'')]"

definition QueryListPublicHighlightedPortfolioCollectionsResolver :: "ctx \<Rightarrow> (string \<times> string) list" where
  "QueryListPublicHighlightedPortfolioCollectionsResolver c = [(''GSI2PK'', ''PORTFOLIOCOLLECTION''), (''GSI2SK'', toUpperCase c ''PUBLIC#'')]"

definition QueryListPublicFeaturedPortfolioCollectionsResolver :: "ctx \<Rightarrow> (string \<times> string) list" where
  "QueryListPublicFeaturedPortfolioCollectionsResolver c = [(''GSI2PK'', ''PORTFOLIOCOLLECTION''), (''GSI2SK'', toUpperCase c ''PUBLIC#'')]"

definition QueryListSupplementalDataRecordsResolver :: "ctx \<Rightarrow> (string \<times> string) list" where
  "QueryListSupplementalDataRecordsResolver c =
     (let pk = ''SUPPLEMENTALDATA''
      in [(''GSI1PK'', pk)])"

definition QueryListWebsitesResolver :: "ctx \<Rightarrow> (string \<times> string) list" where
  "QueryListWebsitesResolver c = [(''PK'', ''WEBSITE'')]"

definition WebsiteWebsiteItemsResolver :: "ctx \<Rightarrow> (string \<times> string) list" where
  "WebsiteWebsiteItemsResolver c =
     (let id = str (field (ctx_source c) ''id'');
          id = defaultIfNullOrBlank c id (Some []);
          id = toUpper c id;
          id = toReplace id '' '' [];
          fullId = ''WEBSITE#'' @ render ''$id'' id
      in [(''PK'', fullId)])"

definition findPortfolioContentForUserFunction :: "ctx \<Rightarrow> (string \<times> string) list" where
  "findPortfolioContentForUserFunction c =
     (let portfolioUserId = str (field (ctx_stash c) ''portfolioUserId'');
          portfolioUserId = defaultIfNullOrBlank c portfolioUserId (Some []);
          portfolioUserId = toUpper c portfolioUserId;
          portfolioUserId = toReplace portfolioUserId '' '' [];
          portfolioCollectionId = str (field (ctx_stash c) ''portfolioCollectionId'');
          portfolioCollectionId = defaultIfNullOrBlank c portfolioCollectionId (Some []);
          portfolioCollectionId = toUpper c portfolioCollectionId;
          portfolioCollectionId = toReplace portfolioCollectionId '' '' [];
          pk = ''PORTFOLIO'';
          sk = (if portfolioCollectionId = Some [] then ''USER#'' @ render ''$portfolioUserId'' portfolioUserId
                else ''USER#'' @ render ''$portfolioUserId'' portfolioUserId @ ''#'' @ render ''$portfolioCollectionId'' portfolioCollectionId)
      in [(''PK'', pk), (''SK'', sk)])"

definition MutationAddItemMetadataToWebsiteResolver :: "ctx \<Rightarrow> (string \<times> string) list" where
  "MutationAddItemMetadataToWebsiteResolver c =
     (let websiteId = str (field (field (ctx_args c) ''input'') ''websiteId'');
          websiteId = defaultIfNullOrBlank c websiteId (Some []);
          websiteId = toUpper c websiteId;
          websiteId = toReplace websiteId '' '' [];
          itemMetadataId = str (field (field (ctx_args c) ''input'') ''itemMetadataId'');
          itemMetadataId = defaultIfNullOrBlank c itemMetadataId (Some []);
          itemMetadataId = toUpper c itemMetadataId;
          itemMetadataId = toReplace itemMetadataId '' '' [];
          pk = ''WEBSITE#'' @ render ''$websiteId'' websiteId;
          sk = ''ITEM#'' @ render ''$itemMetadataId'' itemMetadataId;
          GSI1PK = pk;
          GSI1SK = ''ADDED#'' @ nowISO8601 c
      in [(''PK'', pk), (''SK'', sk), (''GSI1PK'', GSI1PK), (''GSI1SK'', GSI1SK)])"

subsection \<open>The response templates\<close>

text \<open>
  A response template sees the result of the data source, the error it may have set
  (message and type), the stash, and, for the templates that name it, the table of the data
  source. \<open>$util.error\<close> ends the evaluation with a GraphQL field error, the left
  summand of the result; otherwise the template renders a JSON document.
  \<open>MappingTemplate.dynamoDbResultItem()\<close> is the CDK's template
  \<open>$util.toJson($ctx.result)\<close>. The context of a response extends \<open>unicode\<close> as
  that of a request does.
\<close>

record response_ctx = unicode +
  ctx_error :: "(string \<times> string) option"
  ctx_result :: json
  response_stash :: json
  tableName :: string
  response_set_null_allowed :: bool

definition dynamoDbResultItem :: "response_ctx \<Rightarrow> (string \<times> string) + json" where
  "dynamoDbResultItem rc = Inr (ctx_result rc)"

text \<open>The two forms of the list responses: the token passed through
  \<open>defaultIfNullOrBlank\<close>, or as it is.\<close>

definition items_defaulted_token :: "response_ctx \<Rightarrow> (string \<times> string) + json" where
  "items_defaulted_token rc =
     Inr (JMap [(''items'', field (ctx_result rc) ''items''),
                (''nextToken'', json_of (defaultIfNullOrBlank rc
                                           (str (field (ctx_result rc) ''nextToken'')) None))])"

definition items_token :: "response_ctx \<Rightarrow> (string \<times> string) + json" where
  "items_token rc =
     Inr (JMap [(''items'', field (ctx_result rc) ''items''),
                (''nextToken'', field (ctx_result rc) ''nextToken'')])"

text \<open>The responses that start with the guard on \<open>$ctx.error\<close>.\<close>

definition update_response :: "response_ctx \<Rightarrow> (string \<times> string) + json" where
  "update_response rc =
     (case ctx_error rc of
        Some err \<Rightarrow> Inl (fst err, snd err)
      | None \<Rightarrow> Inr (ctx_result rc))"

definition removed_keys :: "string list" where
  "removed_keys = [''PK'', ''SK'', ''TYPE'', ''GSI1PK'', ''GSI1SK'', ''GSI2PK'', ''GSI2SK'',
                   ''dateAddedToDynamo'', ''dateModifiedInDynamo'']"

text \<open>\<open>#set($map[$key] = $value)\<close>, under the engine's reading of a null right-hand
  side.\<close>

definition set_entry :: "response_ctx \<Rightarrow> string \<Rightarrow> json \<Rightarrow> json linked_map \<Rightarrow> json linked_map" where
  "set_entry rc k v m = (if v = JNull \<and> \<not> response_set_null_allowed rc then m else map_put k v m)"

fun set_entries :: "response_ctx \<Rightarrow> json linked_map \<Rightarrow> json linked_map \<Rightarrow> json linked_map" where
  "set_entries rc [] m = m"
| "set_entries rc (entry # rest) m = set_entries rc rest (set_entry rc (fst entry) (snd entry) m)"

fun getMergedItemRecordFunction_items ::
  "response_ctx \<Rightarrow> string option \<Rightarrow> json list \<Rightarrow> json linked_map \<Rightarrow> json linked_map" where
  "getMergedItemRecordFunction_items rc suppliedWebsiteId [] results = results"
| "getMergedItemRecordFunction_items rc suppliedWebsiteId (item # rest) results =
     (let websiteInRecord = toUpper rc (defaultIfNullOrBlank rc (str (field item ''websiteId'')) (Some []))
      in getMergedItemRecordFunction_items rc suppliedWebsiteId rest
           (if field item ''TYPE'' = JStr ''Item''
            then set_entry rc ''suppliedWebsiteId'' (json_of suppliedWebsiteId) (entries item)
            else if field item ''TYPE'' = JStr ''ParentOverride''
            then set_entry rc ''parentId'' (field item ''parentId'') results
            else if field item ''TYPE'' = JStr ''SupplementalData''
                    \<and> (suppliedWebsiteId = websiteInRecord \<or> websiteInRecord = Some ''ALL'')
            then set_entries rc (copyAndRemoveAllKeys (entries item) removed_keys) results
            else results))"

definition getMergedItemRecordFunction_response :: "response_ctx \<Rightarrow> (string \<times> string) + json" where
  "getMergedItemRecordFunction_response rc =
     (case ctx_error rc of
        Some err \<Rightarrow> Inl (fst err, snd err)
      | None \<Rightarrow>
          (let suppliedWebsiteId = toUpper rc (defaultIfNullOrBlank rc
                 (str (field (response_stash rc) ''suppliedWebsiteId'')) (Some []))
           in Inr (JMap (getMergedItemRecordFunction_items rc suppliedWebsiteId
                           (elements (field (ctx_result rc) ''items'')) []))))"

fun expandSubjectTermsFunction_found :: "response_ctx \<Rightarrow> json list \<Rightarrow> json list \<Rightarrow> json list" where
  "expandSubjectTermsFunction_found rc [] subjectsAfter = subjectsAfter"
| "expandSubjectTermsFunction_found rc (item # rest) subjectsAfter =
     expandSubjectTermsFunction_found rc rest
       (subjectsAfter @ [JMap (set_entries rc (copyAndRemoveAllKeys (entries item) removed_keys) [])])"

text \<open>The inner loop runs over \<open>$ctx.stash.subjectsAfter\<close>, which no template stashes.\<close>

fun expandSubjectTermsFunction_inner ::
  "response_ctx \<Rightarrow> json \<Rightarrow> string option \<Rightarrow> json list \<Rightarrow> bool \<Rightarrow> json list \<Rightarrow> json list" where
  "expandSubjectTermsFunction_inner rc subject uriToFind [] subjectInAfterList subjectsAfter = subjectsAfter"
| "expandSubjectTermsFunction_inner rc subject uriToFind (subjectAfter # rest) subjectInAfterList subjectsAfter =
     (let subjectInAfterList =
            (if uriToFind = toUpper rc (defaultIfNullOrBlank rc (str (field subjectAfter ''uri'')) (Some []))
             then True else subjectInAfterList)
      in expandSubjectTermsFunction_inner rc subject uriToFind rest subjectInAfterList
           (if \<not> subjectInAfterList then subjectsAfter @ [subject] else subjectsAfter))"

fun expandSubjectTermsFunction_before :: "response_ctx \<Rightarrow> json list \<Rightarrow> json list \<Rightarrow> json list" where
  "expandSubjectTermsFunction_before rc [] subjectsAfter = subjectsAfter"
| "expandSubjectTermsFunction_before rc (subject # rest) subjectsAfter =
     expandSubjectTermsFunction_before rc rest
       (if defaultIfNullOrBlank rc (str (field subject ''uri'')) (Some []) = Some []
        then subjectsAfter @ [subject]
        else expandSubjectTermsFunction_inner rc subject
               (toUpper rc (defaultIfNullOrBlank rc (str (field subject ''uri'')) (Some [])))
               (elements (field (response_stash rc) ''subjectsAfter'')) False subjectsAfter)"

definition expandSubjectTermsFunction_response :: "response_ctx \<Rightarrow> (string \<times> string) + json" where
  "expandSubjectTermsFunction_response rc =
     (case ctx_error rc of
        Some err \<Rightarrow> Inl (fst err, snd err)
      | None \<Rightarrow>
          (let subjectsAfter = [];
               subjectsAfter =
                 (if field (response_stash rc) ''queryAttempted'' = JNum 1
                  then expandSubjectTermsFunction_found rc
                         (elements (field (field (ctx_result rc) ''data'') (tableName rc)))
                         subjectsAfter
                  else subjectsAfter);
               subjectsAfter = expandSubjectTermsFunction_before rc
                                 (elements (field (response_stash rc) ''subjectsBefore''))
                                 subjectsAfter;
               itemRecord = entries (field (response_stash rc) ''itemRecord'');
               itemRecord = map_put ''subjects'' (JList subjectsAfter) itemRecord
           in Inr (JMap itemRecord)))"

definition findPortfolioContentForUserFunction_response ::
  "response_ctx \<Rightarrow> (string \<times> string) + json" where
  "findPortfolioContentForUserFunction_response rc =
     (case ctx_error rc of
        Some err \<Rightarrow> Inl (fst err, snd err)
      | None \<Rightarrow> Inr (JMap [(''items'', field (ctx_result rc) ''items'')]))"

definition deletePortfolioContentForUserFunction_response ::
  "response_ctx \<Rightarrow> (string \<times> string) + json" where
  "deletePortfolioContentForUserFunction_response rc =
     (case ctx_error rc of
        Some err \<Rightarrow> Inl (fst err, snd err)
      | None \<Rightarrow>
          Inr (JMap [(''recordsDeleted'', field (response_stash rc) ''recordsCountToDelete'')]))"

fun QueryListSupplementalDataRecordsResolver_items ::
  "response_ctx \<Rightarrow> string option \<Rightarrow> string option \<Rightarrow> json list \<Rightarrow> json list \<Rightarrow> json list" where
  "QueryListSupplementalDataRecordsResolver_items rc ident websiteId [] results = results"
| "QueryListSupplementalDataRecordsResolver_items rc ident websiteId (item # rest) results =
     QueryListSupplementalDataRecordsResolver_items rc ident websiteId rest
       (if ident = Some [] \<and> websiteId = Some [] then results @ [item]
        else if ident \<noteq> Some [] \<and> toUpper rc (str (field item ''id'')) = ident
                \<and> websiteId \<noteq> Some [] \<and> toUpper rc (str (field item ''websiteId'')) = websiteId
        then results @ [item]
        else if ident \<noteq> Some [] \<and> toUpper rc (str (field item ''id'')) = ident \<and> websiteId = Some []
        then results @ [item]
        else if websiteId \<noteq> Some [] \<and> toUpper rc (str (field item ''websiteId'')) = websiteId
                \<and> ident = Some []
        then results @ [item]
        else results)"

definition QueryListSupplementalDataRecordsResolver_response ::
  "response_ctx \<Rightarrow> (string \<times> string) + json" where
  "QueryListSupplementalDataRecordsResolver_response rc =
     (case ctx_error rc of
        Some err \<Rightarrow> Inl (fst err, snd err)
      | None \<Rightarrow>
          (let id = toUpper rc (str (field (response_stash rc) ''id''));
               websiteId = toUpper rc (str (field (response_stash rc) ''websiteId''));
               results = QueryListSupplementalDataRecordsResolver_items rc id websiteId
                           (elements (field (ctx_result rc) ''items'')) []
           in Inr (JMap [(''items'', JList results),
                         (''nextToken'', field (ctx_result rc) ''nextToken'')])))"

text \<open>The two other responses with a body of their own; neither has the guard.\<close>

fun ItemMetadataChildrenResolver_items :: "response_ctx \<Rightarrow> json list \<Rightarrow> json list" where
  "ItemMetadataChildrenResolver_items rc [] = []"
| "ItemMetadataChildrenResolver_items rc (item # rest) =
     JMap (set_entry rc ''suppliedWebsiteId'' (field (response_stash rc) ''websiteId'')
             (entries item))
     # ItemMetadataChildrenResolver_items rc rest"

definition ItemMetadataChildrenResolver_response :: "response_ctx \<Rightarrow> (string \<times> string) + json" where
  "ItemMetadataChildrenResolver_response rc =
     Inr (JMap [(''items'', JList (ItemMetadataChildrenResolver_items rc
                                      (elements (field (ctx_result rc) ''items'')))),
                (''nextToken'', json_of (defaultIfNullOrBlank rc
                                           (str (field (ctx_result rc) ''nextToken'')) None))])"

definition QueryGetExposedPortfolioCollectionResolver_response ::
  "response_ctx \<Rightarrow> (string \<times> string) + json" where
  "QueryGetExposedPortfolioCollectionResolver_response rc =
     (case elements (field (ctx_result rc) ''items'') of
        [] \<Rightarrow> Inr (JMap [])
      | first # others \<Rightarrow> Inr first)"

text \<open>Every function and resolver of the two revisions, with its response template.\<close>

definition guarded_responses :: "(string \<times> (response_ctx \<Rightarrow> (string \<times> string) + json)) list" where
  "guarded_responses =
     [(''getMergedItemRecordFunction'', getMergedItemRecordFunction_response),
      (''expandSubjectTermsFunction'', expandSubjectTermsFunction_response),
      (''findPortfolioContentForUserFunction'', findPortfolioContentForUserFunction_response),
      (''deletePortfolioContentForUserFunction'', deletePortfolioContentForUserFunction_response),
      (''updateSupplementalDataRecordFunction'', update_response),
      (''updateItemFunction'', update_response),
      (''updateSupplementalDataFunction'', update_response),
      (''QueryListSupplementalDataRecordsResolver'', QueryListSupplementalDataRecordsResolver_response)]"

definition unguarded_responses :: "(string \<times> (response_ctx \<Rightarrow> (string \<times> string) + json)) list" where
  "unguarded_responses =
     [(''QueryShowItemByWebsite'', dynamoDbResultItem),
      (''FileFileGroupResolver'', dynamoDbResultItem),
      (''FileGroupFilesResolver'', items_defaulted_token),
      (''ItemMetadataDefaultFileResolver'', dynamoDbResultItem),
      (''ItemMetadataParentResolver'', dynamoDbResultItem),
      (''ItemMetadataChildrenResolver'', ItemMetadataChildrenResolver_response),
      (''ItemMetadataFilesResolver'', items_defaulted_token),
      (''MutationAddItemMetadataToWebsiteResolver'', dynamoDbResultItem),
      (''MutationReplaceCopyrightStatement'', dynamoDbResultItem),
      (''MutationReplaceDefaultImageResolver'', dynamoDbResultItem),
      (''MutationReplacePartiallyDigitizedResolver'', dynamoDbResultItem),
      (''MutationAddItemToWebsiteResolver'', dynamoDbResultItem),
      (''MutationAddItemToHarvestResolver'', dynamoDbResultItem),
      (''MutationRemoveItemFromWebsiteResolver'', dynamoDbResultItem),
      (''MutationRemoveDefaultImageForWebsiteResolver'', dynamoDbResultItem),
      (''MutationRemovePortfolioCollectionResolver'', dynamoDbResultItem),
      (''MutationRemovePortfolioItemResolver'', dynamoDbResultItem),
      (''MutationRemovePortfolioUserResolver'', dynamoDbResultItem),
      (''MutationSaveAdditionalNotesForWebsiteResolver'', dynamoDbResultItem),
      (''MutationSaveCopyrightForWebsiteResolver'', dynamoDbResultItem),
      (''MutationSaveDefaultImageForWebsiteResolver'', dynamoDbResultItem),
      (''MutationSaveFileLastProcessedDateResolver'', dynamoDbResultItem),
      (''MutationSavePartiallyDigitizedForWebsiteResolver'', dynamoDbResultItem),
      (''MutationSavePortfolioCollectionResolver'', dynamoDbResultItem),
      (''MutationSavePortfolioItemResolver'', dynamoDbResultItem),
      (''MutationSavePortfolioUserResolver'', dynamoDbResultItem),
      (''PortfolioUserPortfolioCollectionsResolver'', items_defaulted_token),
      (''PortfolioCollectionPortfolioItemsResolver'', items_defaulted_token),
      (''QueryGetExposedPortfolioCollectionResolver'', QueryGetExposedPortfolioCollectionResolver_response),
      (''QueryGetFileResolver'', dynamoDbResultItem),
      (''QueryGetFileGroupResolver'', dynamoDbResultItem),
      (''QueryGetFileToProcessRecordResolver'', dynamoDbResultItem),
      (''QueryGetItemResolver'', dynamoDbResultItem),
      (''QueryGetPortfolioCollectionResolver'', dynamoDbResultItem),
      (''QueryGetPortfolioItemResolver'', dynamoDbResultItem),
      (''QueryGetPortfolioUserResolver'', dynamoDbResultItem),
      (''QueryGetWebsiteResolver'', dynamoDbResultItem),
      (''QueryListFileGroupsResolver'', items_defaulted_token),
      (''QueryListFileGroupsByStorageSystemResolver'', items_token),
      (''QueryListFilesToProcessResolver'', items_token),
      (''QueryListFileGroupsForS3Resolver'', items_token),
      (''QueryListItemsBySourceSystemResolver'', items_token),
      (''QueryListItemsByWebsiteResolver'', items_token),
      (''QueryListPublicPortfolioCollectionsResolver'', items_token),
      (''QueryListPublicHighlightedPortfolioCollectionsResolver'', items_token),
      (''QueryListPublicFeaturedPortfolioCollectionsResolver'', items_token),
      (''QueryListWebsitesResolver'', items_token),
      (''WebsiteWebsiteItemsResolver'', items_token),
      (''WebsiteItemItemMetadataResolver'', dynamoDbResultItem),
      (''WebsiteItemsItemMetadataResolver'', dynamoDbResultItem)]"

subsection \<open>What the templates are expected to do\<close>

text \<open>
  The normalization routine in the words of the specification: an identifier that is null
  or blank is replaced by a default, the result is put in upper case, and then every space
  is removed. \<open>normalize_key\<close> is the routine with the empty string as the default.
  \<open>first_non_blank\<close> is the first of a list of candidates that is neither null nor blank.
\<close>

definition normalize_or :: "'a unicode_scheme \<Rightarrow> string \<Rightarrow> string option \<Rightarrow> string" where
  "normalize_or u d x =
     filter (\<lambda>ch. ch \<noteq> CHR '' '')
       (toUpperCase u (case x of None \<Rightarrow> d | Some s \<Rightarrow> if isBlank u s then d else s))"

definition normalize_key :: "'a unicode_scheme \<Rightarrow> string option \<Rightarrow> string" where
  "normalize_key u x = normalize_or u [] x"

fun first_non_blank :: "'a unicode_scheme \<Rightarrow> string option list \<Rightarrow> string option" where
  "first_non_blank c [] = None"
| "first_non_blank c (x # xs) =
     (case x of
        Some s \<Rightarrow> if isBlank c s then first_non_blank c xs else Some s
      | None \<Rightarrow> first_non_blank c xs)"

text \<open>
  The prefixes of the single-table design. A key value is \<open>tagged\<close> when it is one of
  them or starts with one followed by \<open>#\<close>. \<open>identifiers u s\<close>: \<open>s\<close> is a sequence of
  identifiers that went through the routine, with whatever default, each after a \<open>#\<close>;
  an identifier may be empty, a fixed text that the routine leaves as it is counts as one, and
  an identifier may have been upper-cased a second time, as the portfolio templates do.
  A \<open>composite_key\<close> is a tag followed by such a sequence, which may be empty.
\<close>

definition record_type_tags :: "string list" where
  "record_type_tags =
     [''ITEM'', ''SUPPLEMENTALDATA'', ''WEBSITE'', ''ADDED'', ''FILEGROUP'', ''FILE'', ''SORT'',
      ''ITEMTOHARVEST'', ''SOURCESYSTEM'', ''FILETOPROCESS'', ''FILEPATH'', ''DATELASTPROCESSED'',
      ''FILESYSTEM'', ''PORTFOLIO'', ''USER'', ''PORTFOLIOCOLLECTION'', ''PORTFOLIOITEM'',
      ''INTERNALITEM'', ''SUBJECTTERM'', ''URI'']"

definition tagged :: "string \<Rightarrow> bool" where
  "tagged v = list_ex (\<lambda>t. v = t \<or> prefix (t @ ''#'') v) record_type_tags"

inductive identifiers :: "'a unicode_scheme \<Rightarrow> string \<Rightarrow> bool" for u where
  none: "identifiers u []"
| one: "identifiers u s \<Longrightarrow> identifiers u (''#'' @ normalize_or u d x @ s)"
| again: "identifiers u s \<Longrightarrow> identifiers u (''#'' @ toUpperCase u (normalize_or u d x) @ s)"

definition composite_key :: "'a unicode_scheme \<Rightarrow> string \<Rightarrow> bool" where
  "composite_key u v = (\<exists>t\<in>set record_type_tags. \<exists>s. identifiers u s \<and> v = t @ s)"

text \<open>
  The places where a template departs from that form, by template and attribute, and what
  stands there. \<open>public_keys\<close>: the fixed text \<open>PUBLIC#\<close>. \<open>privacy_keys\<close>: the
  privacy level of the collection, upper-cased, in the place of a tag.
  \<open>timestamp_keys\<close>: a time stamp after \<open>ADDED#\<close> or \<open>DATELASTPROCESSED#\<close>.
  \<open>netid_keys\<close>: after \<open>USER#\<close> the \<open>netid\<close> claim, upper-cased and nothing
  else (a null claim renders as the text of its reference), then identifiers.
  \<open>subject_keys\<close>: \<open>SUBJECTTERM\<close> with \<open>URI#\<close> and the upper-cased uri of a
  subject of the item record, or the two fixed strings that stand for the key of an empty
  batch. \<open>item_id_keys\<close>: the two keys of \<open>savePortfolioItem\<close> that hold its item id;
  \<open>item_key\<close> describes what precedes the item id and nothing else.
  \<open>key_form c n kv\<close> is what is expected of the key \<open>kv\<close> that the template \<open>n\<close>
  sends in the context \<open>c\<close>.
\<close>

definition public_keys :: "(string \<times> string) list" where
  "public_keys =
     [(''QueryListPublicPortfolioCollectionsResolver'', ''GSI2SK''),
      (''QueryListPublicHighlightedPortfolioCollectionsResolver'', ''GSI2SK''),
      (''QueryListPublicFeaturedPortfolioCollectionsResolver'', ''GSI2SK'')]"

definition privacy_keys :: "(string \<times> string) list" where
  "privacy_keys = [(''MutationSavePortfolioCollectionResolver'', ''GSI2SK'')]"

definition timestamp_keys :: "(string \<times> string) list" where
  "timestamp_keys =
     [(''MutationAddItemToWebsiteResolver'', ''GSI1SK''),
      (''MutationAddItemMetadataToWebsiteResolver'', ''GSI1SK''),
      (''MutationSaveFileLastProcessedDateResolver'', ''GSI2SK'')]"

definition netid_keys :: "(string \<times> string) list" where
  "netid_keys =
     [(''MutationRemovePortfolioItemResolver'', ''SK''),
      (''MutationSavePortfolioCollectionResolver'', ''SK''),
      (''MutationSavePortfolioUserResolver'', ''SK''),
      (''QueryGetPortfolioCollectionResolver'', ''SK''),
      (''QueryGetPortfolioItemResolver'', ''SK''),
      (''QueryGetPortfolioUserResolver'', ''SK'')]"

definition subject_keys :: "(string \<times> string) list" where
  "subject_keys = [(''expandSubjectTermsFunction'', ''PK''), (''expandSubjectTermsFunction'', ''SK'')]"

definition item_id_keys :: "(string \<times> string) list" where
  "item_id_keys =
     [(''MutationSavePortfolioItemResolver'', ''SK''),
      (''MutationSavePortfolioItemResolver'', ''GSI1SK'')]"

definition privacy_level :: "ctx \<Rightarrow> string" where
  "privacy_level c =
     render ''$privacy''
       (defaultIfNullOrBlank c (str (field (ctx_args c) ''privacy'')) (Some ''private''))"

definition privacy_key :: "ctx \<Rightarrow> string \<Rightarrow> bool" where
  "privacy_key c v = (\<exists>s. identifiers c s \<and> v = toUpperCase c (privacy_level c) @ s)"

definition user_key :: "ctx \<Rightarrow> string \<Rightarrow> bool" where
  "user_key c v =
     (\<exists>s. identifiers c s \<and>
        (v = ''USER#'' @ toUpperCase c (render ''$portfolioUserId'' (ctx_netid c)) @ s
         \<or> v = ''USER#'' @ render ''$util.str.toUpper($portfolioUserId)'' (toUpper c (ctx_netid c))
                @ s))"

definition subject_uris :: "ctx \<Rightarrow> string list" where
  "subject_uris c =
     concat (map (\<lambda>subject. case str (field subject ''uri'') of Some s \<Rightarrow> [s] | None \<Rightarrow> [])
               (elements (field (field (ctx_stash c) ''itemRecord'') ''subjects'')))"

definition subject_key :: "ctx \<Rightarrow> string \<times> string \<Rightarrow> bool" where
  "subject_key c kv =
     (if fst kv = ''PK'' then snd kv = ''SUBJECTTERM'' \<or> snd kv = ''NoKeyToFind''
      else snd kv = ''YieldEmptyResultSet''
           \<or> snd kv \<in> (\<lambda>s. ''URI#'' @ toUpperCase c s) ` set (subject_uris c))"

definition item_key :: "ctx \<Rightarrow> string \<times> string \<Rightarrow> bool" where
  "item_key c kv =
     (if fst kv = ''GSI1SK'' then prefix ''INTERNALITEM#'' (snd kv)
      else \<exists>s r. identifiers c s \<and>
             snd kv = ''USER#'' @ toUpperCase c (render ''$portfolioUserId'' (ctx_netid c)) @ s
                      @ ''#'' @ r)"

definition key_form :: "ctx \<Rightarrow> string \<Rightarrow> string \<times> string \<Rightarrow> bool" where
  "key_form c n kv =
     (if (n, fst kv) \<in> set public_keys then snd kv = ''PUBLIC#''
      else if (n, fst kv) \<in> set privacy_keys then privacy_key c (snd kv)
      else if (n, fst kv) \<in> set timestamp_keys
      then snd kv = ''ADDED#'' @ nowISO8601 c \<or> snd kv = ''DATELASTPROCESSED#'' @ nowISO8601 c
      else if (n, fst kv) \<in> set netid_keys then user_key c (snd kv)
      else if (n, fst kv) \<in> set subject_keys then subject_key c kv
      else if (n, fst kv) \<in> set item_id_keys then item_key c kv
      else composite_key c (snd kv))"

text \<open>
  Every template that sends a request to DynamoDB, under its name in the stack, with the
  key values it sends. The request templates of the pipeline resolvers only fill the stash
  and are not listed; \<open>deletePortfolioContentForUserFunction\<close>, whose keys are JSON values
  taken from the stash, is treated on its own.
\<close>

definition request_templates :: "(string \<times> (ctx \<Rightarrow> (string \<times> string) list)) list" where
  "request_templates =
     [(''getMergedItemRecordFunction'', getMergedItemRecordFunction),
      (''expandSubjectTermsFunction'', expandSubjectTermsFunction),
      (''findPortfolioContentForUserFunction'', findPortfolioContentForUserFunction),
      (''updateSupplementalDataRecordFunction'', (\<lambda>c. key (updateSupplementalDataRecordFunction c) @ index_attributes (updateSupplementalDataRecordFunction c))),
      (''updateSupplementalDataRecordFunction_first'', (\<lambda>c. key (updateSupplementalDataRecordFunction_first c) @ index_attributes (updateSupplementalDataRecordFunction_first c))),
      (''updateItemFunction'', (\<lambda>c. key (updateItemFunction c) @ index_attributes (updateItemFunction c))),
      (''updateSupplementalDataFunction'', (\<lambda>c. key (updateSupplementalDataFunction c) @ index_attributes (updateSupplementalDataFunction c))),
      (''FileFileGroupResolver'', FileFileGroupResolver),
      (''FileGroupFilesResolver'', FileGroupFilesResolver),
      (''ItemMetadataChildrenResolver'', ItemMetadataChildrenResolver),
      (''ItemMetadataDefaultFileResolver'', ItemMetadataDefaultFileResolver),
      (''ItemMetadataFilesResolver'', ItemMetadataFilesResolver),
      (''MutationAddItemMetadataToWebsiteResolver'', MutationAddItemMetadataToWebsiteResolver),
      (''MutationAddItemToHarvestResolver'', MutationAddItemToHarvestResolver),
      (''MutationAddItemToWebsiteResolver'', MutationAddItemToWebsiteResolver),
      (''MutationRemoveDefaultImageForWebsiteResolver'', MutationRemoveDefaultImageForWebsiteResolver),
      (''MutationRemoveItemFromWebsiteResolver'', MutationRemoveItemFromWebsiteResolver),
      (''MutationRemovePortfolioItemResolver'', MutationRemovePortfolioItemResolver),
      (''MutationSaveFileLastProcessedDateResolver'', MutationSaveFileLastProcessedDateResolver),
      (''MutationSavePortfolioCollectionResolver'', MutationSavePortfolioCollectionResolver),
      (''MutationSavePortfolioItemResolver'', MutationSavePortfolioItemResolver),
      (''MutationSavePortfolioUserResolver'', MutationSavePortfolioUserResolver),
      (''PortfolioCollectionPortfolioItemsResolver'', PortfolioCollectionPortfolioItemsResolver),
      (''PortfolioUserPortfolioCollectionsResolver'', PortfolioUserPortfolioCollectionsResolver),
      (''QueryGetExposedPortfolioCollectionResolver'', QueryGetExposedPortfolioCollectionResolver),
      (''QueryGetFileGroupResolver'', QueryGetFileGroupResolver),
      (''QueryGetFileResolver'', QueryGetFileResolver),
      (''QueryGetFileToProcessRecordResolver'', QueryGetFileToProcessRecordResolver),
      (''QueryGetPortfolioCollectionResolver'', QueryGetPortfolioCollectionResolver),
      (''QueryGetPortfolioItemResolver'', QueryGetPortfolioItemResolver),
      (''QueryGetPortfolioUserResolver'', QueryGetPortfolioUserResolver),
      (''QueryGetWebsiteResolver'', QueryGetWebsiteResolver),
      (''QueryListFileGroupsByStorageSystemResolver'', QueryListFileGroupsByStorageSystemResolver),
      (''QueryListFileGroupsForS3Resolver'', QueryListFileGroupsForS3Resolver),
      (''QueryListFileGroupsResolver'', QueryListFileGroupsResolver),
      (''QueryListFilesToProcessResolver'', QueryListFilesToProcessResolver),
      (''QueryListItemsBySourceSystemResolver'', QueryListItemsBySourceSystemResolver),
      (''QueryListItemsByWebsiteResolver'', QueryListItemsByWebsiteResolver),
      (''QueryListPublicFeaturedPortfolioCollectionsResolver'', QueryListPublicFeaturedPortfolioCollectionsResolver),
      (''QueryListPublicHighlightedPortfolioCollectionsResolver'', QueryListPublicHighlightedPortfolioCollectionsResolver),
      (''QueryListPublicPortfolioCollectionsResolver'', QueryListPublicPortfolioCollectionsResolver),
      (''QueryListSupplementalDataRecordsResolver'', QueryListSupplementalDataRecordsResolver),
      (''QueryListWebsitesResolver'', QueryListWebsitesResolver),
      (''WebsiteWebsiteItemsResolver'', WebsiteWebsiteItemsResolver)]"

text \<open>
  A request and a response to evaluate the templates on. Their Unicode tables know one
  letter, e with an acute accent (the bytes C3 A9, upper case C3 89), and one white space,
  the em space (E2 80 83).
\<close>

definition example_request :: ctx where
  "example_request =
     \<lparr>unicode_upper = (\<lambda>s. if s = [CHR 0xC3, CHR 0xA9] then [CHR 0xC3, CHR 0x89] else s),
      unicode_whitespace = (\<lambda>s. s = [CHR 0xE2, CHR 0x80, CHR 0x83]),
      ctx_args = JMap [(''id'', JStr ''ab 1''), (''itemId'', JStr ''a 1''),
                        (''portfolioCollectionId'', JStr ''c 1''),
                        (''portfolioItemId'', JStr ''a b''), (''sourceSystem'', JStr ''Aleph''),
                        (''harvestItemId'', JStr ''00123 4'')],
      ctx_source = JMap [],
      ctx_stash = JMap [(''itemId'', JStr ''abc'')],
      ctx_netid = Some ''jdoe'',
      nowISO8601 = ''2021-07-01T00:00:00.000Z'',
      autoId = ''0b5f7a52-4f5b-4c39-9d52-7f1f0c3c7c11'',
      set_null_allowed = False,
      velocity2_truth = False\<rparr>"

definition example_response :: response_ctx where
  "example_response =
     \<lparr>unicode_upper = (\<lambda>s. if s = [CHR 0xC3, CHR 0xA9] then [CHR 0xC3, CHR 0x89] else s),
      unicode_whitespace = (\<lambda>s. s = [CHR 0xE2, CHR 0x80, CHR 0x83]),
      ctx_error = Some (''Throughput exceeded'', ''DynamoDB:ProvisionedThroughputExceededException''),
      ctx_result = JMap [(''items'', JList [JMap [(''id'', JStr ''w1'')]])],
      response_stash = JMap [],
      tableName = ''metadata'',
      response_set_null_allowed = False\<rparr>"


section \<open>Facts about the rotation Lambda\<close>

lemma call_simps [simp]:
  "trace (call c w) = trace w @ [c]" "ssm (call c w) = ssm w" "appsync (call c w) = appsync w"
  "clock (call c w) = clock w" "reads (call c w) = reads w" "faults (call c w) = faults w"
  "page_size (call c w) = page_size w" "new_key_id (call c w) = new_key_id w"
  by (simp_all add: call_def)

subsection \<open>Doubles and timestamps\<close>

declare bit_length.simps [simp del]

lemma bit_length_le: "n < 2 ^ k \<Longrightarrow> bit_length n \<le> k"
proof (induction k arbitrary: n)
  case 0
  then show ?case by (simp add: bit_length.simps)
next
  case (Suc k)
  show ?case
  proof (cases "n = 0")
    case True
    then show ?thesis by (simp add: bit_length.simps)
  next
    case False
    from Suc.prems have "n div 2 < 2 ^ k" by simp
    from Suc.IH[OF this] False show ?thesis by (subst bit_length.simps) simp
  qed
qed

lemma div_lower:
  assumes "0 < (d::int)" and "m * d \<le> n"
  shows "m \<le> n div d"
proof (rule ccontr)
  assume "\<not> m \<le> n div d"
  then have "n div d + 1 \<le> m" by simp
  then have "(n div d + 1) * d \<le> m * d" using assms(1) by (intro mult_right_mono) simp_all
  moreover have "(n div d + 1) * d = n div d * d + d" by (simp add: algebra_simps)
  moreover have "n = n div d * d + n mod d" by simp
  moreover have "n mod d < d" using assms(1) by simp
  ultimately show False using assms(2) by linarith
qed

lemma div_upper:
  assumes "0 < (d::int)" and "n < m * d"
  shows "n div d < m"
proof (rule ccontr)
  assume "\<not> n div d < m"
  then have "m \<le> n div d" by simp
  then have "m * d \<le> n div d * d" using assms(1) by (intro mult_right_mono) simp_all
  moreover have "n = n div d * d + n mod d" by simp
  moreover have "0 \<le> n mod d" using assms(1) by simp
  ultimately show False using assms(2) by linarith
qed

lemma round_half_even_lower:
  assumes "0 < d" and "m * d \<le> n"
  shows "m \<le> round_half_even n d"
  using div_lower[OF assms] by (simp add: round_half_even_def Let_def)

lemma round_half_even_upper:
  assumes "0 < d" and "n \<le> m * d"
  shows "round_half_even n d \<le> m"
proof (cases "n = m * d")
  case True
  with assms(1) show ?thesis by (simp add: round_half_even_def Let_def)
next
  case False
  with assms(2) have "n < m * d" by simp
  from div_upper[OF assms(1) this] show ?thesis by (simp add: round_half_even_def Let_def)
qed

lemma nearest_double_shift:
  assumes "0 \<le> n" and "0 < d" and "n < 2 ^ (53 + k) * d"
  shows "bit_length (nat (n div d)) - 53 \<le> k"
proof -
  from div_upper[OF assms(2,3)] have "n div d < 2 ^ (53 + k)" .
  moreover have "0 \<le> n div d" using assms(1,2) by (simp add: pos_imp_zdiv_nonneg_iff)
  ultimately have "nat (n div d) < 2 ^ (53 + k)"
    by (simp add: nat_less_iff)
  from bit_length_le[OF this] show ?thesis by simp
qed

lemma nearest_double_lower:
  assumes "0 < d" and "bit_length (nat (n div d)) - 53 \<le> k" and "m * 2 ^ k * d \<le> n"
  shows "m * 2 ^ k \<le> nearest_double n d"
proof -
  define j where "j = bit_length (nat (n div d)) - 53"
  from assms(2) have k: "k = j + (k - j)" by (simp add: j_def)
  have "(2::int) ^ k = 2 ^ (k - j) * 2 ^ j" by (subst k) (simp add: power_add)
  then have e: "m * 2 ^ k = m * 2 ^ (k - j) * 2 ^ j" by simp
  have eq: "m * 2 ^ (k - j) * (d * 2 ^ j) = m * 2 ^ k * d" unfolding e by (simp add: mult_ac)
  have "m * 2 ^ (k - j) * (d * 2 ^ j) \<le> n" unfolding eq by (rule assms(3))
  moreover have "0 < d * 2 ^ j" using assms(1) by simp
  ultimately have "m * 2 ^ (k - j) \<le> round_half_even n (d * 2 ^ j)"
    by (intro round_half_even_lower)
  then have "m * 2 ^ (k - j) * 2 ^ j \<le> round_half_even n (d * 2 ^ j) * 2 ^ j"
    by (intro mult_right_mono) simp_all
  then show ?thesis unfolding e by (simp add: nearest_double_def Let_def j_def)
qed

lemma nearest_double_upper:
  assumes "0 < d" and "bit_length (nat (n div d)) - 53 \<le> k" and "n \<le> m * 2 ^ k * d"
  shows "nearest_double n d \<le> m * 2 ^ k"
proof -
  define j where "j = bit_length (nat (n div d)) - 53"
  from assms(2) have k: "k = j + (k - j)" by (simp add: j_def)
  have "(2::int) ^ k = 2 ^ (k - j) * 2 ^ j" by (subst k) (simp add: power_add)
  then have e: "m * 2 ^ k = m * 2 ^ (k - j) * 2 ^ j" by simp
  have eq: "m * 2 ^ (k - j) * (d * 2 ^ j) = m * 2 ^ k * d" unfolding e by (simp add: mult_ac)
  have "n \<le> m * 2 ^ (k - j) * (d * 2 ^ j)" unfolding eq by (rule assms(3))
  moreover have "0 < d * 2 ^ j" using assms(1) by simp
  ultimately have "round_half_even n (d * 2 ^ j) \<le> m * 2 ^ (k - j)"
    by (intro round_half_even_upper)
  then have "round_half_even n (d * 2 ^ j) * 2 ^ j \<le> m * 2 ^ (k - j) * 2 ^ j"
    by (intro mult_right_mono) simp_all
  then show ?thesis unfolding e by (simp add: nearest_double_def Let_def j_def)
qed


text \<open>The double of \<open>microsecond / 1e6\<close> lies in \<open>[0, 1 - 2 ^ - 20]\<close>, and is zero for
  zero microseconds.\<close>

lemma fraction_bounds:
  assumes "0 \<le> u" and "u < 1000000"
  shows "0 \<le> nearest_double (u * double_unit) 1000000"
    and "nearest_double (u * double_unit) 1000000 \<le> double_unit - 2 ^ 52"
proof -
  have sh: "bit_length (nat (u * double_unit div 1000000)) - 53 \<le> 19"
    using assms by (intro nearest_double_shift) (simp_all add: double_unit_def)
  have "0 * 2 ^ 19 \<le> nearest_double (u * double_unit) 1000000"
    using assms sh by (intro nearest_double_lower) (simp_all add: double_unit_def)
  then show "0 \<le> nearest_double (u * double_unit) 1000000" by simp
  have "u \<le> 999999" using assms by simp
  then have "u * double_unit \<le> (2 ^ 53 - 2 ^ 33) * 2 ^ 19 * 1000000"
    by (simp add: double_unit_def)
  then have "nearest_double (u * double_unit) 1000000 \<le> (2 ^ 53 - 2 ^ 33) * 2 ^ 19"
    using sh by (intro nearest_double_upper) simp_all
  then show "nearest_double (u * double_unit) 1000000 \<le> double_unit - 2 ^ 52"
    by (simp add: double_unit_def)
qed


lemma double_add_bounds:
  assumes "\<bar>s\<bar> < 2 ^ 52" and "0 \<le> y" and "y \<le> double_unit"
  shows "s * double_unit \<le> double_add (s * double_unit) y"
    and "double_add (s * double_unit) y \<le> (s + 1) * double_unit"
proof -
  define z where "z = s * double_unit + y"
  have lo: "s * double_unit \<le> z" and hi: "z \<le> (s + 1) * double_unit"
    using assms(2,3) by (simp_all add: z_def algebra_simps)
  have big: "\<bar>z\<bar> < 2 ^ 125"
  proof -
    have "(s + 1) * double_unit \<le> 2 ^ 52 * double_unit" and "- (2 ^ 52) * double_unit \<le> s * double_unit"
      using assms(1) by (simp_all add: double_unit_def)
    with lo hi show ?thesis by (simp add: double_unit_def)
  qed
  show "s * double_unit \<le> double_add (s * double_unit) y"
  proof (cases "0 \<le> z")
    case True
    have "bit_length (nat (z div 1)) - 53 \<le> 72"
      using True big by (intro nearest_double_shift) simp_all
    then have "s * 2 ^ 72 \<le> nearest_double z 1"
      using lo by (intro nearest_double_lower) (simp_all add: double_unit_def)
    with True show ?thesis by (simp add: double_add_def z_def double_unit_def)
  next
    case False
    have "bit_length (nat ((- z) div 1)) - 53 \<le> 72"
      using False big by (intro nearest_double_shift) simp_all
    then have "nearest_double (- z) 1 \<le> (- s) * 2 ^ 72"
      using lo by (intro nearest_double_upper) (simp_all add: double_unit_def)
    with False show ?thesis by (simp add: double_add_def z_def double_unit_def)
  qed
  show "double_add (s * double_unit) y \<le> (s + 1) * double_unit"
  proof (cases "0 \<le> z")
    case True
    have "bit_length (nat (z div 1)) - 53 \<le> 72"
      using True big by (intro nearest_double_shift) simp_all
    then have "nearest_double z 1 \<le> (s + 1) * 2 ^ 72"
      using hi by (intro nearest_double_upper) (simp_all add: double_unit_def)
    with True show ?thesis by (simp add: double_add_def z_def double_unit_def)
  next
    case False
    have "bit_length (nat ((- z) div 1)) - 53 \<le> 72"
      using False big by (intro nearest_double_shift) simp_all
    then have "(- (s + 1)) * 2 ^ 72 \<le> nearest_double (- z) 1"
      using hi by (intro nearest_double_lower) (simp_all add: double_unit_def)
    with False show ?thesis by (simp add: double_add_def z_def double_unit_def)
  qed
qed


lemma seconds_range:
  assumes "datetime_min \<le> t" and "t \<le> datetime_max"
  shows "\<bar>t div 1000000\<bar> < 2 ^ 52"
proof -
  have "seconds_min * 1000000 \<le> t" using assms(1) by (simp add: datetime_min_def)
  then have "seconds_min \<le> t div 1000000" by (intro div_lower) simp_all
  moreover have "t < 253402300800 * 1000000" using assms(2) by (simp add: datetime_max_def)
  then have "t div 1000000 < 253402300800" by (intro div_upper) simp_all
  ultimately show ?thesis by (simp add: seconds_min_def)
qed

lemma timestamp_double_bounds:
  assumes "datetime_min \<le> t" and "t \<le> datetime_max"
  shows "t div 1000000 * double_unit \<le> timestamp_double t"
    and "timestamp_double t \<le> (t div 1000000 + 1) * double_unit"
proof -
  have u: "0 \<le> t mod 1000000" "t mod 1000000 < 1000000" by simp_all
  note f = fraction_bounds[OF u]
  from f(2) have "nearest_double (t mod 1000000 * double_unit) 1000000 \<le> double_unit"
    by (simp add: double_unit_def)
  note b = double_add_bounds[OF seconds_range[OF assms] f(1) this]
  from b(1) show "t div 1000000 * double_unit \<le> timestamp_double t"
    by (simp add: timestamp_double_def)
  from b(2) show "timestamp_double t \<le> (t div 1000000 + 1) * double_unit"
    by (simp add: timestamp_double_def)
qed

lemma int_of_double_bounds:
  assumes "s * double_unit \<le> x" and "x \<le> (s + 1) * double_unit"
  shows "s \<le> int_of_double x" and "int_of_double x \<le> s + 1"
proof -
  have U: "0 < double_unit" by (simp add: double_unit_def)
  show "s \<le> int_of_double x"
  proof (cases "0 \<le> x")
    case True
    with div_lower[OF U assms(1)] show ?thesis by (simp add: int_of_double_def)
  next
    case False
    from assms(1) have "- x < (- s + 1) * double_unit" using U by (simp add: algebra_simps)
    from div_upper[OF U this] False show ?thesis by (simp add: int_of_double_def)
  qed
  show "int_of_double x \<le> s + 1"
  proof (cases "0 \<le> x")
    case True
    from assms(2) have "x < (s + 2) * double_unit" using U by (simp add: algebra_simps)
    from div_upper[OF U this] True show ?thesis by (simp add: int_of_double_def)
  next
    case False
    from assms(2) have "(- (s + 1)) * double_unit \<le> - x" by (simp add: algebra_simps)
    from div_lower[OF U this] False show ?thesis by (simp add: int_of_double_def)
  qed
qed

lemma int_timestamp_bounds:
  assumes "datetime_min \<le> t" and "t \<le> datetime_max"
  shows "t div 1000000 \<le> int_timestamp t" and "int_timestamp t \<le> t div 1000000 + 1"
  using int_of_double_bounds[OF timestamp_double_bounds[OF assms]]
  by (simp_all add: int_timestamp_def)

lemma int_timestamp_microseconds:
  assumes "datetime_min \<le> t" and "t \<le> datetime_max"
  shows "int_timestamp t * 1000000 \<le> t + 1000000"
proof -
  have "t = t div 1000000 * 1000000 + t mod 1000000" by simp
  moreover have "0 \<le> t mod 1000000" by simp
  ultimately have "t div 1000000 * 1000000 \<le> t" by linarith
  then have "(t div 1000000 + 1) * 1000000 \<le> t + 1000000" by (simp add: algebra_simps)
  moreover from int_timestamp_bounds(2)[OF assms]
  have "int_timestamp t * 1000000 \<le> (t div 1000000 + 1) * 1000000" by simp
  ultimately show ?thesis by simp
qed

text \<open>Before \<open>2 ^ 33\<close> seconds (the year 2242) the double keeps the whole seconds apart.\<close>

lemma int_timestamp_exact:
  assumes "0 \<le> t" and "t div 1000000 < 2 ^ 33"
  shows "int_timestamp t = t div 1000000"
proof -
  define s where "s = t div 1000000"
  define y where "y = nearest_double (t mod 1000000 * double_unit) 1000000"
  define z where "z = s * double_unit + y"
  have s0: "0 \<le> s" using assms(1) by (simp add: s_def pos_imp_zdiv_nonneg_iff)
  have u: "0 \<le> t mod 1000000" "t mod 1000000 < 1000000" by simp_all
  from fraction_bounds[OF u] have y: "0 \<le> y" "y \<le> double_unit - 2 ^ 52" by (simp_all add: y_def)
  have z0: "0 \<le> z" using s0 y(1) by (simp add: z_def double_unit_def)
  have lo: "s * 2 ^ 72 * 1 \<le> z" using y(1) by (simp add: z_def double_unit_def)
  have hi: "z \<le> ((s + 1) * 2 ^ 20 - 1) * 2 ^ 52 * 1"
    using y(2) by (simp add: z_def double_unit_def algebra_simps)
  have "s + 1 \<le> 2 ^ 33" using assms(2) by (simp add: s_def)
  then have "(s + 1) * 2 ^ 72 \<le> 2 ^ 33 * 2 ^ 72" by (intro mult_right_mono) simp_all
  with hi have "z < 2 ^ (53 + 52) * 1" by (simp add: algebra_simps)
  with z0 have sh: "bit_length (nat (z div 1)) - 53 \<le> 52" by (intro nearest_double_shift) simp_all
  then have sh72: "bit_length (nat (z div 1)) - 53 \<le> 72" by simp
  have td: "timestamp_double t = nearest_double z 1"
    using z0 by (simp add: timestamp_double_def double_add_def z_def y_def s_def)
  have 1: "s * 2 ^ 72 \<le> nearest_double z 1"
    using sh72 lo by (intro nearest_double_lower) simp_all
  have "nearest_double z 1 \<le> ((s + 1) * 2 ^ 20 - 1) * 2 ^ 52"
    using sh hi by (intro nearest_double_upper) simp_all
  then have 2: "nearest_double z 1 < (s + 1) * 2 ^ 72" by (simp add: algebra_simps)
  have "0 \<le> nearest_double z 1" using 1 s0 by (simp add: order_trans[OF _ 1])
  moreover have "s \<le> nearest_double z 1 div 2 ^ 72" using 1 by (intro div_lower) simp_all
  moreover have "nearest_double z 1 div 2 ^ 72 < s + 1" using 2 by (intro div_upper) simp_all
  ultimately show ?thesis
    by (simp add: int_timestamp_def int_of_double_def td double_unit_def s_def)
qed



lemma timestamp_double_second:
  assumes "datetime_min \<le> t" and "t \<le> datetime_max" and "x < t div 1000000"
  shows "x * double_unit < timestamp_double t"
proof -
  have U: "0 < double_unit" by (simp add: double_unit_def)
  from assms(3) have "x * double_unit < t div 1000000 * double_unit"
    using U by (simp add: mult_less_cancel_right)
  with timestamp_double_bounds(1)[OF assms(1,2)] show ?thesis by simp
qed

lemma timestamp_double_future:
  assumes "datetime_min \<le> t" and "t \<le> datetime_max" and "t div 1000000 < x"
  shows "\<not> x * double_unit < timestamp_double t"
proof -
  have U: "0 < double_unit" by (simp add: double_unit_def)
  from assms(3) have "t div 1000000 + 1 \<le> x" by simp
  then have "(t div 1000000 + 1) * double_unit \<le> x * double_unit"
    using U by (intro mult_right_mono) simp_all
  with timestamp_double_bounds(2)[OF assms(1,2)] show ?thesis by simp
qed

lemma in_range_bounds: "in_range t \<Longrightarrow> datetime_min \<le> t \<and> t \<le> datetime_max"
proof -
  assume r: "in_range t"
  have "t = t div 1000000 * 1000000 + t mod 1000000" by simp
  moreover have "0 \<le> t mod 1000000" by simp
  moreover from r have "seconds_min * 1000000 \<le> t div 1000000 * 1000000"
    by (intro mult_right_mono) (simp_all add: in_range_def)
  ultimately have "seconds_min * 1000000 \<le> t" by linarith
  with r show ?thesis by (simp add: in_range_def datetime_min_def)
qed

lemma now_effect:
  assumes "now w = (r, w1)"
  shows "w1 = w\<lparr>reads := Suc (reads w)\<rparr>
     \<and> (in_range (clock w (reads w)) \<longrightarrow> r = Inr (clock w (reads w)))
     \<and> (\<not> in_range (clock w (reads w)) \<longrightarrow> r = Inl ValueError)"
  using assms by (auto simp: now_def Let_def split: if_splits)

lemma timestamp_in_range: "in_range t \<Longrightarrow> timestamp t = Inr (timestamp_double t)"
  by (simp add: timestamp_def in_range_def)


lemma expired_second:
  "in_range t \<Longrightarrow> expires k < t div 1000000 \<Longrightarrow> expired k t"
  using in_range_bounds[of t] timestamp_double_second[of t "expires k"] by (simp add: expired_def)

lemma expired_future:
  "in_range t \<Longrightarrow> t div 1000000 < expires k \<Longrightarrow> \<not> expired k t"
  using in_range_bounds[of t] timestamp_double_future[of t "expires k"] by (simp add: expired_def)


subsection \<open>The helpers and the handler\<close>


lemma delete_loop_Cons:
  "delete_loop a (k # ks) w =
     (if \<not> in_range (clock w (reads w)) then (Inl ValueError, w\<lparr>reads := Suc (reads w)\<rparr>)
      else if expired k (clock w (reads w)) \<and> description k = Some auto_description
      then (case delete_api_key a (key_id k) (w\<lparr>reads := Suc (reads w)\<rparr>) of
              (Inl e, w2) \<Rightarrow> (Inl e, w2)
            | (Inr u, w2) \<Rightarrow> delete_loop a ks w2)
      else delete_loop a ks (w\<lparr>reads := Suc (reads w)\<rparr>))"
  by (simp add: now_def Let_def timestamp_in_range expired_def)

declare delete_loop.simps(2) [simp del]

lemma delete_api_key_effect:
  assumes "delete_api_key a i w = (r, w')"
  shows "trace w' = trace w @ [DeleteApiKey a i] \<and> ssm w' = ssm w \<and> clock w' = clock w \<and> reads w' = reads w
     \<and> faults w' = faults w \<and> page_size w' = page_size w \<and> new_key_id w' = new_key_id w
     \<and> (\<forall>b. b \<noteq> a \<longrightarrow> appsync w' b = appsync w b)
     \<and> (appsync w' a = appsync w a \<or>
         (\<exists>ks. appsync w a = Some ks \<and> appsync w' a = Some (filter (\<lambda>k. key_id k \<noteq> i) ks)))"
  using assms by (auto simp: delete_api_key_def Let_def split: option.splits if_splits)

lemma delete_loop_effect:
  "delete_loop a ks w = (r, w') \<Longrightarrow>
     \<exists>ds. trace w' = trace w @ map (\<lambda>k. DeleteApiKey a (key_id k)) ds
        \<and> prefix ds (due_keys (clock w) (reads w) ks)
        \<and> (r = Inr () \<longrightarrow> ds = due_keys (clock w) (reads w) ks)
        \<and> ssm w' = ssm w \<and> clock w' = clock w \<and> faults w' = faults w"
proof (induction ks arbitrary: w)
  case Nil
  then show ?case by auto
next
  case (Cons k ks)
  let ?w1 = "w\<lparr>reads := Suc (reads w)\<rparr>"
  show ?case
  proof (cases "in_range (clock w (reads w))")
  case out: False
  with Cons.prems have "r = Inl ValueError" "w' = ?w1" by (auto simp: delete_loop_Cons)
  with out show ?thesis by (intro exI[of _ "[]"]) simp
  next
  case inr: True
  show ?thesis
  proof (cases "expired k (clock w (reads w)) \<and> description k = Some auto_description")
    case False
    with Cons.prems inr have "delete_loop a ks ?w1 = (r, w')" by (auto simp: delete_loop_Cons)
    from Cons.IH[OF this] False inr show ?thesis by auto
  next
    case True
    obtain r2 w2 where d: "delete_api_key a (key_id k) ?w1 = (r2, w2)" by fastforce
    note e = delete_api_key_effect[OF d]
    show ?thesis
    proof (cases r2)
      case (Inl err)
      with Cons.prems True inr d have "r = Inl err" "w' = w2" by (auto simp: delete_loop_Cons)
      with e True inr show ?thesis by (intro exI[of _ "[k]"]) auto
    next
      case (Inr u)
      with Cons.prems True inr d have "delete_loop a ks w2 = (r, w')" by (auto simp: delete_loop_Cons)
      from Cons.IH[OF this] obtain ds where
        "trace w' = trace w2 @ map (\<lambda>k. DeleteApiKey a (key_id k)) ds"
        "prefix ds (due_keys (clock w2) (reads w2) ks)"
        "r = Inr () \<longrightarrow> ds = due_keys (clock w2) (reads w2) ks"
        "ssm w' = ssm w2" "clock w' = clock w2" "faults w' = faults w2" by blast
      with e True inr show ?thesis by (intro exI[of _ "k # ds"]) auto
    qed
  qed
  qed
qed



lemma get_parameter_effect:
  assumes "get_parameter n w = (r, w1)"
  shows "w1 = call (GetParameter n) w \<and> (\<forall>v. r = Inr v \<longrightarrow> v = None \<or> v = ssm w n)"
  using assms by (auto simp: get_parameter_def Let_def split: option.splits py_error.splits)

lemma get_expire_time_effect:
  assumes "get_expire_time days w = (r, w1)"
  shows "w1 = w\<lparr>reads := Suc (reads w)\<rparr> \<and>
         (\<forall>x. r = Inr x \<longrightarrow> x = int_timestamp (clock w (reads w) + min days 364 * microseconds_per_day))"
  using assms
  by (auto simp: get_expire_time_def Let_def now_def min_def int_timestamp_def timestamp_def
           split: if_splits)

text \<open>For a non-negative number of days \<open>_get_expire_time\<close> fails only on the clock.\<close>

lemma get_expire_time_eq:
  assumes "0 \<le> days"
  shows "get_expire_time days w =
     (if \<not> in_range (clock w (reads w)) then Inl ValueError
      else if datetime_max < clock w (reads w) + min days 364 * microseconds_per_day
      then Inl OverflowError
      else Inr (int_timestamp (clock w (reads w) + min days 364 * microseconds_per_day)),
      w\<lparr>reads := Suc (reads w)\<rparr>)"
proof (cases "in_range (clock w (reads w))")
  case False
  then show ?thesis by (simp add: get_expire_time_def now_def Let_def)
next
  case True
  define t where "t = clock w (reads w)"
  define d where "d = min days 364 * microseconds_per_day"
  have d0: "0 \<le> d" using assms by (simp add: d_def microseconds_per_day_def min_def)
  have d864: "d = (min days 364 * 86400) * 1000000" by (simp add: d_def microseconds_per_day_def)
  from in_range_bounds[OF True] have lo: "datetime_min \<le> t + d" using d0 by (simp add: t_def)
  have "t div 1000000 \<le> (t + d) div 1000000" using d0 by (intro zdiv_mono1) simp_all
  with True have ts: "timestamp (t + d) = Inr (timestamp_double (t + d))"
    by (simp add: timestamp_def in_range_def t_def)
  have days1: "(if 364 < days then 364 else days) = min days 364" by (simp add: min_def)
  have "\<not> min days 364 < - 999999999" using assms by (simp add: min_def)
  with True lo ts show ?thesis
    unfolding get_expire_time_def days1
    by (simp add: now_def Let_def int_timestamp_def t_def d_def)
qed

lemma generate_new_api_key_effect:
  assumes "generate_new_api_key a x w = (r, w1)"
  shows "trace w1 = trace w @ [CreateApiKey a auto_description x] \<and> ssm w1 = ssm w \<and> clock w1 = clock w
     \<and> reads w1 = reads w \<and> faults w1 = faults w \<and> page_size w1 = page_size w
     \<and> (\<forall>i. r = Inr i \<longrightarrow> i = new_key_id w \<and> faults w (CreateApiKey a auto_description x) = None
          \<and> (\<exists>ks. appsync w a = Some ks \<and>
           appsync w1 = (appsync w)(a \<mapsto> ks @ [\<lparr>key_id = new_key_id w, description = Some auto_description,
                    expires = x - x mod 3600\<rparr>])))
     \<and> (\<forall>err. r = Inl err \<longrightarrow> appsync w1 = appsync w)"
  using assms by (auto simp: generate_new_api_key_def Let_def split: option.splits)

lemma save_secure_parameter_effect:
  assumes "save_secure_parameter n v w = (r, w1)"
  shows "trace w1 = trace w @ [PutParameter n v] \<and> appsync w1 = appsync w \<and> clock w1 = clock w
     \<and> reads w1 = reads w \<and> faults w1 = faults w \<and> page_size w1 = page_size w
     \<and> (r = Inr () \<longrightarrow> ssm w1 = (ssm w)(n \<mapsto> v)) \<and> (\<forall>err. r = Inl err \<longrightarrow> ssm w1 = ssm w)"
  using assms by (auto simp: save_secure_parameter_def Let_def split: option.splits)

lemma list_api_keys_effect:
  assumes "list_api_keys a w = (r, w1)"
  shows "w1 = call (ListApiKeys a) w \<and>
     (\<forall>ks. r = Inr ks \<longrightarrow> (\<exists>ks0. appsync w a = Some ks0 \<and> ks = take (page_size w) ks0))"
  using assms by (auto simp: list_api_keys_def Let_def split: option.splits)

lemma delete_expired_api_keys_effect:
  assumes "delete_expired_api_keys a w = (r, w')"
  shows "\<exists>ds. trace w' = trace w @ ListApiKeys a # map (\<lambda>k. DeleteApiKey a (key_id k)) ds
        \<and> prefix ds (due_keys (clock w) (reads w) (take (page_size w) (case appsync w a of Some ks \<Rightarrow> ks | None \<Rightarrow> [])))
        \<and> (r = Inr () \<longrightarrow> ds = due_keys (clock w) (reads w) (take (page_size w) (case appsync w a of Some ks \<Rightarrow> ks | None \<Rightarrow> [])))
        \<and> ssm w' = ssm w"
proof -
  obtain r1 w1 where l: "list_api_keys a w = (r1, w1)" by fastforce
  note le = list_api_keys_effect[OF l]
  show ?thesis
  proof (cases r1)
    case (Inl err)
    with assms l le show ?thesis by (intro exI[of _ "[]"]) (auto simp: delete_expired_api_keys_def)
  next
    case (Inr ks)
    with assms l have d: "delete_loop a ks w1 = (r, w')" by (auto simp: delete_expired_api_keys_def)
    from delete_loop_effect[OF d] le Inr show ?thesis by auto
  qed
qed


lemma get_expire_time_call:
  "fst (get_expire_time d (call c w)) = fst (get_expire_time d w)"
  by (simp add: get_expire_time_def now_def Let_def split: sum.splits)

lemma days_value_Inr:
  "days_value (DAYS_FOR_KEY_TO_LAST e) = Inr d \<Longrightarrow> d = days_requested e"
  by (auto simp: days_value_def days_requested_def split: days_var.splits)

lemma truthy_Some: "truthy v \<Longrightarrow> \<exists>s. v = Some s \<and> s \<noteq> []"
  by (cases v) auto

lemma run_effect:
  assumes run: "run e w = (r, w')"
  shows "\<exists>cs. trace w' = trace w @ cs \<and> prefix cs (rotation_calls e w)
           \<and> (r = Inr () \<and> 4 \<le> length cs \<longrightarrow> cs = rotation_calls e w)
           \<and> (ssm w' = ssm w \<or> (3 \<le> length cs \<and> ssm w' = (ssm w)(key_path e \<mapsto> new_key_id w)))
           \<and> (cs \<noteq> [] \<longrightarrow> GRAPHQL_API_ID_KEY_PATH e = Some (id_path e))
           \<and> (2 \<le> length cs \<longrightarrow> GRAPHQL_API_KEY_KEY_PATH e = Some (key_path e)
                  \<and> ssm w (id_path e) = Some (api_id e w))
           \<and> (3 \<le> length cs \<longrightarrow> faults w (rotation_calls e w ! 1) = None
                  \<and> appsync w (api_id e w) \<noteq> None \<and> new_key_id w \<noteq> [])
           \<and> (appsync w' = appsync w \<or>
               (2 \<le> length cs \<and> faults w (rotation_calls e w ! 1) = None \<and>
                (\<exists>ks w4. appsync w (api_id e w) = Some ks
                    \<and> appsync w4 = (appsync w)(api_id e w \<mapsto> ks @ [created_key e w])
                    \<and> clock w4 = clock w \<and> reads w4 = Suc (reads w) \<and> page_size w4 = page_size w
                    \<and> (appsync w' = appsync w4 \<or>
                         delete_expired_api_keys (api_id e w) w4 = (r, w')))))
           \<and> (2 \<le> length cs \<longrightarrow>
                 fst (get_expire_time (days_requested e) w) = Inr (expire_time e w))"
proof (cases "days_value (DAYS_FOR_KEY_TO_LAST e)")
  case (Inl err)
  with run have "w' = w" by (simp add: run_def)
  then show ?thesis by (intro exI[of _ "[]"]) simp
next
  case (Inr d)
  note d = days_value_Inr[OF Inr]
  show ?thesis
  proof (cases "truthy (GRAPHQL_API_ID_KEY_PATH e)")
    case False
    with run Inr have "w' = w" by (simp add: run_def)
    then show ?thesis by (intro exI[of _ "[]"]) simp
  next
    case True
    then obtain p where p: "GRAPHQL_API_ID_KEY_PATH e = Some p" "p \<noteq> []"
      using truthy_Some by blast
    then have idp: "id_path e = p" by (simp add: id_path_def)
    obtain r1 w1 where g: "get_parameter p w = (r1, w1)" by fastforce
    note ge = get_parameter_effect[OF g]
    have short: "trace w' = trace w1 \<Longrightarrow> ssm w' = ssm w1 \<Longrightarrow> appsync w' = appsync w1 \<Longrightarrow> ?thesis"
      using ge idp p by (intro exI[of _ "[GetParameter p]"]) (simp add: rotation_calls_def)
    show ?thesis
    proof (cases "\<exists>a. r1 = Inr a \<and> truthy a \<and> truthy (GRAPHQL_API_KEY_KEY_PATH e)")
      case False
      with run Inr True p g have "w' = w1"
        by (cases r1) (auto simp: run_def)
      then show ?thesis by (intro short) simp_all
    next
      case True2: True
      then obtain a kp where a: "r1 = Inr (Some a)" "a \<noteq> []"
        and kp: "GRAPHQL_API_KEY_KEY_PATH e = Some kp" "kp \<noteq> []"
        using truthy_Some by blast
      from ge a have ssm: "ssm w p = Some a" by auto
      then have api: "api_id e w = a" by (simp add: api_id_def idp)
      from kp have kpe: "key_path e = kp" by (simp add: key_path_def)
      obtain r2 w2 where x: "get_expire_time d w1 = (r2, w2)" by fastforce
      note xe = get_expire_time_effect[OF x]
      show ?thesis
      proof (cases r2)
        case (Inl err)
        with run Inr True p g a kp x have "w' = w2" by (auto simp: run_def)
        with xe show ?thesis by (intro short) simp_all
      next
        case Inr2: (Inr xt)
        with xe ge d have xt: "xt = expire_time e w"
          by (simp add: expire_time_def)
        from x Inr2 ge d xt
        have gx: "fst (get_expire_time (days_requested e) w) = Inr (expire_time e w)"
          using get_expire_time_call[of "days_requested e" "GetParameter p" w] by simp
        obtain r3 w3 where c: "generate_new_api_key a xt w2 = (r3, w3)" by fastforce
        note ce = generate_new_api_key_effect[OF c]
        have tr3: "trace w3 = trace w @ [GetParameter p, CreateApiKey a auto_description xt]"
          using ce xe ge by simp
        have rot1: "rotation_calls e w ! 1 = CreateApiKey a auto_description xt"
          by (simp add: rotation_calls_def api xt)
        have w3: "ssm w3 = ssm w" "clock w3 = clock w" "reads w3 = Suc (reads w)"
          "page_size w3 = page_size w"
          using ce xe ge by simp_all
        show ?thesis
        proof (cases r3)
          case (Inl err)
          with run Inr True p g a kp x Inr2 c have "w' = w3" by (auto simp: run_def)
          moreover from Inl ce xe ge have "appsync w3 = appsync w" by simp
          ultimately show ?thesis using tr3 w3 idp api xt p kp kpe ssm gx
            by (intro exI[of _ "[GetParameter p, CreateApiKey a auto_description xt]"])
               (simp add: rotation_calls_def)
        next
          case Inr3: (Inr i)
          from ce Inr3 xe ge have inew: "i = new_key_id w"
            and nofault: "faults w (CreateApiKey a auto_description xt) = None" by simp_all
          from ce Inr3 xe ge obtain ks where ks: "appsync w a = Some ks"
            "appsync w3 = (appsync w)(a \<mapsto> ks @ [created_key e w])"
            by (auto simp: created_key_def xt)
          have created: "2 \<le> length [GetParameter p, CreateApiKey a auto_description xt]
                \<and> faults w (rotation_calls e w ! 1) = None" using nofault rot1 by simp
          show ?thesis
          proof (cases "i = []")
            case True
            with run Inr \<open>truthy (GRAPHQL_API_ID_KEY_PATH e)\<close> p g a kp x Inr2 c Inr3
            have "w' = w3" by (auto simp: run_def)
            then show ?thesis using tr3 w3 idp api xt ks created p kp kpe ssm gx
              by (intro exI[of _ "[GetParameter p, CreateApiKey a auto_description xt]"])
                 (auto simp add: rotation_calls_def)
          next
            case False
            obtain r4 w4 where s: "save_secure_parameter kp i w3 = (r4, w4)" by fastforce
            note se = save_secure_parameter_effect[OF s]
            have tr4: "trace w4 = trace w @ [GetParameter p, CreateApiKey a auto_description xt,
                          PutParameter kp (new_key_id w)]"
              using se tr3 inew by simp
            have w4: "clock w4 = clock w" "reads w4 = Suc (reads w)" "page_size w4 = page_size w"
                     "appsync w4 = (appsync w)(a \<mapsto> ks @ [created_key e w])"
              using se w3 ks by simp_all
            have ssm4: "ssm w4 = ssm w \<or> ssm w4 = (ssm w)(kp \<mapsto> new_key_id w)"
              using se w3 inew by (cases r4) auto
            show ?thesis
            proof (cases r4)
              case (Inl err)
              with run Inr \<open>truthy (GRAPHQL_API_ID_KEY_PATH e)\<close> p g a kp x Inr2 c Inr3 False s
              have "w' = w4" by (auto simp: run_def)
              then show ?thesis using tr4 w4 ssm4 idp kpe api xt ks(1) nofault rot1 p kp ssm False inew gx
                by (intro exI[of _ "[GetParameter p, CreateApiKey a auto_description xt,
                          PutParameter kp (new_key_id w)]"])
                   (auto simp add: rotation_calls_def)
            next
              case Inr4: (Inr u)
              with run Inr \<open>truthy (GRAPHQL_API_ID_KEY_PATH e)\<close> p g a kp x Inr2 c Inr3 False s
              have del: "delete_expired_api_keys a w4 = (r, w')" by (auto simp: run_def)
              from Inr4 se w3 inew have ssm4': "ssm w4 = (ssm w)(kp \<mapsto> new_key_id w)" by simp
              define L where "L = due_keys (clock w) (Suc (reads w)) (listing e w)"
              from delete_expired_api_keys_effect[OF del] obtain ds where ds:
                "trace w' = trace w4 @ ListApiKeys a # map (\<lambda>k. DeleteApiKey a (key_id k)) ds"
                "prefix ds (due_keys (clock w4) (reads w4) (take (page_size w4)
                    (case appsync w4 a of Some ks \<Rightarrow> ks | None \<Rightarrow> [])))"
                "r = Inr () \<longrightarrow> ds = due_keys (clock w4) (reads w4) (take (page_size w4)
                    (case appsync w4 a of Some ks \<Rightarrow> ks | None \<Rightarrow> []))"
                "ssm w' = ssm w4"
                by blast
              have lst: "due_keys (clock w4) (reads w4) (take (page_size w4)
                    (case appsync w4 a of Some ks \<Rightarrow> ks | None \<Rightarrow> [])) = L"
                using w4 ks by (simp add: L_def listing_def api del: take_append)
              have rot: "rotation_calls e w = [GetParameter p, CreateApiKey a auto_description xt,
                          PutParameter kp (new_key_id w), ListApiKeys a]
                          @ map (\<lambda>k. DeleteApiKey a (key_id k)) L"
                using idp kpe api xt by (simp add: rotation_calls_def L_def)
              from ds(2) lst obtain zs where zs: "L = ds @ zs" by (auto simp: prefix_def)
              let ?cs = "[GetParameter p, CreateApiKey a auto_description xt,
                          PutParameter kp (new_key_id w), ListApiKeys a]
                          @ map (\<lambda>k. DeleteApiKey a (key_id k)) ds"
              have 1: "trace w' = trace w @ ?cs" using ds(1) tr4 by simp
              have 2: "prefix ?cs (rotation_calls e w)" unfolding rot zs by simp
              have 3: "r = Inr () \<and> 4 \<le> length ?cs \<longrightarrow> ?cs = rotation_calls e w"
                using ds(3) lst rot by simp
              have 4: "3 \<le> length ?cs \<and> ssm w' = (ssm w)(key_path e \<mapsto> new_key_id w)"
                using ds(4) ssm4' kpe by simp
              have 5: "2 \<le> length ?cs \<and> faults w (rotation_calls e w ! 1) = None \<and>
                (\<exists>ks w4. appsync w (api_id e w) = Some ks
                    \<and> appsync w4 = (appsync w)(api_id e w \<mapsto> ks @ [created_key e w])
                    \<and> clock w4 = clock w \<and> reads w4 = Suc (reads w) \<and> page_size w4 = page_size w
                    \<and> (appsync w' = appsync w4 \<or>
                         delete_expired_api_keys (api_id e w) w4 = (r, w')))"
                using nofault rot1 ks(1) w4 del api by auto
              have 6: "?cs \<noteq> [] \<longrightarrow> GRAPHQL_API_ID_KEY_PATH e = Some (id_path e)"
                using p idp by simp
              have 7: "2 \<le> length ?cs \<longrightarrow> GRAPHQL_API_KEY_KEY_PATH e = Some (key_path e)
                  \<and> ssm w (id_path e) = Some (api_id e w)"
                using kp kpe ssm idp api by simp
              have 8: "3 \<le> length ?cs \<longrightarrow> faults w (rotation_calls e w ! 1) = None
                  \<and> appsync w (api_id e w) \<noteq> None \<and> new_key_id w \<noteq> []"
                using nofault rot1 ks(1) api False inew by simp
              from 1 2 3 4 5 6 7 8 gx show ?thesis by blast
            qed
          qed
        qed
      qed
    qed
  qed
qed

lemma calls_of_eq:
  assumes "run e w = (r, w')" and "trace w' = trace w @ cs"
  shows "calls_of e w = cs"
  using assms by (simp add: calls_of_def)


lemmas example_defs = run_def example_env_def example_world_def example_keys_def
      days_value_def get_parameter_def get_expire_time_def generate_new_api_key_def
      save_secure_parameter_def delete_expired_api_keys_def list_api_keys_def
      delete_api_key_def call_def now_def Let_def microseconds_per_day_def timestamp_def
      in_range_def seconds_min_def datetime_min_def datetime_max_def auto_description_def
      delete_loop_Cons int_timestamp_def[symmetric] int_timestamp_exact expired_second
      expired_future

lemma example_run_calls:
  "calls_of example_env example_world =
     [GetParameter ''/id'', CreateApiKey ''api1'' auto_description 1731449600,
      PutParameter ''/key'' ''k9'', ListApiKeys ''api1'', DeleteApiKey ''api1'' ''k1'']"
  by (simp add: calls_of_def example_defs)

lemma example_run_result: "fst (run example_env example_world) = Inr ()"
  by (simp add: example_defs)

lemma example_run_keys:
  "appsync (snd (run example_env example_world)) ''api1'' =
     Some [\<lparr>key_id = ''k2'', description = Some ''manual'', expires = 1600000000\<rparr>,
      \<lparr>key_id = ''k3'', description = Some auto_description, expires = 1800000000\<rparr>,
      \<lparr>key_id = ''k4'', description = None, expires = 1600000000\<rparr>,
      \<lparr>key_id = ''k9'', description = Some auto_description, expires = 1731448800\<rparr>]"
  by (simp add: example_defs)

lemma calls_of_effect:
  "\<exists>r w'. run e w = (r, w') \<and> trace w' = trace w @ calls_of e w"
proof -
  obtain r w' where run: "run e w = (r, w')" by fastforce
  from run_effect[OF run] obtain cs where "trace w' = trace w @ cs" by blast
  with calls_of_eq[OF run] run show ?thesis by auto
qed

lemma rotation_calls_length: "4 \<le> length (rotation_calls e w)"
  by (simp add: rotation_calls_def)

lemma rotation_calls_nth:
  "rotation_calls e w ! 0 = GetParameter (id_path e)"
  "rotation_calls e w ! 1 = CreateApiKey (api_id e w) auto_description (expire_time e w)"
  "rotation_calls e w ! Suc 0 = CreateApiKey (api_id e w) auto_description (expire_time e w)"
  "rotation_calls e w ! 2 = PutParameter (key_path e) (new_key_id w)"
  "rotation_calls e w ! 3 = ListApiKeys (api_id e w)"
  by (simp_all add: rotation_calls_def)

lemma prefix_nth: "prefix xs ys \<Longrightarrow> i < length xs \<Longrightarrow> xs ! i = ys ! i"
  by (auto simp: prefix_def nth_append)

text \<open>Where each kind of call can stand in the sequence.\<close>

lemma rotation_calls_reads:
  "filter is_ssm_read (rotation_calls e w) = [GetParameter (id_path e)]"
  by (simp add: rotation_calls_def filter_map comp_def)

lemma rotation_calls_writes:
  "filter is_ssm_write (rotation_calls e w) = [PutParameter (key_path e) (new_key_id w)]"
  by (simp add: rotation_calls_def filter_map comp_def)

lemma prefix_filter_length: "prefix xs ys \<Longrightarrow> length (filter P xs) \<le> length (filter P ys)"
  by (auto simp: prefix_def)

lemma in_prefix_index:
  assumes "prefix cs (rotation_calls e w)" and "c \<in> set cs"
  shows "\<exists>i < length cs. cs ! i = c \<and> rotation_calls e w ! i = c"
proof -
  from assms(2) obtain i where "i < length cs" "cs ! i = c" by (auto simp: in_set_conv_nth)
  with prefix_nth[OF assms(1)] show ?thesis by auto
qed

lemma rotation_calls_index_get:
  "i < length (rotation_calls e w) \<Longrightarrow> rotation_calls e w ! i = GetParameter n \<Longrightarrow> i = 0"
  by (auto simp: rotation_calls_def nth_Cons nth_append split: nat.splits if_splits)

lemma rotation_calls_index_put:
  "i < length (rotation_calls e w) \<Longrightarrow> rotation_calls e w ! i = PutParameter n v \<Longrightarrow> i = 2"
  by (auto simp: rotation_calls_def nth_Cons nth_append split: nat.splits if_splits)

lemma rotation_calls_index_create:
  "i < length (rotation_calls e w) \<Longrightarrow> rotation_calls e w ! i = CreateApiKey a d x \<Longrightarrow> i = 1"
  by (auto simp: rotation_calls_def nth_Cons nth_append split: nat.splits if_splits)





text \<open>The handler does reach \<open>create_api_key\<close> when both paths are set and the id
  parameter holds an API id.\<close>

lemma run_creates:
  assumes days: "days_value (DAYS_FOR_KEY_TO_LAST e) = Inr d"
      and p: "GRAPHQL_API_ID_KEY_PATH e = Some p" "p \<noteq> []"
      and q: "GRAPHQL_API_KEY_KEY_PATH e = Some q" "q \<noteq> []"
      and g: "faults w (GetParameter p) = None" "ssm w p = Some a" "a \<noteq> []"
      and x: "fst (get_expire_time d w) = Inr x"
  shows "\<exists>cs. calls_of e w = GetParameter p # CreateApiKey a auto_description x # cs"
proof -
  define w1 where "w1 = call (GetParameter p) w"
  have gp: "get_parameter p w = (Inr (Some a), w1)"
    using g by (simp add: get_parameter_def w1_def)
  obtain w2 where x2: "get_expire_time d w1 = (Inr x, w2)"
    using x get_expire_time_call[of d "GetParameter p" w] unfolding w1_def
    by (cases "get_expire_time d (call (GetParameter p) w)") simp
  note xe = get_expire_time_effect[OF x2]
  obtain r3 w3 where c: "generate_new_api_key a x w2 = (r3, w3)" by fastforce
  note ce = generate_new_api_key_effect[OF c]
  have tr3: "trace w3 = trace w @ [GetParameter p, CreateApiKey a auto_description x]"
    using ce xe by (simp add: w1_def)
  have run: "run e w =
      (case r3 of Inl err \<Rightarrow> (Inl err, w3)
       | Inr i \<Rightarrow> if i \<noteq> [] then (case save_secure_parameter q i w3 of
                                   (Inl err, w4) \<Rightarrow> (Inl err, w4)
                                 | (Inr u, w4) \<Rightarrow> delete_expired_api_keys a w4)
                  else (Inr (), w3))"
    using days p q g(3) gp x2 c by (auto simp add: run_def split: sum.splits prod.splits)
  show ?thesis
  proof (cases r3)
    case (Inl err)
    with run tr3 show ?thesis by (simp add: calls_of_def)
  next
    case (Inr i)
    show ?thesis
    proof (cases "i = []")
      case True
      with run Inr tr3 show ?thesis by (simp add: calls_of_def)
    next
      case False
      obtain r4 w4 where s: "save_secure_parameter q i w3 = (r4, w4)" by fastforce
      note se = save_secure_parameter_effect[OF s]
      show ?thesis
      proof (cases r4)
        case (Inl err)
        with run Inr False s se tr3 show ?thesis by (simp add: calls_of_def)
      next
        case Inr4: (Inr u)
        obtain r5 w5 where del: "delete_expired_api_keys a w4 = (r5, w5)" by fastforce
        from delete_expired_api_keys_effect[OF del] obtain cs5 where
          "trace w5 = trace w4 @ ListApiKeys a # cs5"
          by blast
        with run Inr False s Inr4 del se tr3 show ?thesis by (simp add: calls_of_def)
      qed
    qed
  qed
qed

lemma example_expire_time:
  "get_expire_time 400 example_world = (Inr 1731449600, example_world\<lparr>reads := 1\<rparr>)"
  by (simp add: example_defs)

text \<open>
  C9. For a non-negative number of days, \<open>_get_expire_time\<close> reads the clock once and
  fails only on the clock: with \<open>ValueError\<close> when \<open>now()\<close> is refused, with
  \<open>OverflowError\<close> when the reading plus \<open>min days 364\<close> days is past the last datetime.
  Otherwise it returns \<open>int\<close> of the timestamp of the reading plus \<open>min days 364\<close> days.
  That is the whole second of this datetime or, by the rounding of the double, the next one
  (before \<open>2 ^ 33\<close> seconds always the whole second itself), and so lies strictly less than
  365 days after the reading. With that number of days in \<open>DAYS_FOR_KEY_TO_LAST\<close>, every
  \<open>create_api_key\<close> of an invocation passes this value, and an invocation whose two paths
  are set, whose id parameter is read and holds an API id, and whose \<open>_get_expire_time\<close>
  returns, does make the call.
\<close>

theorem expire_time_capped:
  assumes "0 \<le> days"
  shows "(let t = clock w (reads w); u = t + min days 364 * microseconds_per_day in
     get_expire_time days w =
       (if \<not> in_range t then Inl ValueError
        else if datetime_max < u then Inl OverflowError
        else Inr (int_timestamp u),
        w\<lparr>reads := Suc (reads w)\<rparr>)
     \<and> (\<forall>x. fst (get_expire_time days w) = Inr x \<longrightarrow>
            u div 1000000 \<le> x \<and> x \<le> u div 1000000 + 1
          \<and> x * 1000000 < t + 365 * microseconds_per_day
          \<and> (0 \<le> u \<and> u div 1000000 < 2 ^ 33 \<longrightarrow> x = u div 1000000))
     \<and> (DAYS_FOR_KEY_TO_LAST e = Parses days \<longrightarrow>
          (\<forall>a dsc x. CreateApiKey a dsc x \<in> set (calls_of e w) \<longrightarrow>
                fst (get_expire_time days w) = Inr x)
        \<and> (\<forall>p q a x. GRAPHQL_API_ID_KEY_PATH e = Some p \<and> p \<noteq> []
                \<and> GRAPHQL_API_KEY_KEY_PATH e = Some q \<and> q \<noteq> []
                \<and> faults w (GetParameter p) = None \<and> ssm w p = Some a \<and> a \<noteq> []
                \<and> fst (get_expire_time days w) = Inr x \<longrightarrow>
                CreateApiKey a auto_description x \<in> set (calls_of e w))))"
proof -
  define t where "t = clock w (reads w)"
  define u where "u = t + min days 364 * microseconds_per_day"
  have eq: "get_expire_time days w =
       (if \<not> in_range t then Inl ValueError
        else if datetime_max < u then Inl OverflowError
        else Inr (int_timestamp u),
        w\<lparr>reads := Suc (reads w)\<rparr>)"
    unfolding t_def u_def by (rule get_expire_time_eq[OF assms])
  have bounds: "u div 1000000 \<le> x \<and> x \<le> u div 1000000 + 1
          \<and> x * 1000000 < t + 365 * microseconds_per_day
          \<and> (0 \<le> u \<and> u div 1000000 < 2 ^ 33 \<longrightarrow> x = u div 1000000)"
    if "fst (get_expire_time days w) = Inr x" for x
  proof -
    from that eq have r: "in_range t" "u \<le> datetime_max" and x: "x = int_timestamp u"
      by (auto split: if_splits)
    have "0 \<le> min days 364 * microseconds_per_day"
      using assms by (simp add: microseconds_per_day_def min_def)
    with in_range_bounds[OF r(1)] have lo: "datetime_min \<le> u" by (simp add: u_def)
    have "u + 1000000 < t + 365 * microseconds_per_day"
      by (simp add: u_def microseconds_per_day_def min_def)
    with int_timestamp_microseconds[OF lo r(2)]
    have "x * 1000000 < t + 365 * microseconds_per_day" unfolding x by simp
    with int_timestamp_bounds[OF lo r(2)] int_timestamp_exact[of u] show ?thesis
      unfolding x by simp
  qed
  have passed: "fst (get_expire_time days w) = Inr x"
    if d: "DAYS_FOR_KEY_TO_LAST e = Parses days" and c: "CreateApiKey a dsc x \<in> set (calls_of e w)"
    for a dsc x
  proof -
    obtain r w' where run: "run e w = (r, w')" by fastforce
    from run_effect[OF run] obtain cs where cs: "trace w' = trace w @ cs"
      "prefix cs (rotation_calls e w)"
      "2 \<le> length cs \<longrightarrow> fst (get_expire_time (days_requested e) w) = Inr (expire_time e w)"
      by blast
    have co: "calls_of e w = cs" using calls_of_eq[OF run cs(1)] .
    from in_prefix_index[OF cs(2)] c co obtain i where i: "i < length cs"
      "rotation_calls e w ! i = CreateApiKey a dsc x" by blast
    from cs(2) have "length cs \<le> length (rotation_calls e w)" by (rule prefix_length_le)
    with i rotation_calls_index_create[of i e w a dsc x] have i1: "i = 1" by simp
    with i(2) have "x = expire_time e w" by (simp add: rotation_calls_nth)
    moreover from i(1) i1 have "2 \<le> length cs" by simp
    moreover from d have "days_requested e = days" by (simp add: days_requested_def)
    ultimately show ?thesis using cs(3) by simp
  qed
  have made: "CreateApiKey a auto_description x \<in> set (calls_of e w)"
    if "DAYS_FOR_KEY_TO_LAST e = Parses days"
      and "GRAPHQL_API_ID_KEY_PATH e = Some p \<and> p \<noteq> []
                \<and> GRAPHQL_API_KEY_KEY_PATH e = Some q \<and> q \<noteq> []
                \<and> faults w (GetParameter p) = None \<and> ssm w p = Some a \<and> a \<noteq> []
                \<and> fst (get_expire_time days w) = Inr x"
    for p q a x
  proof -
    from that(1) have "days_value (DAYS_FOR_KEY_TO_LAST e) = Inr days" by (simp add: days_value_def)
    from run_creates[OF this, of p q w a x] that(2) show ?thesis by auto
  qed
  from eq bounds passed made show ?thesis
    unfolding Let_def t_def[symmetric] u_def[symmetric] by blast
qed

theorem expire_time_capped_witness:
  "(0::int) \<le> 400
   \<and> get_expire_time 400 example_world = (Inr 1731449600, example_world\<lparr>reads := 1\<rparr>)
   \<and> (1731449600::int) = (1700000000000000 + 364 * 86400000000) div 1000000
   \<and> (1731449600::int) * 1000000 < 1700000000000000 + 365 * 86400000000
   \<and> DAYS_FOR_KEY_TO_LAST example_env = Parses 400
   \<and> CreateApiKey ''api1'' auto_description 1731449600 \<in> set (calls_of example_env example_world)
   \<and> fst (get_expire_time 400 example_world) = Inr 1731449600"
proof -
  have 0: "(0::int) \<le> 400" by simp
  have 1: "DAYS_FOR_KEY_TO_LAST example_env = Parses 400" by (simp add: example_env_def)
  have 2: "get_expire_time 400 example_world = (Inr 1731449600, example_world\<lparr>reads := 1\<rparr>)"
    by (rule example_expire_time)
  have 3: "GRAPHQL_API_ID_KEY_PATH example_env = Some ''/id'' \<and> ''/id'' \<noteq> []
       \<and> GRAPHQL_API_KEY_KEY_PATH example_env = Some ''/key'' \<and> ''/key'' \<noteq> []
       \<and> faults example_world (GetParameter ''/id'') = None
       \<and> ssm example_world ''/id'' = Some ''api1'' \<and> ''api1'' \<noteq> []"
    by (simp add: example_env_def example_world_def)
  from expire_time_capped[OF 0, of example_world example_env] 1 2 3
  have "CreateApiKey ''api1'' auto_description 1731449600 \<in> set (calls_of example_env example_world)"
    unfolding Let_def by (metis fst_conv)
  with 0 1 2 show ?thesis by simp
qed



text \<open>
  C5, as amended. An invocation makes at most one SSM read, of the parameter named by
  \<open>GRAPHQL_API_ID_KEY_PATH\<close>, and at most one SSM write, of the parameter named by
  \<open>GRAPHQL_API_KEY_KEY_PATH\<close>; the write happens only after \<open>create_api_key\<close> was
  accepted for an existing API and returned a non-empty key id, which is the value written;
  no other parameter changes. (The handler does change AppSync: the write is preceded by a
  key creation, and expired keys are deleted afterwards.)
\<close>

theorem run_ssm_reads_and_writes:
  "length (filter is_ssm_read (calls_of e w)) \<le> 1
   \<and> (\<forall>n. GetParameter n \<in> set (calls_of e w) \<longrightarrow> GRAPHQL_API_ID_KEY_PATH e = Some n)
   \<and> length (filter is_ssm_write (calls_of e w)) \<le> 1
   \<and> (\<forall>n v. PutParameter n v \<in> set (calls_of e w) \<longrightarrow>
          GRAPHQL_API_KEY_KEY_PATH e = Some n \<and> v = new_key_id w \<and> v \<noteq> []
          \<and> CreateApiKey (api_id e w) auto_description (expire_time e w) \<in> set (calls_of e w)
          \<and> faults w (CreateApiKey (api_id e w) auto_description (expire_time e w)) = None
          \<and> appsync w (api_id e w) \<noteq> None)
   \<and> (ssm (snd (run e w)) = ssm w
       \<or> (ssm (snd (run e w)) = (ssm w)(key_path e \<mapsto> new_key_id w)
           \<and> PutParameter (key_path e) (new_key_id w) \<in> set (calls_of e w)))"
proof -
  obtain r w' where run: "run e w = (r, w')" by fastforce
  from run_effect[OF run] obtain cs where cs: "trace w' = trace w @ cs"
    "prefix cs (rotation_calls e w)"
    "ssm w' = ssm w \<or> (3 \<le> length cs \<and> ssm w' = (ssm w)(key_path e \<mapsto> new_key_id w))"
    "cs \<noteq> [] \<longrightarrow> GRAPHQL_API_ID_KEY_PATH e = Some (id_path e)"
    "2 \<le> length cs \<longrightarrow> GRAPHQL_API_KEY_KEY_PATH e = Some (key_path e)
                  \<and> ssm w (id_path e) = Some (api_id e w)"
    "3 \<le> length cs \<longrightarrow> faults w (rotation_calls e w ! 1) = None
                  \<and> appsync w (api_id e w) \<noteq> None \<and> new_key_id w \<noteq> []"
    by blast
  have co: "calls_of e w = cs" using calls_of_eq[OF run cs(1)] .
  have nth: "\<And>i. i < length cs \<Longrightarrow> cs ! i = rotation_calls e w ! i"
    using prefix_nth[OF cs(2)] by simp
  have len: "length cs \<le> length (rotation_calls e w)" using cs(2) by (rule prefix_length_le)
  have a: "length (filter is_ssm_read cs) \<le> 1"
    using prefix_filter_length[OF cs(2), of is_ssm_read] by (simp add: rotation_calls_reads)
  have b: "\<forall>n. GetParameter n \<in> set cs \<longrightarrow> GRAPHQL_API_ID_KEY_PATH e = Some n"
  proof (intro allI impI)
    fix n assume n: "GetParameter n \<in> set cs"
    from in_prefix_index[OF cs(2) n] obtain i where i: "i < length cs"
      "rotation_calls e w ! i = GetParameter n" by blast
    with len rotation_calls_index_get[of i e w n] have "i = 0" by simp
    with i(2) have "n = id_path e" by (simp add: rotation_calls_nth)
    with cs(4) n show "GRAPHQL_API_ID_KEY_PATH e = Some n" by auto
  qed
  have c: "length (filter is_ssm_write cs) \<le> 1"
    using prefix_filter_length[OF cs(2), of is_ssm_write] by (simp add: rotation_calls_writes)
  have put3: "3 \<le> length cs \<Longrightarrow> PutParameter (key_path e) (new_key_id w) \<in> set cs
        \<and> CreateApiKey (api_id e w) auto_description (expire_time e w) \<in> set cs"
  proof -
    assume l: "3 \<le> length cs"
    then have "cs ! 2 = PutParameter (key_path e) (new_key_id w)"
      "cs ! 1 = CreateApiKey (api_id e w) auto_description (expire_time e w)"
      using nth[of 2] nth[of 1] by (simp_all add: rotation_calls_nth)
    moreover from l have "cs ! 2 \<in> set cs" "cs ! 1 \<in> set cs" by simp_all
    ultimately show ?thesis by simp
  qed
  have d: "\<forall>n v. PutParameter n v \<in> set cs \<longrightarrow>
          GRAPHQL_API_KEY_KEY_PATH e = Some n \<and> v = new_key_id w \<and> v \<noteq> []
          \<and> CreateApiKey (api_id e w) auto_description (expire_time e w) \<in> set cs
          \<and> faults w (CreateApiKey (api_id e w) auto_description (expire_time e w)) = None
          \<and> appsync w (api_id e w) \<noteq> None"
  proof (intro allI impI)
    fix n v assume nv: "PutParameter n v \<in> set cs"
    from in_prefix_index[OF cs(2) nv] obtain i where i: "i < length cs"
      "rotation_calls e w ! i = PutParameter n v" by blast
    with len rotation_calls_index_put[of i e w n v] have i2: "i = 2" by simp
    with i(2) have eq: "n = key_path e" "v = new_key_id w" by (simp_all add: rotation_calls_nth)
    from i(1) i2 have l3: "3 \<le> length cs" by simp
    with cs(5) cs(6) put3 eq
    show "GRAPHQL_API_KEY_KEY_PATH e = Some n \<and> v = new_key_id w \<and> v \<noteq> []
          \<and> CreateApiKey (api_id e w) auto_description (expire_time e w) \<in> set cs
          \<and> faults w (CreateApiKey (api_id e w) auto_description (expire_time e w)) = None
          \<and> appsync w (api_id e w) \<noteq> None"
      by (simp add: rotation_calls_nth)
  qed
  have f: "ssm w' = ssm w
       \<or> (ssm w' = (ssm w)(key_path e \<mapsto> new_key_id w)
           \<and> PutParameter (key_path e) (new_key_id w) \<in> set cs)"
    using cs(3) put3 by blast
  from a b c d f show ?thesis unfolding co using run by simp
qed

theorem run_ssm_reads_and_writes_witness:
  "GetParameter ''/id'' \<in> set (calls_of example_env example_world)
   \<and> GRAPHQL_API_ID_KEY_PATH example_env = Some ''/id''
   \<and> PutParameter ''/key'' ''k9'' \<in> set (calls_of example_env example_world)
   \<and> GRAPHQL_API_KEY_KEY_PATH example_env = Some ''/key''
   \<and> ''k9'' = new_key_id example_world
   \<and> faults example_world (CreateApiKey (api_id example_env example_world) auto_description
         (expire_time example_env example_world)) = None"
proof -
  have 1: "GetParameter ''/id'' \<in> set (calls_of example_env example_world)"
    by (simp add: example_run_calls)
  have 2: "PutParameter ''/key'' ''k9'' \<in> set (calls_of example_env example_world)"
    by (simp add: example_run_calls)
  from run_ssm_reads_and_writes[of example_env example_world] 1 2 show ?thesis by blast
qed

text \<open>
  As stated, C5 also says that an invocation changes no AppSync state. It does: in the
  example world the handler creates a key and deletes the expired auto-maintained one.
\<close>

theorem run_touches_appsync_counterexample:
  "CreateApiKey ''api1'' auto_description 1731449600 \<in> set (calls_of example_env example_world)
   \<and> DeleteApiKey ''api1'' ''k1'' \<in> set (calls_of example_env example_world)
   \<and> appsync (snd (run example_env example_world)) ''api1'' \<noteq> appsync example_world ''api1''"
  by (simp add: example_run_calls example_run_keys) (simp add: example_world_def example_keys_def)

lemma due_keys_length: "length (due_keys clk n ks) \<le> length ks"
  by (induction ks arbitrary: n) (auto simp: le_SucI)

text \<open>
  C6. The schedule of \<open>RotateAPIKeysRule\<close> fires at 00:00 and at no other minute of a
  day. The calls of an invocation are an initial part of: one \<open>get_parameter\<close>, one
  \<open>create_api_key\<close>, one \<open>put_parameter\<close>, one \<open>list_api_keys\<close>, then one
  \<open>delete_api_key\<close> for each key of the listing that is expired and auto-maintained when
  the loop reaches it; an invocation that returns normally after listing the keys makes
  exactly these calls. Their number is at most four plus the length of the listing. The
  handler is a total function of its environment and the world: it keeps no state of its
  own between invocations.
\<close>

theorem run_call_sequence:
  "prefix (calls_of e w) (rotation_calls e w)
   \<and> (fst (run e w) = Inr () \<and> 4 \<le> length (calls_of e w) \<longrightarrow> calls_of e w = rotation_calls e w)
   \<and> length (calls_of e w) \<le> 4 + length (listing e w)
   \<and> (fires RotateAPIKeysRule t \<longleftrightarrow> at_hour t = 0 \<and> at_minute t = 0)"
proof -
  obtain r w' where run: "run e w = (r, w')" by fastforce
  from run_effect[OF run] obtain cs where cs: "trace w' = trace w @ cs"
    "prefix cs (rotation_calls e w)"
    "r = Inr () \<and> 4 \<le> length cs \<longrightarrow> cs = rotation_calls e w"
    by blast
  have co: "calls_of e w = cs" using calls_of_eq[OF run cs(1)] .
  have "length cs \<le> length (rotation_calls e w)" using cs(2) by (rule prefix_length_le)
  also have "\<dots> \<le> 4 + length (listing e w)"
    using due_keys_length[of "clock w" "Suc (reads w)" "listing e w"]
    by (simp add: rotation_calls_def)
  finally have len: "length cs \<le> 4 + length (listing e w)" .
  have cron: "fires RotateAPIKeysRule t \<longleftrightarrow> at_hour t = 0 \<and> at_minute t = 0"
    by (auto simp: fires_def RotateAPIKeysRule_def field_matches_def)
  from cs(2,3) len cron show ?thesis unfolding co using run by simp
qed

theorem run_call_sequence_witness:
  "fst (run example_env example_world) = Inr () \<and> 4 \<le> length (calls_of example_env example_world)
   \<and> calls_of example_env example_world = rotation_calls example_env example_world
   \<and> rotation_calls example_env example_world =
       [GetParameter ''/id'', CreateApiKey ''api1'' auto_description 1731449600,
        PutParameter ''/key'' ''k9'', ListApiKeys ''api1'', DeleteApiKey ''api1'' ''k1'']"
proof -
  have 1: "fst (run example_env example_world) = Inr ()" by (rule example_run_result)
  have 2: "4 \<le> length (calls_of example_env example_world)" by (simp add: example_run_calls)
  from run_call_sequence[of example_env example_world] 1 2
  have "calls_of example_env example_world = rotation_calls example_env example_world" by blast
  with 1 2 example_run_calls show ?thesis by simp
qed


section \<open>Facts about the mapping templates\<close>

subsection \<open>The expression builder\<close>

lemma map_put_fresh: "k \<notin> fst ` set m \<Longrightarrow> map_put k v m = m @ [(k, v)]"
  by (induction m) auto

lemma copyAndRemoveAllKeys_two:
  "copyAndRemoveAllKeys args [''itemId'', ''expectedVersion'']
     = filter (\<lambda>e. fst e \<noteq> ''itemId'' \<and> fst e \<noteq> ''expectedVersion'') args"
  by (simp add: copyAndRemoveAllKeys_def)

text \<open>The copies of the loops agree.\<close>

lemma updateSupplementalDataFunction_entries_eq:
  "updateSupplementalDataFunction_entries es st = updateItemFunction_entries es st"
  by (induction es arbitrary: st) simp_all

lemma updateSupplementalDataFunction_set_eq:
  "updateSupplementalDataFunction_set e es = updateItemFunction_set e es"
  by (induction es arbitrary: e) simp_all

lemma updateSupplementalDataFunction_add_eq:
  "updateSupplementalDataFunction_add e es = updateItemFunction_add e es"
  by (induction es arbitrary: e) simp_all

lemma updateSupplementalDataFunction_remove_eq:
  "updateSupplementalDataFunction_remove e es = updateItemFunction_remove e es"
  by (induction es arbitrary: e) simp_all

lemma updateSupplementalDataRecordFunction_entries_eq:
  "updateSupplementalDataRecordFunction_entries es st = updateItemFunction_entries es st"
  by (induction es arbitrary: st) simp_all

lemma updateSupplementalDataRecordFunction_set_eq:
  "updateSupplementalDataRecordFunction_set e es = updateItemFunction_set e es"
  by (induction es arbitrary: e) simp_all

lemma updateSupplementalDataRecordFunction_add_eq:
  "updateSupplementalDataRecordFunction_add e es = updateItemFunction_add e es"
  by (induction es arbitrary: e) simp_all

lemma updateSupplementalDataRecordFunction_remove_eq:
  "updateSupplementalDataRecordFunction_remove e es = updateItemFunction_remove e es"
  by (induction es arbitrary: e) simp_all

text \<open>What the loop over the arguments leaves in each collection.\<close>

lemma entries_expAdd: "expAdd (updateItemFunction_entries es st) = expAdd st"
  by (induction es arbitrary: st) simp_all

lemma entries_expRemove:
  "expRemove (updateItemFunction_entries es st)
     = expRemove st @ map (\<lambda>e. ''#'' @ fst e) (filter (\<lambda>e. snd e = JNull) es)"
  by (induction es arbitrary: st) (simp_all add: isNull_def)

lemma entries_expSet:
  assumes "distinct (map fst es)"
      and "\<forall>e \<in> set es. ''#'' @ fst e \<notin> fst ` set (expSet st)"
  shows "expSet (updateItemFunction_entries es st)
     = expSet st @ map (\<lambda>e. (''#'' @ fst e, '':'' @ fst e)) (filter (\<lambda>e. snd e \<noteq> JNull) es)"
  using assms
proof (induction es arbitrary: st)
  case Nil
  then show ?case by simp
next
  case (Cons e es)
  show ?case
  proof (cases "snd e = JNull")
    case True
    let ?st = "st\<lparr>expRemove := expRemove st @ [''#'' @ fst e],
                expNames := map_put (''#'' @ fst e) (fst e) (expNames st)\<rparr>"
    have "expSet (updateItemFunction_entries es ?st)
       = expSet ?st @ map (\<lambda>e. (''#'' @ fst e, '':'' @ fst e)) (filter (\<lambda>e. snd e \<noteq> JNull) es)"
      using Cons.prems by (intro Cons.IH) simp_all
    with True show ?thesis by (simp add: isNull_def)
  next
    case False
    let ?st = "st\<lparr>expSet := map_put (''#'' @ fst e) ('':'' @ fst e) (expSet st),
                expNames := map_put (''#'' @ fst e) (fst e) (expNames st),
                expValues := map_put ('':'' @ fst e) (toDynamoDB (snd e)) (expValues st)\<rparr>"
    have put: "map_put (''#'' @ fst e) ('':'' @ fst e) (expSet st)
                 = expSet st @ [(''#'' @ fst e, '':'' @ fst e)]"
      using Cons.prems(2) by (intro map_put_fresh) simp
    have "expSet (updateItemFunction_entries es ?st)
       = expSet ?st @ map (\<lambda>e. (''#'' @ fst e, '':'' @ fst e)) (filter (\<lambda>e. snd e \<noteq> JNull) es)"
    proof (intro Cons.IH)
      show "distinct (map fst es)" using Cons.prems(1) by simp
      show "\<forall>e' \<in> set es. ''#'' @ fst e' \<notin> fst ` set (expSet ?st)"
      proof
        fix e' assume e': "e' \<in> set es"
        with Cons.prems(1) have "fst e' \<noteq> fst e" by (auto simp: image_iff)
        moreover from e' Cons.prems(2) have "''#'' @ fst e' \<notin> fst ` set (expSet st)" by simp
        ultimately show "''#'' @ fst e' \<notin> fst ` set (expSet ?st)" using put by simp
      qed
    qed
    with False put show ?thesis by (simp add: isNull_def)
  qed
qed

text \<open>What the loops over the collections append to the expression.\<close>

lemma set_loop:
  "es \<noteq> [] \<Longrightarrow> updateItemFunction_set e es
     = e @ '' '' @ comma_separated (map (\<lambda>x. fst x @ '' = '' @ snd x) es)"
proof (induction es arbitrary: e)
  case Nil
  then show ?case by simp
next
  case (Cons x es)
  then show ?case by (cases es) simp_all
qed

lemma remove_loop:
  "es \<noteq> [] \<Longrightarrow> updateItemFunction_remove e es = e @ '' '' @ comma_separated es"
proof (induction es arbitrary: e)
  case Nil
  then show ?case by simp
next
  case (Cons x es)
  then show ?case by (cases es) simp_all
qed

lemma entries_from_empty:
  assumes "distinct (map fst es)"
  shows "expSet (updateItemFunction_entries es empty_update_state)
           = map (\<lambda>e. (''#'' @ fst e, '':'' @ fst e)) (filter (\<lambda>e. snd e \<noteq> JNull) es)"
    and "expRemove (updateItemFunction_entries es empty_update_state)
           = map (\<lambda>e. ''#'' @ fst e) (filter (\<lambda>e. snd e = JNull) es)"
    and "expAdd (updateItemFunction_entries es empty_update_state) = []"
  using entries_expSet[OF assms, of empty_update_state]
  by (simp_all add: entries_expRemove entries_expAdd empty_update_state_def)

lemma updateItemFunction_expression:
  assumes "distinct (map fst args)"
  shows "expression (updateItemFunction_update args)
           = set_clause (set_keys args) @ remove_clause (remove_keys args)"
proof -
  let ?es = "filter (\<lambda>e. fst e \<noteq> ''itemId'' \<and> fst e \<noteq> ''expectedVersion'') args"
  let ?st = "updateItemFunction_entries ?es empty_update_state"
  have d: "distinct (map fst ?es)" using assms by (simp add: distinct_map_filter)
  note st = entries_from_empty[OF d]
  have s: "expSet ?st \<noteq> [] \<Longrightarrow> updateItemFunction_set ''SET'' (expSet ?st) = set_clause (set_keys args)"
    using set_loop[of "expSet ?st" "''SET''"]
    by (simp add: st set_clause_def set_keys_def comp_def)
  have s0: "expSet ?st = [] \<Longrightarrow> set_clause (set_keys args) = []"
    by (simp add: st set_clause_def set_keys_def)
  have r: "expRemove ?st \<noteq> [] \<Longrightarrow> updateItemFunction_remove (e @ '' REMOVE'') (expRemove ?st)
             = e @ remove_clause (remove_keys args)" for e
    using remove_loop[of "expRemove ?st" "e @ '' REMOVE''"]
    by (simp add: st remove_clause_def remove_keys_def comp_def)
  have r0: "expRemove ?st = [] \<Longrightarrow> remove_clause (remove_keys args) = []"
    by (simp add: st remove_clause_def remove_keys_def)
  have r': "expRemove ?st \<noteq> [] \<Longrightarrow> updateItemFunction_remove '' REMOVE'' (expRemove ?st)
             = remove_clause (remove_keys args)"
    using r[of "[]"] by simp
  show ?thesis
    unfolding updateItemFunction_update_def copyAndRemoveAllKeys_two Let_def
    using s s0 r r' r0 st(3) by (cases "expSet ?st = []"; cases "expRemove ?st = []") simp_all
qed

lemma map_put_not_empty [simp]: "map_put k v m \<noteq> []"
  by (cases m) auto

lemma entries_expSet_empty:
  "expSet (updateItemFunction_entries es st) = []
     \<longleftrightarrow> expSet st = [] \<and> filter (\<lambda>e. snd e \<noteq> JNull) es = []"
  by (induction es arbitrary: st) (auto simp: isNull_def)

lemma entries_expValues_empty:
  "expValues (updateItemFunction_entries es st) = []
     \<longleftrightarrow> expValues st = [] \<and> filter (\<lambda>e. snd e \<noteq> JNull) es = []"
  by (induction es arbitrary: st) (auto simp: isNull_def)

lemma set_keys_empty:
  "set_keys args = [] \<longleftrightarrow>
     expSet (updateItemFunction_entries
        (copyAndRemoveAllKeys args [''itemId'', ''expectedVersion'']) empty_update_state) = []"
  by (simp add: entries_expSet_empty set_keys_def copyAndRemoveAllKeys_two empty_update_state_def)

lemma expValues_empty:
  "expValues (updateItemFunction_entries es empty_update_state) = []
     \<longleftrightarrow> expSet (updateItemFunction_entries es empty_update_state) = []"
  by (simp add: entries_expSet_empty entries_expValues_empty empty_update_state_def)

lemma updateSupplementalDataFunction_update_eq:
  "updateSupplementalDataFunction_update args = updateItemFunction_update args"
  by (simp add: updateSupplementalDataFunction_update_def updateItemFunction_update_def
      updateSupplementalDataFunction_entries_eq updateSupplementalDataFunction_set_eq
      updateSupplementalDataFunction_add_eq updateSupplementalDataFunction_remove_eq Let_def)

lemma record_expressionNames:
  "expressionNames (updateSupplementalDataRecordFunction_update stamp args)
     = expressionNames (updateItemFunction_update args)"
  by (simp add: updateSupplementalDataRecordFunction_update_def updateItemFunction_update_def
      updateSupplementalDataRecordFunction_entries_eq Let_def split: prod.splits)

lemma record_expressionValues:
  "expressionValues (updateSupplementalDataRecordFunction_update stamp args)
     = (if set_keys args = [] then expressionValues (updateItemFunction_update args)
        else map_option (map_put '':dateAddedToDynamo'' (DS stamp))
               (expressionValues (updateItemFunction_update args)))"
  using expValues_empty[of "copyAndRemoveAllKeys args [''itemId'', ''expectedVersion'']"]
  by (simp add: updateSupplementalDataRecordFunction_update_def updateItemFunction_update_def
      updateSupplementalDataRecordFunction_entries_eq Let_def set_keys_empty split: prod.splits)

lemma record_expression:
  assumes "distinct (map fst args)"
  shows "expression (updateSupplementalDataRecordFunction_update stamp args)
           = set_clause (set_keys args)
             @ (if set_keys args = [] then [] else dateAddedToDynamo_clause)
             @ remove_clause (remove_keys args)"
proof -
  let ?es = "filter (\<lambda>e. fst e \<noteq> ''itemId'' \<and> fst e \<noteq> ''expectedVersion'') args"
  let ?st = "updateItemFunction_entries ?es empty_update_state"
  have d: "distinct (map fst ?es)" using assms by (simp add: distinct_map_filter)
  note st = entries_from_empty[OF d]
  have e: "set_keys args = [] \<longleftrightarrow> expSet ?st = []"
    by (simp add: set_keys_empty copyAndRemoveAllKeys_two)
  have s: "expSet ?st \<noteq> [] \<Longrightarrow> updateItemFunction_set ''SET'' (expSet ?st) = set_clause (set_keys args)"
    using set_loop[of "expSet ?st" "''SET''"]
    by (simp add: st set_clause_def set_keys_def comp_def)
  have s0: "expSet ?st = [] \<Longrightarrow> set_clause (set_keys args) = []"
    by (simp add: st set_clause_def set_keys_def)
  have r: "expRemove ?st \<noteq> [] \<Longrightarrow> updateItemFunction_remove x (expRemove ?st)
             = x @ '' '' @ comma_separated (expRemove ?st)" for x
    by (rule remove_loop)
  have r': "expRemove ?st \<noteq> [] \<Longrightarrow> remove_clause (remove_keys args)
             = '' REMOVE '' @ comma_separated (expRemove ?st)"
    by (simp add: st remove_clause_def remove_keys_def comp_def)
  have r0: "expRemove ?st = [] \<Longrightarrow> remove_clause (remove_keys args) = []"
    by (simp add: st remove_clause_def remove_keys_def)
  show ?thesis
    unfolding updateSupplementalDataRecordFunction_update_def copyAndRemoveAllKeys_two Let_def
      updateSupplementalDataRecordFunction_entries_eq updateSupplementalDataRecordFunction_set_eq
      updateSupplementalDataRecordFunction_add_eq updateSupplementalDataRecordFunction_remove_eq
    using s s0 r r' r0 st(3) e
    by (cases "expSet ?st = []"; cases "expRemove ?st = []") simp_all
qed

lemma keys_partition:
  assumes "distinct (map fst args)" and "e \<in> set args"
      and "fst e \<noteq> ''itemId''" and "fst e \<noteq> ''expectedVersion''"
  shows "(snd e \<noteq> JNull \<longrightarrow> fst e \<in> set (set_keys args) \<and> fst e \<notin> set (remove_keys args))
       \<and> (snd e = JNull \<longrightarrow> fst e \<in> set (remove_keys args) \<and> fst e \<notin> set (set_keys args))"
proof -
  obtain k v where e: "e = (k, v)" by (cases e)
  have uniq: "\<And>v'. (k, v') \<in> set args \<Longrightarrow> v' = v"
    using assms(1,2) e by (meson eq_key_imp_eq_value)
  have "v \<noteq> JNull \<Longrightarrow> k \<in> set (set_keys args)"
    using assms(2-4) e by (force simp: set_keys_def)
  moreover have "v \<noteq> JNull \<Longrightarrow> k \<notin> set (remove_keys args)"
    using uniq by (auto simp: remove_keys_def)
  moreover have "v = JNull \<Longrightarrow> k \<in> set (remove_keys args)"
    using assms(2-4) e by (force simp: remove_keys_def)
  moreover have "v = JNull \<Longrightarrow> k \<notin> set (set_keys args)"
    using uniq by (auto simp: set_keys_def)
  ultimately show ?thesis using e by auto
qed

lemma excluded_keys:
  "''itemId'' \<notin> set (set_keys args) \<union> set (remove_keys args)"
  "''expectedVersion'' \<notin> set (set_keys args) \<union> set (remove_keys args)"
  by (auto simp: set_keys_def remove_keys_def)

text \<open>
  C1, as amended. For an argument map (its keys distinct), every entry whose key is neither
  \<open>itemId\<close> nor \<open>expectedVersion\<close> is in exactly one of two lists: \<open>set_keys\<close> when
  its value is not null, \<open>remove_keys\<close> when it is null; the two excluded keys are in
  neither. \<open>updateItemFunction\<close> and \<open>updateSupplementalDataFunction\<close> emit the
  comma-separated \<open>SET\<close> clause over the first list followed by the comma-separated
  \<open>REMOVE\<close> clause over the second. \<open>updateSupplementalDataRecordFunction\<close> emits the
  same two clauses with one more assignment, of \<open>dateAddedToDynamo\<close>, at the end of a
  non-empty \<open>SET\<close> clause.
\<close>

theorem update_expression_shape:
  assumes "distinct (map fst args)"
  shows "expression (updateItemFunction_update args)
           = set_clause (set_keys args) @ remove_clause (remove_keys args)
       \<and> expression (updateSupplementalDataFunction_update args)
           = set_clause (set_keys args) @ remove_clause (remove_keys args)
       \<and> expression (updateSupplementalDataRecordFunction_update stamp args)
           = set_clause (set_keys args)
             @ (if set_keys args = [] then [] else dateAddedToDynamo_clause)
             @ remove_clause (remove_keys args)
       \<and> (\<forall>e \<in> set args. fst e \<noteq> ''itemId'' \<and> fst e \<noteq> ''expectedVersion'' \<longrightarrow>
             (snd e \<noteq> JNull \<longrightarrow> fst e \<in> set (set_keys args) \<and> fst e \<notin> set (remove_keys args))
           \<and> (snd e = JNull \<longrightarrow> fst e \<in> set (remove_keys args) \<and> fst e \<notin> set (set_keys args)))
       \<and> ''itemId'' \<notin> set (set_keys args) \<union> set (remove_keys args)
       \<and> ''expectedVersion'' \<notin> set (set_keys args) \<union> set (remove_keys args)"
  using updateItemFunction_expression[OF assms] record_expression[OF assms, of stamp]
    keys_partition[OF assms] excluded_keys[of args]
  by (simp add: updateSupplementalDataFunction_update_eq)

text \<open>The three functions on arguments with one null value and the two excluded keys.\<close>

theorem update_expression_shape_witness:
  "distinct (map fst example_args)
   \<and> expression (updateItemFunction_update example_args)
        = ''SET #TYPE = :TYPE, #copyrightStatus = :copyrightStatus REMOVE #copyrightStatement''
   \<and> expression (updateSupplementalDataRecordFunction_update ''2021-07-01T00:00:00.000Z'' example_args)
        = ''SET #TYPE = :TYPE, #copyrightStatus = :copyrightStatus, dateAddedToDynamo = if_not_exists(dateAddedToDynamo, :dateAddedToDynamo) REMOVE #copyrightStatement''"
proof -
  have d: "distinct (map fst example_args)" by (simp add: example_args_def)
  have s: "set_keys example_args = [''TYPE'', ''copyrightStatus'']"
    by (simp add: set_keys_def example_args_def)
  have r: "remove_keys example_args = [''copyrightStatement'']"
    by (simp add: remove_keys_def example_args_def)
  from update_expression_shape[OF d, of "''2021-07-01T00:00:00.000Z''"] d
  show ?thesis
    by (simp add: s r set_clause_def remove_clause_def dateAddedToDynamo_clause_def)
qed

text \<open>
  As stated, C1 has the expression of all three functions consist of the two clauses over
  the arguments. For the single argument \<open>a = "x"\<close> the expression of
  \<open>updateSupplementalDataRecordFunction\<close> holds an assignment that belongs to no argument.
\<close>

theorem record_expression_counterexample:
  "expression (updateSupplementalDataRecordFunction_update ''2021-07-01T00:00:00.000Z'' [(''a'', JStr ''x'')])
     = ''SET #a = :a, dateAddedToDynamo = if_not_exists(dateAddedToDynamo, :dateAddedToDynamo)''
   \<and> set_clause (set_keys [(''a'', JStr ''x'')]) @ remove_clause (remove_keys [(''a'', JStr ''x'')])
     = ''SET #a = :a''
   \<and> expression (updateSupplementalDataRecordFunction_update ''2021-07-01T00:00:00.000Z'' [(''a'', JStr ''x'')])
     \<noteq> set_clause (set_keys [(''a'', JStr ''x'')]) @ remove_clause (remove_keys [(''a'', JStr ''x'')])"
  by (simp add: updateSupplementalDataRecordFunction_update_def copyAndRemoveAllKeys_def
      empty_update_state_def isNull_def dateAddedToDynamo_clause_def set_clause_def set_keys_def
      remove_clause_def remove_keys_def)

text \<open>
  C8, as amended. \<open>updateItemFunction\<close> and \<open>updateSupplementalDataFunction\<close> build the
  same update document from the same arguments: expression, expressionNames and
  expressionValues. \<open>updateSupplementalDataRecordFunction\<close> builds the same
  expressionNames; when some argument is set, its expression has the \<open>dateAddedToDynamo\<close>
  assignment at the end of the \<open>SET\<close> clause and its expressionValues bind
  \<open>:dateAddedToDynamo\<close> to the time stamp as well; when none is set, all three documents
  are the same. What is said of the expressions takes the keys of the arguments to be
  distinct.
\<close>

theorem builder_copies_agree:
  "updateItemFunction_update args = updateSupplementalDataFunction_update args
   \<and> expressionNames (updateSupplementalDataRecordFunction_update stamp args)
        = expressionNames (updateItemFunction_update args)
   \<and> expressionValues (updateSupplementalDataRecordFunction_update stamp args)
        = (if set_keys args = [] then expressionValues (updateItemFunction_update args)
           else map_option (map_put '':dateAddedToDynamo'' (DS stamp))
                  (expressionValues (updateItemFunction_update args)))
   \<and> (distinct (map fst args) \<longrightarrow>
        expression (updateItemFunction_update args)
          = set_clause (set_keys args) @ remove_clause (remove_keys args)
      \<and> expression (updateSupplementalDataRecordFunction_update stamp args)
          = set_clause (set_keys args)
            @ (if set_keys args = [] then [] else dateAddedToDynamo_clause)
            @ remove_clause (remove_keys args))"
  using updateItemFunction_expression[of args] record_expression[of args stamp]
  by (simp add: updateSupplementalDataFunction_update_eq record_expressionNames
      record_expressionValues)

text \<open>The same arguments through the three copies.\<close>

theorem builder_copies_agree_witness:
  "distinct (map fst example_args)
   \<and> updateItemFunction_update example_args = updateSupplementalDataFunction_update example_args
   \<and> expression (updateItemFunction_update example_args)
        = ''SET #TYPE = :TYPE, #copyrightStatus = :copyrightStatus REMOVE #copyrightStatement''
   \<and> expression (updateSupplementalDataRecordFunction_update ''2021-07-01T00:00:00.000Z'' example_args)
        = ''SET #TYPE = :TYPE, #copyrightStatus = :copyrightStatus, dateAddedToDynamo = if_not_exists(dateAddedToDynamo, :dateAddedToDynamo) REMOVE #copyrightStatement''"
proof -
  have d: "distinct (map fst example_args)" by (simp add: example_args_def)
  have s: "set_keys example_args = [''TYPE'', ''copyrightStatus'']"
    by (simp add: set_keys_def example_args_def)
  have r: "remove_keys example_args = [''copyrightStatement'']"
    by (simp add: remove_keys_def example_args_def)
  note all = builder_copies_agree[of example_args "''2021-07-01T00:00:00.000Z''"]
  from all have a: "updateItemFunction_update example_args
      = updateSupplementalDataFunction_update example_args" by blast
  from all d have e1: "expression (updateItemFunction_update example_args)
          = set_clause (set_keys example_args) @ remove_clause (remove_keys example_args)"
    by blast
  from all d have e2: "expression (updateSupplementalDataRecordFunction_update ''2021-07-01T00:00:00.000Z'' example_args)
          = set_clause (set_keys example_args)
            @ (if set_keys example_args = [] then [] else dateAddedToDynamo_clause)
            @ remove_clause (remove_keys example_args)"
    by blast
  have b: "expression (updateItemFunction_update example_args)
        = ''SET #TYPE = :TYPE, #copyrightStatus = :copyrightStatus REMOVE #copyrightStatement''"
    unfolding e1 by (simp add: s r set_clause_def remove_clause_def)
  have c: "expression (updateSupplementalDataRecordFunction_update ''2021-07-01T00:00:00.000Z'' example_args)
        = ''SET #TYPE = :TYPE, #copyrightStatus = :copyrightStatus, dateAddedToDynamo = if_not_exists(dateAddedToDynamo, :dateAddedToDynamo) REMOVE #copyrightStatement''"
    unfolding e2 by (simp add: s r set_clause_def remove_clause_def dateAddedToDynamo_clause_def)
  from d a b c show ?thesis by blast
qed

text \<open>
  As stated, C8 has the appended assignment as the only difference. For the single argument
  \<open>a = "x"\<close> the expressionValues differ too: the record function binds the placeholder
  the assignment refers to.
\<close>

theorem record_values_counterexample:
  "expressionValues (updateSupplementalDataRecordFunction_update ''2021-07-01T00:00:00.000Z'' [(''a'', JStr ''x'')])
     = Some [('':a'', DS ''x''), ('':dateAddedToDynamo'', DS ''2021-07-01T00:00:00.000Z'')]
   \<and> expressionValues (updateItemFunction_update [(''a'', JStr ''x'')]) = Some [('':a'', DS ''x'')]
   \<and> expressionValues (updateSupplementalDataRecordFunction_update ''2021-07-01T00:00:00.000Z'' [(''a'', JStr ''x'')])
     \<noteq> expressionValues (updateItemFunction_update [(''a'', JStr ''x'')])"
  by (simp add: updateSupplementalDataRecordFunction_update_def updateItemFunction_update_def
      copyAndRemoveAllKeys_def empty_update_state_def isNull_def)

subsection \<open>The keys of the request templates\<close>

lemma replace_space: "replace s '' '' [] = filter (\<lambda>ch. ch \<noteq> CHR '' '') s"
  by (induction s) simp_all

lemma routine:
  "render r (toReplace (toUpper u (defaultIfNullOrBlank u x (Some d))) '' '' []) = normalize_or u d x"
  by (simp add: render_def toReplace_def toUpper_def defaultIfNullOrBlank_def normalize_or_def
      replace_space split: option.splits)

lemma routine_empty:
  "render r (toReplace (toUpper u (defaultIfNullOrBlank u x (Some []))) '' '' []) = normalize_key u x"
  by (simp add: routine normalize_key_def)

lemma takeWhile_sep: "\<not> P y \<Longrightarrow> takeWhile P (xs @ y # ys) = takeWhile P xs"
  by (induction xs) simp_all

lemma dropWhile_sep: "\<not> P y \<Longrightarrow> dropWhile P (xs @ y # ys) = dropWhile P xs @ y # ys"
  by (induction xs) simp_all

text \<open>Upper-casing can be cut in front of any byte that starts a character.\<close>

lemma toUpperCase_sep:
  assumes "\<not> continuation ch"
  shows "toUpperCase u (s @ ch # t) = toUpperCase u s @ toUpperCase u (ch # t)"
proof (induction u s rule: toUpperCase.induct)
  case (1 u)
  then show ?case by simp
next
  case (2 u c s)
  then show ?case using assms by (simp add: takeWhile_sep dropWhile_sep)
qed

lemma toUpperCase_ascii:
  "ascii ch \<Longrightarrow> toUpperCase u (ch # s) = upper_char ch # toUpperCase u s"
  by simp

lemma toUpperCase_hash:
  "toUpperCase u (s @ CHR ''#'' # t) = toUpperCase u s @ CHR ''#'' # toUpperCase u t"
  by (simp add: toUpperCase_sep continuation_def ascii_def upper_char_def)

lemma upper_literals:
  "upper_char CHR ''A'' = CHR ''A''"
  "upper_char CHR ''B'' = CHR ''B''"
  "upper_char CHR ''C'' = CHR ''C''"
  "upper_char CHR ''D'' = CHR ''D''"
  "upper_char CHR ''E'' = CHR ''E''"
  "upper_char CHR ''F'' = CHR ''F''"
  "upper_char CHR ''G'' = CHR ''G''"
  "upper_char CHR ''H'' = CHR ''H''"
  "upper_char CHR ''I'' = CHR ''I''"
  "upper_char CHR ''J'' = CHR ''J''"
  "upper_char CHR ''K'' = CHR ''K''"
  "upper_char CHR ''L'' = CHR ''L''"
  "upper_char CHR ''M'' = CHR ''M''"
  "upper_char CHR ''N'' = CHR ''N''"
  "upper_char CHR ''O'' = CHR ''O''"
  "upper_char CHR ''P'' = CHR ''P''"
  "upper_char CHR ''Q'' = CHR ''Q''"
  "upper_char CHR ''R'' = CHR ''R''"
  "upper_char CHR ''S'' = CHR ''S''"
  "upper_char CHR ''T'' = CHR ''T''"
  "upper_char CHR ''U'' = CHR ''U''"
  "upper_char CHR ''V'' = CHR ''V''"
  "upper_char CHR ''W'' = CHR ''W''"
  "upper_char CHR ''X'' = CHR ''X''"
  "upper_char CHR ''Y'' = CHR ''Y''"
  "upper_char CHR ''Z'' = CHR ''Z''"
  "upper_char CHR ''0'' = CHR ''0''"
  "upper_char CHR ''1'' = CHR ''1''"
  "upper_char CHR ''2'' = CHR ''2''"
  "upper_char CHR ''3'' = CHR ''3''"
  "upper_char CHR ''4'' = CHR ''4''"
  "upper_char CHR ''5'' = CHR ''5''"
  "upper_char CHR ''6'' = CHR ''6''"
  "upper_char CHR ''7'' = CHR ''7''"
  "upper_char CHR ''8'' = CHR ''8''"
  "upper_char CHR ''9'' = CHR ''9''"
  "upper_char CHR ''#'' = CHR ''#''"
  by (simp_all add: upper_char_def)

lemma normalized_filter:
  "filter (\<lambda>ch. ch \<noteq> CHR '' '') (normalize_or u d x) = normalize_or u d x"
  by (simp add: normalize_or_def)

lemma normalized_filter_key:
  "filter (\<lambda>ch. ch \<noteq> CHR '' '') (normalize_key u x) = normalize_key u x"
  by (simp add: normalize_key_def normalized_filter)

lemmas routine_simps = normalize_key_def routine upper_literals ascii_def toUpperCase_hash
  normalized_filter replace_space

lemma FileFileGroupResolver_keys:
  "FileFileGroupResolver c =
     [(''PK'', ''FILEGROUP''),
      (''SK'', ''FILEGROUP#'' @ normalize_key c (str (field (ctx_source c) ''objectFileGroupId'')))]"
  by (simp add: FileFileGroupResolver_def Let_def routine_simps)

lemma FileGroupFilesResolver_keys:
  "FileGroupFilesResolver c =
     [(''GSI1PK'', ''FILEGROUP#'' @ normalize_key c (str (field (ctx_source c) ''objectFileGroupId''))),
      (''GSI1SK'', ''SORT#'')]"
  by (simp add: FileGroupFilesResolver_def Let_def routine_simps)

lemma ItemMetadataDefaultFileResolver_keys:
  "ItemMetadataDefaultFileResolver c =
     [(''PK'', ''FILE''),
      (''SK'', ''FILE#'' @ normalize_key c (str (field (ctx_source c) ''defaultFilePath'')))]"
  by (simp add: ItemMetadataDefaultFileResolver_def Let_def routine_simps)

lemma ItemMetadataChildrenResolver_keys:
  "ItemMetadataChildrenResolver c =
     [(''GSI1PK'', ''ITEM#'' @ normalize_key c (str (field (ctx_source c) ''id'')))]"
  by (simp add: ItemMetadataChildrenResolver_def Let_def routine_simps)

lemma ItemMetadataFilesResolver_keys:
  "ItemMetadataFilesResolver c =
     [(''GSI1PK'', ''FILEGROUP#'' @ normalize_key c (str (field (ctx_source c) ''objectFileGroupId''))),
      (''GSI1SK'', ''SORT#'')]"
  by (simp add: ItemMetadataFilesResolver_def Let_def routine_simps)

lemma MutationAddItemMetadataToWebsiteResolver_keys:
  "MutationAddItemMetadataToWebsiteResolver c =
     [(''PK'', ''WEBSITE#'' @ normalize_key c (str (field (field (ctx_args c) ''input'') ''websiteId''))),
      (''SK'', ''ITEM#'' @ normalize_key c (str (field (field (ctx_args c) ''input'') ''itemMetadataId''))),
      (''GSI1PK'', ''WEBSITE#'' @ normalize_key c (str (field (field (ctx_args c) ''input'') ''websiteId''))),
      (''GSI1SK'', ''ADDED#'' @ nowISO8601 c)]"
  by (simp add: MutationAddItemMetadataToWebsiteResolver_def Let_def routine_simps)

lemma MutationAddItemToWebsiteResolver_keys:
  "MutationAddItemToWebsiteResolver c =
     [(''PK'', ''WEBSITE#'' @ normalize_key c (str (field (ctx_args c) ''websiteId''))),
      (''SK'', ''ITEM#'' @ normalize_key c (str (field (ctx_args c) ''itemId''))),
      (''GSI1PK'', ''WEBSITE#'' @ normalize_key c (str (field (ctx_args c) ''websiteId''))),
      (''GSI1SK'', ''ADDED#'' @ nowISO8601 c)]"
  by (simp add: MutationAddItemToWebsiteResolver_def Let_def routine_simps)

lemma MutationAddItemToHarvestResolver_keys:
  "MutationAddItemToHarvestResolver c =
     [(''PK'', ''ITEMTOHARVEST''),
      (''SK'', ''SOURCESYSTEM#'' @ normalize_key c (str (field (ctx_args c) ''sourceSystem'')) @ ''#'' @ normalize_key c (str (field (ctx_args c) ''harvestItemId'')))]"
  by (simp add: MutationAddItemToHarvestResolver_def Let_def routine_simps)

lemma MutationRemoveItemFromWebsiteResolver_keys:
  "MutationRemoveItemFromWebsiteResolver c =
     [(''PK'', ''WEBSITE#'' @ normalize_key c (str (field (ctx_args c) ''websiteId''))),
      (''SK'', ''ITEM#'' @ normalize_key c (str (field (ctx_args c) ''itemId'')))]"
  by (simp add: MutationRemoveItemFromWebsiteResolver_def Let_def routine_simps)

lemma MutationRemoveDefaultImageForWebsiteResolver_keys:
  "MutationRemoveDefaultImageForWebsiteResolver c =
     [(''PK'', ''ITEM#'' @ normalize_key c (str (field (ctx_args c) ''itemId''))),
      (''SK'', ''SUPPLEMENTALDATA#'' @ normalize_or c ''All'' (str (field (ctx_args c) ''websiteId'')))]"
  by (simp add: MutationRemoveDefaultImageForWebsiteResolver_def Let_def routine_simps)

lemma MutationRemovePortfolioItemResolver_keys:
  "MutationRemovePortfolioItemResolver c =
     [(''PK'', ''PORTFOLIO''),
      (''SK'', ''USER#'' @ render ''$util.str.toUpper($portfolioUserId)'' (toUpper c (ctx_netid c)) @ ''#'' @ normalize_key c (str (field (ctx_args c) ''portfolioCollectionId'')) @ ''#'' @ normalize_key c (str (field (ctx_args c) ''portfolioItemId'')))]"
  by (simp add: MutationRemovePortfolioItemResolver_def Let_def routine_simps)

lemma MutationSaveFileLastProcessedDateResolver_keys:
  "MutationSaveFileLastProcessedDateResolver c =
     [(''PK'', ''FILETOPROCESS''),
      (''SK'', ''FILEPATH#'' @ normalize_key c (str (field (ctx_args c) ''itemId''))),
      (''GSI2PK'', ''FILETOPROCESS''),
      (''GSI2SK'', ''DATELASTPROCESSED#'' @ nowISO8601 c)]"
  by (simp add: MutationSaveFileLastProcessedDateResolver_def Let_def routine_simps)

lemma MutationSavePortfolioUserResolver_keys:
  "MutationSavePortfolioUserResolver c =
     [(''PK'', ''PORTFOLIO''),
      (''SK'', ''USER#'' @ render ''$util.str.toUpper($portfolioUserId)'' (toUpper c (ctx_netid c)))]"
  by (simp add: MutationSavePortfolioUserResolver_def Let_def routine_simps)

lemma PortfolioUserPortfolioCollectionsResolver_keys:
  "PortfolioUserPortfolioCollectionsResolver c =
     [(''PK'', ''PORTFOLIO''),
      (''SK'', ''USER#'' @ normalize_key c (str (field (ctx_source c) ''portfolioUserId'')) @ ''#'')]"
  by (simp add: PortfolioUserPortfolioCollectionsResolver_def Let_def routine_simps)

lemma PortfolioCollectionPortfolioItemsResolver_keys:
  "PortfolioCollectionPortfolioItemsResolver c =
     [(''PK'', ''PORTFOLIO''),
      (''SK'', ''USER#'' @ normalize_key c (str (field (ctx_source c) ''portfolioUserId'')) @ ''#'' @ normalize_key c (str (field (ctx_source c) ''portfolioCollectionId'')) @ ''#'')]"
  by (simp add: PortfolioCollectionPortfolioItemsResolver_def Let_def routine_simps)

lemma QueryGetExposedPortfolioCollectionResolver_keys:
  "QueryGetExposedPortfolioCollectionResolver c =
     [(''GSI1PK'', ''PORTFOLIOCOLLECTION''),
      (''GSI1SK'', ''PORTFOLIOCOLLECTION#'' @ toUpperCase c (normalize_key c (str (field (ctx_args c) ''portfolioCollectionId''))))]"
  by (simp add: QueryGetExposedPortfolioCollectionResolver_def Let_def routine_simps)

lemma QueryGetFileResolver_keys:
  "QueryGetFileResolver c =
     [(''PK'', ''FILE''),
      (''SK'', ''FILE#'' @ normalize_key c (str (field (ctx_args c) ''id'')))]"
  by (simp add: QueryGetFileResolver_def Let_def routine_simps)

lemma QueryGetFileGroupResolver_keys:
  "QueryGetFileGroupResolver c =
     [(''PK'', ''FILEGROUP''),
      (''SK'', ''FILEGROUP#'' @ normalize_key c (str (field (ctx_args c) ''id'')))]"
  by (simp add: QueryGetFileGroupResolver_def Let_def routine_simps)

lemma QueryGetFileToProcessRecordResolver_keys:
  "QueryGetFileToProcessRecordResolver c =
     [(''PK'', ''FILETOPROCESS''),
      (''SK'', ''FILEPATH#'' @ normalize_key c (str (field (ctx_args c) ''filePath'')))]"
  by (simp add: QueryGetFileToProcessRecordResolver_def Let_def routine_simps)

lemma QueryGetPortfolioCollectionResolver_keys:
  "QueryGetPortfolioCollectionResolver c =
     [(''PK'', ''PORTFOLIO''),
      (''SK'', ''USER#'' @ toUpperCase c (render ''$portfolioUserId'' (ctx_netid c)) @ ''#'' @ toUpperCase c (normalize_key c (str (field (ctx_args c) ''portfolioCollectionId''))))]"
  by (simp add: QueryGetPortfolioCollectionResolver_def Let_def routine_simps)

lemma QueryGetPortfolioItemResolver_keys:
  "QueryGetPortfolioItemResolver c =
     [(''PK'', ''PORTFOLIO''),
      (''SK'', ''USER#'' @ toUpperCase c (render ''$portfolioUserId'' (ctx_netid c)) @ ''#'' @ toUpperCase c (normalize_key c (str (field (ctx_args c) ''portfolioCollectionId''))) @ ''#'' @ toUpperCase c (normalize_key c (str (field (ctx_args c) ''portfolioItemId''))))]"
  by (simp add: QueryGetPortfolioItemResolver_def Let_def routine_simps)

lemma QueryGetPortfolioUserResolver_keys:
  "QueryGetPortfolioUserResolver c =
     [(''PK'', ''PORTFOLIO''),
      (''SK'', ''USER#'' @ toUpperCase c (render ''$portfolioUserId'' (ctx_netid c)))]"
  by (simp add: QueryGetPortfolioUserResolver_def Let_def routine_simps)

lemma QueryGetWebsiteResolver_keys:
  "QueryGetWebsiteResolver c =
     [(''PK'', ''WEBSITE''),
      (''SK'', ''WEBSITE#'' @ normalize_key c (str (field (ctx_args c) ''id'')))]"
  by (simp add: QueryGetWebsiteResolver_def Let_def routine_simps)

lemma QueryListFileGroupsResolver_keys:
  "QueryListFileGroupsResolver c =
     [(''PK'', ''FILEGROUP'')]"
  by (simp add: QueryListFileGroupsResolver_def Let_def routine_simps)

lemma QueryListFileGroupsByStorageSystemResolver_keys:
  "QueryListFileGroupsByStorageSystemResolver c =
     [(''GSI2PK'', ''FILESYSTEM#'' @ normalize_key c (str (field (ctx_args c) ''storageSystem'')) @ ''#'' @ normalize_key c (str (field (ctx_args c) ''typeOfData'')))]"
  by (simp add: QueryListFileGroupsByStorageSystemResolver_def Let_def routine_simps)

lemma QueryListFilesToProcessResolver_keys:
  "QueryListFilesToProcessResolver c =
     [(''GSI2PK'', ''FILETOPROCESS''),
      (''GSI2SK'', ''DATELASTPROCESSED#'' @ normalize_key c (str (field (ctx_args c) ''dateLastProcessedBefore'')))]"
  by (simp add: QueryListFilesToProcessResolver_def Let_def routine_simps)

lemma QueryListFileGroupsForS3Resolver_keys:
  "QueryListFileGroupsForS3Resolver c =
     [(''GSI2PK'', ''FILESYSTEM#S3#RBSCWEBSITEBUCKET'')]"
  by (simp add: QueryListFileGroupsForS3Resolver_def Let_def routine_simps)

lemma QueryListItemsBySourceSystemResolver_keys:
  "QueryListItemsBySourceSystemResolver c =
     [(''GSI2PK'', ''SOURCESYSTEM#'' @ normalize_key c (str (field (ctx_args c) ''id''))),
      (''GSI2SK'', ''SORT#'')]"
  by (simp add: QueryListItemsBySourceSystemResolver_def Let_def routine_simps)

lemma QueryListItemsByWebsiteResolver_keys:
  "QueryListItemsByWebsiteResolver c =
     [(''PK'', ''WEBSITE#'' @ normalize_key c (str (field (ctx_args c) ''id'')))]"
  by (simp add: QueryListItemsByWebsiteResolver_def Let_def routine_simps)

lemma QueryListPublicPortfolioCollectionsResolver_keys:
  "QueryListPublicPortfolioCollectionsResolver c =
     [(''GSI2PK'', ''PORTFOLIOCOLLECTION''),
      (''GSI2SK'', ''PUBLIC#'')]"
  by (simp add: QueryListPublicPortfolioCollectionsResolver_def Let_def routine_simps)

lemma QueryListPublicHighlightedPortfolioCollectionsResolver_keys:
  "QueryListPublicHighlightedPortfolioCollectionsResolver c =
     [(''GSI2PK'', ''PORTFOLIOCOLLECTION''),
      (''GSI2SK'', ''PUBLIC#'')]"
  by (simp add: QueryListPublicHighlightedPortfolioCollectionsResolver_def Let_def routine_simps)

lemma QueryListPublicFeaturedPortfolioCollectionsResolver_keys:
  "QueryListPublicFeaturedPortfolioCollectionsResolver c =
     [(''GSI2PK'', ''PORTFOLIOCOLLECTION''),
      (''GSI2SK'', ''PUBLIC#'')]"
  by (simp add: QueryListPublicFeaturedPortfolioCollectionsResolver_def Let_def routine_simps)

lemma QueryListSupplementalDataRecordsResolver_keys:
  "QueryListSupplementalDataRecordsResolver c =
     [(''GSI1PK'', ''SUPPLEMENTALDATA'')]"
  by (simp add: QueryListSupplementalDataRecordsResolver_def Let_def routine_simps)

lemma QueryListWebsitesResolver_keys:
  "QueryListWebsitesResolver c =
     [(''PK'', ''WEBSITE'')]"
  by (simp add: QueryListWebsitesResolver_def Let_def routine_simps)

lemma WebsiteWebsiteItemsResolver_keys:
  "WebsiteWebsiteItemsResolver c =
     [(''PK'', ''WEBSITE#'' @ normalize_key c (str (field (ctx_source c) ''id'')))]"
  by (simp add: WebsiteWebsiteItemsResolver_def Let_def routine_simps)

lemma routine_Some:
  "toReplace (toUpper c (defaultIfNullOrBlank c x (Some d))) '' '' [] = Some (normalize_or c d x)"
  by (simp add: toReplace_def toUpper_def defaultIfNullOrBlank_def normalize_or_def
      replace_space split: option.splits)

lemma render_Some: "render r (Some s) = s"
  by (simp add: render_def)

lemma toUpper_Some: "toUpper c (Some s) = Some (toUpperCase c s)"
  by (simp add: toUpper_def)

lemma field_entries: "field (JMap (entries v)) k = field v k"
  by (cases v) (simp_all add: field_def entries_def)

lemma default_None: "defaultIfNullOrBlank c None d = d"
  by (simp add: defaultIfNullOrBlank_def)

lemma set_var_Some: "set_var c old (Some v) = Some v"
  by (simp add: set_var_def)

lemma defaultIfNullOrBlank_Some:
  "defaultIfNullOrBlank c x (Some d) = Some (case x of None \<Rightarrow> d | Some s \<Rightarrow> if isBlank c s then d else s)"
  by (simp add: defaultIfNullOrBlank_def split: option.splits)

lemma set_var_default: "set_var c old (defaultIfNullOrBlank c x (Some d)) = defaultIfNullOrBlank c x (Some d)"
  by (simp add: defaultIfNullOrBlank_Some set_var_Some)

lemma default_twice:
  "defaultIfNullOrBlank c (defaultIfNullOrBlank c x (Some [])) (Some []) = defaultIfNullOrBlank c x (Some [])"
  by (simp add: defaultIfNullOrBlank_def split: option.splits)

lemma first_non_blank_default:
  "first_non_blank c (defaultIfNullOrBlank c s i # rest) = first_non_blank c (s # i # rest)"
  by (simp add: defaultIfNullOrBlank_def split: option.splits)

lemma normalize_key_None: "normalize_key c None = []"
  by (simp add: normalize_key_def normalize_or_def)

lemma normalize_key_blank: "isBlank c s \<Longrightarrow> normalize_key c (Some s) = []"
  by (simp add: normalize_key_def normalize_or_def)

lemma normalize_key_set_var:
  assumes "\<not> set_null_allowed c"
  shows "normalize_key c (set_var c x (defaultIfNullOrBlank c x y)) = normalize_key c (first_non_blank c [x, y])"
proof (cases x)
  case None
  then show ?thesis
    using assms
    by (cases y) (simp_all add: set_var_def defaultIfNullOrBlank_def normalize_key_None
        normalize_key_blank)
next
  case (Some s)
  show ?thesis
  proof (cases "isBlank c s")
    case True
    then show ?thesis
      using assms Some
      by (cases y) (simp_all add: set_var_def defaultIfNullOrBlank_def normalize_key_None
          normalize_key_blank)
  next
    case False
    then show ?thesis
      using Some by (simp add: set_var_def defaultIfNullOrBlank_def)
  qed
qed

lemma normalize_key_default:
  "normalize_key c (defaultIfNullOrBlank c x (Some [])) = normalize_key c x"
  by (simp add: normalize_key_def normalize_or_def defaultIfNullOrBlank_def
      split: option.splits)

lemma getMergedItemRecordFunction_keys:
  "getMergedItemRecordFunction c =
     [(''PK'', ''ITEM#'' @ normalize_key c
         (set_var c
            (set_var c
               (defaultIfNullOrBlank c (str (field (ctx_stash c) ''itemId''))
                  (str (field (ctx_source c) ''itemId'')))
               (defaultIfNullOrBlank c
                  (defaultIfNullOrBlank c (str (field (ctx_stash c) ''itemId''))
                     (str (field (ctx_source c) ''itemId'')))
                  (str (field (ctx_source c) ''id''))))
            (str (field (ctx_source c) ''itemMetadataId''))))]"
  by (simp add: getMergedItemRecordFunction_def Let_def set_var_default default_twice
      routine_empty default_None normalize_key_default)

lemma findPortfolioContentForUserFunction_keys:
  "findPortfolioContentForUserFunction c =
     [(''PK'', ''PORTFOLIO''),
      (''SK'', if normalize_key c (str (field (ctx_stash c) ''portfolioCollectionId'')) = []
               then ''USER#'' @ normalize_key c (str (field (ctx_stash c) ''portfolioUserId''))
               else ''USER#'' @ normalize_key c (str (field (ctx_stash c) ''portfolioUserId''))
                    @ ''#'' @ normalize_key c (str (field (ctx_stash c) ''portfolioCollectionId'')))]"
  by (simp add: findPortfolioContentForUserFunction_def Let_def routine_Some render_Some
      normalize_key_def)

lemma MutationSavePortfolioCollectionResolver_keys:
  "MutationSavePortfolioCollectionResolver c =
     [(''PK'', ''PORTFOLIO''),
      (''SK'', ''USER#'' @ toUpperCase c (render ''$portfolioUserId'' (ctx_netid c)) @ ''#''
               @ toUpperCase c (normalize_key c
                   (defaultIfNullOrBlank c (str (field (ctx_args c) ''portfolioCollectionId''))
                      (Some (autoId c)))))]
     @ (if defaultIfNullOrBlank c (str (field (ctx_args c) ''privacy'')) (Some ''private'')
           = Some ''private''
        then []
        else [(''GSI1PK'', ''PORTFOLIOCOLLECTION''),
              (''GSI1SK'', ''PORTFOLIOCOLLECTION#''
                 @ toUpperCase c (normalize_key c (defaultIfNullOrBlank c
                     (str (field (ctx_args c) ''portfolioCollectionId'')) (Some (autoId c))))),
              (''GSI2PK'', ''PORTFOLIOCOLLECTION''),
              (''GSI2SK'',
                 toUpperCase c (render ''$privacy''
                   (defaultIfNullOrBlank c (str (field (ctx_args c) ''privacy'')) (Some ''private'')))
                 @ ''#''
                 @ toUpperCase c (normalize_key c (defaultIfNullOrBlank c
                     (str (field (ctx_args c) ''portfolioCollectionId'')) (Some (autoId c)))))])"
  by (simp add: MutationSavePortfolioCollectionResolver_def Let_def routine_Some render_Some
      toUpper_Some routine_simps)

lemma MutationSavePortfolioItemResolver_keys:
  "MutationSavePortfolioItemResolver c =
     [(''PK'', ''PORTFOLIO''),
      (''SK'', ''USER#'' @ toUpperCase c (render ''$portfolioUserId'' (ctx_netid c)) @ ''#''
               @ toUpperCase c (normalize_key c (str (field (ctx_args c) ''portfolioCollectionId'')))
               @ ''#''
               @ toUpperCase c
                   (case first_non_blank c [str (field (ctx_args c) ''portfolioItemId''),
                                            str (field (ctx_args c) ''internalItemId''),
                                            str (field (ctx_args c) ''uri'')] of
                      Some s \<Rightarrow> s | None \<Rightarrow> autoId c))]
     @ (if \<not> condition c (defaultIfNullOrBlank c (str (field (ctx_args c) ''internalItemId''))
                              (Some []))
        then []
        else [(''GSI1PK'', ''PORTFOLIOITEM''),
              (''GSI1SK'', ''INTERNALITEM#''
                 @ toUpperCase c
                     (case first_non_blank c [str (field (ctx_args c) ''portfolioItemId''),
                                              str (field (ctx_args c) ''internalItemId''),
                                              str (field (ctx_args c) ''uri'')] of
                        Some s \<Rightarrow> s | None \<Rightarrow> autoId c))])"
proof -
  have item: "render r (defaultIfNullOrBlank c (set_var c (defaultIfNullOrBlank c a b)
                 (defaultIfNullOrBlank c (defaultIfNullOrBlank c a b) u)) (Some d))
              = (case first_non_blank c [a, b, u] of Some s \<Rightarrow> s | None \<Rightarrow> d)" for r a b u d
    by (simp add: render_def defaultIfNullOrBlank_def set_var_def split: option.splits)
  show ?thesis
    by (simp add: MutationSavePortfolioItemResolver_def Let_def item routine_simps
        del: first_non_blank.simps)
qed

lemma updateSupplementalDataRecordFunction_keys:
  "key (updateSupplementalDataRecordFunction c) =
     [(''PK'', ''ITEM#'' @ normalize_key c
                 (str (field (field (ctx_stash c) ''supplementalDataArgs'') ''itemId''))),
      (''SK'', ''SUPPLEMENTALDATA#'' @ normalize_or c ''All''
                 (str (field (field (ctx_stash c) ''supplementalDataArgs'') ''websiteId'')))]"
  "index_attributes (updateSupplementalDataRecordFunction c) =
     [(''GSI1PK'', ''SUPPLEMENTALDATA''),
      (''GSI1SK'', ''ITEM#'' @ normalize_key c
                 (str (field (field (ctx_stash c) ''supplementalDataArgs'') ''itemId'')))]"
  by (simp_all add: updateSupplementalDataRecordFunction_def Let_def field_entries routine_simps)

lemma updateSupplementalDataRecordFunction_first_keys:
  "key (updateSupplementalDataRecordFunction_first c) = key (updateSupplementalDataRecordFunction c)"
  "index_attributes (updateSupplementalDataRecordFunction_first c)
     = index_attributes (updateSupplementalDataRecordFunction c)"
  by (simp_all add: updateSupplementalDataRecordFunction_def
      updateSupplementalDataRecordFunction_first_def Let_def)

lemma updateItemFunction_keys:
  "key (updateItemFunction c) =
     [(''PK'', ''ITEM#'' @ normalize_key c (str (field (ctx_stash c) ''itemId''))),
      (''SK'', ''ITEM#'' @ normalize_key c (str (field (ctx_stash c) ''itemId'')))]"
  "index_attributes (updateItemFunction c) = []"
  by (simp_all add: updateItemFunction_def Let_def routine_simps)

lemma updateSupplementalDataFunction_keys:
  "key (updateSupplementalDataFunction c) =
     [(''PK'', ''ITEM#'' @ normalize_key c (str (field (ctx_stash c) ''itemId''))),
      (''SK'', ''SUPPLEMENTALDATA#'' @ normalize_key c (str (field (ctx_stash c) ''itemId'')))]"
  "index_attributes (updateSupplementalDataFunction c) = []"
  by (simp_all add: updateSupplementalDataFunction_def Let_def routine_simps)

lemma identifiers_normal:
  "identifiers u []"
  "identifiers u [CHR ''#'']"
  "identifiers u (CHR ''#'' # normalize_or u d x)"
  "identifiers u s \<Longrightarrow> identifiers u (CHR ''#'' # normalize_or u d x @ s)"
  "identifiers u (CHR ''#'' # toUpperCase u (normalize_or u d x))"
  "identifiers u s \<Longrightarrow> identifiers u (CHR ''#'' # toUpperCase u (normalize_or u d x) @ s)"
proof -
  show 0: "identifiers u []" by (rule identifiers.none)
  have e: "normalize_or u [] None = []" by (simp add: normalize_or_def)
  from identifiers.one[OF 0, of "[]" None] show "identifiers u [CHR ''#'']" by (simp add: e)
  from identifiers.one[OF 0, of d x] show "identifiers u (CHR ''#'' # normalize_or u d x)" by simp
  from identifiers.again[OF 0, of d x]
  show "identifiers u (CHR ''#'' # toUpperCase u (normalize_or u d x))" by simp
  show "identifiers u s \<Longrightarrow> identifiers u (CHR ''#'' # normalize_or u d x @ s)"
    using identifiers.one[of u s d x] by simp
  show "identifiers u s \<Longrightarrow> identifiers u (CHR ''#'' # toUpperCase u (normalize_or u d x) @ s)"
    using identifiers.again[of u s d x] by simp
qed

lemma identifiers_bucket: "identifiers u ''#S3#RBSCWEBSITEBUCKET''"
proof -
  have 1: "normalize_or u ''RBSCWEBSITEBUCKET'' None = ''RBSCWEBSITEBUCKET''"
    by (simp add: normalize_or_def ascii_def upper_literals)
  have 2: "normalize_or u ''S3'' None = ''S3''"
    by (simp add: normalize_or_def ascii_def upper_literals)
  from identifiers.one[OF identifiers.none, of u "''RBSCWEBSITEBUCKET''" None]
  have "identifiers u ''#RBSCWEBSITEBUCKET''" unfolding 1 by simp
  from identifiers.one[OF this, of "''S3''" None] show ?thesis unfolding 2 by simp
qed

lemma composite_keyI:
  "t \<in> set record_type_tags \<Longrightarrow> identifiers u s \<Longrightarrow> composite_key u (t @ s)"
  by (auto simp: composite_key_def)

lemmas composite_tags =
  composite_keyI[where t="''ITEM''", simplified record_type_tags_def, simplified]
  composite_keyI[where t="''ITEM''" and s="[]", simplified record_type_tags_def, simplified]
  composite_keyI[where t="''SUPPLEMENTALDATA''", simplified record_type_tags_def, simplified]
  composite_keyI[where t="''SUPPLEMENTALDATA''" and s="[]", simplified record_type_tags_def, simplified]
  composite_keyI[where t="''WEBSITE''", simplified record_type_tags_def, simplified]
  composite_keyI[where t="''WEBSITE''" and s="[]", simplified record_type_tags_def, simplified]
  composite_keyI[where t="''ADDED''", simplified record_type_tags_def, simplified]
  composite_keyI[where t="''ADDED''" and s="[]", simplified record_type_tags_def, simplified]
  composite_keyI[where t="''FILEGROUP''", simplified record_type_tags_def, simplified]
  composite_keyI[where t="''FILEGROUP''" and s="[]", simplified record_type_tags_def, simplified]
  composite_keyI[where t="''FILE''", simplified record_type_tags_def, simplified]
  composite_keyI[where t="''FILE''" and s="[]", simplified record_type_tags_def, simplified]
  composite_keyI[where t="''SORT''", simplified record_type_tags_def, simplified]
  composite_keyI[where t="''SORT''" and s="[]", simplified record_type_tags_def, simplified]
  composite_keyI[where t="''ITEMTOHARVEST''", simplified record_type_tags_def, simplified]
  composite_keyI[where t="''ITEMTOHARVEST''" and s="[]", simplified record_type_tags_def, simplified]
  composite_keyI[where t="''SOURCESYSTEM''", simplified record_type_tags_def, simplified]
  composite_keyI[where t="''SOURCESYSTEM''" and s="[]", simplified record_type_tags_def, simplified]
  composite_keyI[where t="''FILETOPROCESS''", simplified record_type_tags_def, simplified]
  composite_keyI[where t="''FILETOPROCESS''" and s="[]", simplified record_type_tags_def, simplified]
  composite_keyI[where t="''FILEPATH''", simplified record_type_tags_def, simplified]
  composite_keyI[where t="''FILEPATH''" and s="[]", simplified record_type_tags_def, simplified]
  composite_keyI[where t="''DATELASTPROCESSED''", simplified record_type_tags_def, simplified]
  composite_keyI[where t="''DATELASTPROCESSED''" and s="[]", simplified record_type_tags_def, simplified]
  composite_keyI[where t="''FILESYSTEM''", simplified record_type_tags_def, simplified]
  composite_keyI[where t="''FILESYSTEM''" and s="[]", simplified record_type_tags_def, simplified]
  composite_keyI[where t="''PORTFOLIO''", simplified record_type_tags_def, simplified]
  composite_keyI[where t="''PORTFOLIO''" and s="[]", simplified record_type_tags_def, simplified]
  composite_keyI[where t="''USER''", simplified record_type_tags_def, simplified]
  composite_keyI[where t="''USER''" and s="[]", simplified record_type_tags_def, simplified]
  composite_keyI[where t="''PORTFOLIOCOLLECTION''", simplified record_type_tags_def, simplified]
  composite_keyI[where t="''PORTFOLIOCOLLECTION''" and s="[]", simplified record_type_tags_def, simplified]
  composite_keyI[where t="''PORTFOLIOITEM''", simplified record_type_tags_def, simplified]
  composite_keyI[where t="''PORTFOLIOITEM''" and s="[]", simplified record_type_tags_def, simplified]
  composite_keyI[where t="''INTERNALITEM''", simplified record_type_tags_def, simplified]
  composite_keyI[where t="''INTERNALITEM''" and s="[]", simplified record_type_tags_def, simplified]
  composite_keyI[where t="''SUBJECTTERM''", simplified record_type_tags_def, simplified]
  composite_keyI[where t="''SUBJECTTERM''" and s="[]", simplified record_type_tags_def, simplified]
  composite_keyI[where t="''URI''", simplified record_type_tags_def, simplified]
  composite_keyI[where t="''URI''" and s="[]", simplified record_type_tags_def, simplified]

lemma composite_tagged:
  assumes "composite_key u v"
  shows "list_ex (\<lambda>t. prefix t v) record_type_tags"
proof -
  from assms obtain t s where "t \<in> set record_type_tags" "v = t @ s"
    by (auto simp: composite_key_def)
  then show ?thesis
    by (auto simp: list_ex_iff intro!: bexI[of _ t])
qed

lemma user_keyI:
  "identifiers c s \<Longrightarrow>
     user_key c (''USER#'' @ toUpperCase c (render ''$portfolioUserId'' (ctx_netid c)) @ s)"
  "identifiers c s \<Longrightarrow>
     user_key c (''USER#'' @ render ''$util.str.toUpper($portfolioUserId)'' (toUpper c (ctx_netid c)) @ s)"
  by (auto simp: user_key_def)

lemmas user_key_normal = user_keyI[simplified] user_keyI[where s="[]", simplified identifiers_normal, simplified]

lemma privacy_keyI:
  "identifiers c s \<Longrightarrow>
     privacy_key c (toUpperCase c (render ''$privacy''
        (defaultIfNullOrBlank c (str (field (ctx_args c) ''privacy'')) (Some ''private''))) @ s)"
  by (auto simp: privacy_key_def privacy_level_def)

lemmas key_lists = public_keys_def privacy_keys_def timestamp_keys_def netid_keys_def
  subject_keys_def item_id_keys_def

lemmas form_rules = composite_tags identifiers_normal identifiers_bucket[simplified]
  normalize_key_def user_key_normal privacy_keyI

lemma FileFileGroupResolver_form: "\<forall>kv\<in>set (FileFileGroupResolver c). key_form c ''FileFileGroupResolver'' kv"
  by (simp add: FileFileGroupResolver_keys key_form_def key_lists form_rules)

lemma FileGroupFilesResolver_form: "\<forall>kv\<in>set (FileGroupFilesResolver c). key_form c ''FileGroupFilesResolver'' kv"
  by (simp add: FileGroupFilesResolver_keys key_form_def key_lists form_rules)

lemma ItemMetadataDefaultFileResolver_form: "\<forall>kv\<in>set (ItemMetadataDefaultFileResolver c). key_form c ''ItemMetadataDefaultFileResolver'' kv"
  by (simp add: ItemMetadataDefaultFileResolver_keys key_form_def key_lists form_rules)

lemma ItemMetadataChildrenResolver_form: "\<forall>kv\<in>set (ItemMetadataChildrenResolver c). key_form c ''ItemMetadataChildrenResolver'' kv"
  by (simp add: ItemMetadataChildrenResolver_keys key_form_def key_lists form_rules)

lemma ItemMetadataFilesResolver_form: "\<forall>kv\<in>set (ItemMetadataFilesResolver c). key_form c ''ItemMetadataFilesResolver'' kv"
  by (simp add: ItemMetadataFilesResolver_keys key_form_def key_lists form_rules)

lemma MutationAddItemMetadataToWebsiteResolver_form: "\<forall>kv\<in>set (MutationAddItemMetadataToWebsiteResolver c). key_form c ''MutationAddItemMetadataToWebsiteResolver'' kv"
  by (simp add: MutationAddItemMetadataToWebsiteResolver_keys key_form_def key_lists form_rules)

lemma MutationAddItemToWebsiteResolver_form: "\<forall>kv\<in>set (MutationAddItemToWebsiteResolver c). key_form c ''MutationAddItemToWebsiteResolver'' kv"
  by (simp add: MutationAddItemToWebsiteResolver_keys key_form_def key_lists form_rules)

lemma MutationAddItemToHarvestResolver_form: "\<forall>kv\<in>set (MutationAddItemToHarvestResolver c). key_form c ''MutationAddItemToHarvestResolver'' kv"
  by (simp add: MutationAddItemToHarvestResolver_keys key_form_def key_lists form_rules)

lemma MutationRemoveItemFromWebsiteResolver_form: "\<forall>kv\<in>set (MutationRemoveItemFromWebsiteResolver c). key_form c ''MutationRemoveItemFromWebsiteResolver'' kv"
  by (simp add: MutationRemoveItemFromWebsiteResolver_keys key_form_def key_lists form_rules)

lemma MutationRemoveDefaultImageForWebsiteResolver_form: "\<forall>kv\<in>set (MutationRemoveDefaultImageForWebsiteResolver c). key_form c ''MutationRemoveDefaultImageForWebsiteResolver'' kv"
  by (simp add: MutationRemoveDefaultImageForWebsiteResolver_keys key_form_def key_lists form_rules)

lemma MutationRemovePortfolioItemResolver_form: "\<forall>kv\<in>set (MutationRemovePortfolioItemResolver c). key_form c ''MutationRemovePortfolioItemResolver'' kv"
  by (simp add: MutationRemovePortfolioItemResolver_keys key_form_def key_lists form_rules)

lemma MutationSaveFileLastProcessedDateResolver_form: "\<forall>kv\<in>set (MutationSaveFileLastProcessedDateResolver c). key_form c ''MutationSaveFileLastProcessedDateResolver'' kv"
  by (simp add: MutationSaveFileLastProcessedDateResolver_keys key_form_def key_lists form_rules)

lemma MutationSavePortfolioUserResolver_form: "\<forall>kv\<in>set (MutationSavePortfolioUserResolver c). key_form c ''MutationSavePortfolioUserResolver'' kv"
  by (simp add: MutationSavePortfolioUserResolver_keys key_form_def key_lists form_rules)

lemma PortfolioUserPortfolioCollectionsResolver_form: "\<forall>kv\<in>set (PortfolioUserPortfolioCollectionsResolver c). key_form c ''PortfolioUserPortfolioCollectionsResolver'' kv"
  by (simp add: PortfolioUserPortfolioCollectionsResolver_keys key_form_def key_lists form_rules)

lemma PortfolioCollectionPortfolioItemsResolver_form: "\<forall>kv\<in>set (PortfolioCollectionPortfolioItemsResolver c). key_form c ''PortfolioCollectionPortfolioItemsResolver'' kv"
  by (simp add: PortfolioCollectionPortfolioItemsResolver_keys key_form_def key_lists form_rules)

lemma QueryGetExposedPortfolioCollectionResolver_form: "\<forall>kv\<in>set (QueryGetExposedPortfolioCollectionResolver c). key_form c ''QueryGetExposedPortfolioCollectionResolver'' kv"
  by (simp add: QueryGetExposedPortfolioCollectionResolver_keys key_form_def key_lists form_rules)

lemma QueryGetFileResolver_form: "\<forall>kv\<in>set (QueryGetFileResolver c). key_form c ''QueryGetFileResolver'' kv"
  by (simp add: QueryGetFileResolver_keys key_form_def key_lists form_rules)

lemma QueryGetFileGroupResolver_form: "\<forall>kv\<in>set (QueryGetFileGroupResolver c). key_form c ''QueryGetFileGroupResolver'' kv"
  by (simp add: QueryGetFileGroupResolver_keys key_form_def key_lists form_rules)

lemma QueryGetFileToProcessRecordResolver_form: "\<forall>kv\<in>set (QueryGetFileToProcessRecordResolver c). key_form c ''QueryGetFileToProcessRecordResolver'' kv"
  by (simp add: QueryGetFileToProcessRecordResolver_keys key_form_def key_lists form_rules)

lemma QueryGetPortfolioCollectionResolver_form: "\<forall>kv\<in>set (QueryGetPortfolioCollectionResolver c). key_form c ''QueryGetPortfolioCollectionResolver'' kv"
  by (simp add: QueryGetPortfolioCollectionResolver_keys key_form_def key_lists form_rules)

lemma QueryGetPortfolioItemResolver_form: "\<forall>kv\<in>set (QueryGetPortfolioItemResolver c). key_form c ''QueryGetPortfolioItemResolver'' kv"
  by (simp add: QueryGetPortfolioItemResolver_keys key_form_def key_lists form_rules)

lemma QueryGetPortfolioUserResolver_form: "\<forall>kv\<in>set (QueryGetPortfolioUserResolver c). key_form c ''QueryGetPortfolioUserResolver'' kv"
  by (simp add: QueryGetPortfolioUserResolver_keys key_form_def key_lists form_rules)

lemma QueryGetWebsiteResolver_form: "\<forall>kv\<in>set (QueryGetWebsiteResolver c). key_form c ''QueryGetWebsiteResolver'' kv"
  by (simp add: QueryGetWebsiteResolver_keys key_form_def key_lists form_rules)

lemma QueryListFileGroupsResolver_form: "\<forall>kv\<in>set (QueryListFileGroupsResolver c). key_form c ''QueryListFileGroupsResolver'' kv"
  by (simp add: QueryListFileGroupsResolver_keys key_form_def key_lists form_rules)

lemma QueryListFileGroupsByStorageSystemResolver_form: "\<forall>kv\<in>set (QueryListFileGroupsByStorageSystemResolver c). key_form c ''QueryListFileGroupsByStorageSystemResolver'' kv"
  by (simp add: QueryListFileGroupsByStorageSystemResolver_keys key_form_def key_lists form_rules)

lemma QueryListFilesToProcessResolver_form: "\<forall>kv\<in>set (QueryListFilesToProcessResolver c). key_form c ''QueryListFilesToProcessResolver'' kv"
  by (simp add: QueryListFilesToProcessResolver_keys key_form_def key_lists form_rules)

lemma QueryListFileGroupsForS3Resolver_form: "\<forall>kv\<in>set (QueryListFileGroupsForS3Resolver c). key_form c ''QueryListFileGroupsForS3Resolver'' kv"
  by (simp add: QueryListFileGroupsForS3Resolver_keys key_form_def key_lists form_rules)

lemma QueryListItemsBySourceSystemResolver_form: "\<forall>kv\<in>set (QueryListItemsBySourceSystemResolver c). key_form c ''QueryListItemsBySourceSystemResolver'' kv"
  by (simp add: QueryListItemsBySourceSystemResolver_keys key_form_def key_lists form_rules)

lemma QueryListItemsByWebsiteResolver_form: "\<forall>kv\<in>set (QueryListItemsByWebsiteResolver c). key_form c ''QueryListItemsByWebsiteResolver'' kv"
  by (simp add: QueryListItemsByWebsiteResolver_keys key_form_def key_lists form_rules)

lemma QueryListPublicPortfolioCollectionsResolver_form: "\<forall>kv\<in>set (QueryListPublicPortfolioCollectionsResolver c). key_form c ''QueryListPublicPortfolioCollectionsResolver'' kv"
  by (simp add: QueryListPublicPortfolioCollectionsResolver_keys key_form_def key_lists form_rules)

lemma QueryListPublicHighlightedPortfolioCollectionsResolver_form: "\<forall>kv\<in>set (QueryListPublicHighlightedPortfolioCollectionsResolver c). key_form c ''QueryListPublicHighlightedPortfolioCollectionsResolver'' kv"
  by (simp add: QueryListPublicHighlightedPortfolioCollectionsResolver_keys key_form_def key_lists form_rules)

lemma QueryListPublicFeaturedPortfolioCollectionsResolver_form: "\<forall>kv\<in>set (QueryListPublicFeaturedPortfolioCollectionsResolver c). key_form c ''QueryListPublicFeaturedPortfolioCollectionsResolver'' kv"
  by (simp add: QueryListPublicFeaturedPortfolioCollectionsResolver_keys key_form_def key_lists form_rules)

lemma QueryListSupplementalDataRecordsResolver_form: "\<forall>kv\<in>set (QueryListSupplementalDataRecordsResolver c). key_form c ''QueryListSupplementalDataRecordsResolver'' kv"
  by (simp add: QueryListSupplementalDataRecordsResolver_keys key_form_def key_lists form_rules)

lemma QueryListWebsitesResolver_form: "\<forall>kv\<in>set (QueryListWebsitesResolver c). key_form c ''QueryListWebsitesResolver'' kv"
  by (simp add: QueryListWebsitesResolver_keys key_form_def key_lists form_rules)

lemma WebsiteWebsiteItemsResolver_form: "\<forall>kv\<in>set (WebsiteWebsiteItemsResolver c). key_form c ''WebsiteWebsiteItemsResolver'' kv"
  by (simp add: WebsiteWebsiteItemsResolver_keys key_form_def key_lists form_rules)

lemma MutationSavePortfolioCollectionResolver_form: "\<forall>kv\<in>set (MutationSavePortfolioCollectionResolver c). key_form c ''MutationSavePortfolioCollectionResolver'' kv"
  by (simp add: MutationSavePortfolioCollectionResolver_keys key_form_def key_lists form_rules)

lemma findPortfolioContentForUserFunction_form: "\<forall>kv\<in>set (findPortfolioContentForUserFunction c). key_form c ''findPortfolioContentForUserFunction'' kv"
  by (simp add: findPortfolioContentForUserFunction_keys key_form_def key_lists form_rules)

lemma getMergedItemRecordFunction_form: "\<forall>kv\<in>set (getMergedItemRecordFunction c). key_form c ''getMergedItemRecordFunction'' kv"
  by (simp add: getMergedItemRecordFunction_keys key_form_def key_lists form_rules)

lemma updateSupplementalDataRecordFunction_form:
  "\<forall>kv\<in>set (key (updateSupplementalDataRecordFunction c)). key_form c ''updateSupplementalDataRecordFunction'' kv"
  "\<forall>kv\<in>set (index_attributes (updateSupplementalDataRecordFunction c)). key_form c ''updateSupplementalDataRecordFunction'' kv"
  by (simp_all add: updateSupplementalDataRecordFunction_keys key_form_def key_lists form_rules)

lemma updateItemFunction_form:
  "\<forall>kv\<in>set (key (updateItemFunction c)). key_form c ''updateItemFunction'' kv"
  "\<forall>kv\<in>set (index_attributes (updateItemFunction c)). key_form c ''updateItemFunction'' kv"
  by (simp_all add: updateItemFunction_keys key_form_def key_lists form_rules)

lemma updateSupplementalDataFunction_form:
  "\<forall>kv\<in>set (key (updateSupplementalDataFunction c)). key_form c ''updateSupplementalDataFunction'' kv"
  "\<forall>kv\<in>set (index_attributes (updateSupplementalDataFunction c)). key_form c ''updateSupplementalDataFunction'' kv"
  by (simp_all add: updateSupplementalDataFunction_keys key_form_def key_lists form_rules)

lemma updateSupplementalDataRecordFunction_first_form:
  "\<forall>kv\<in>set (key (updateSupplementalDataRecordFunction_first c)). key_form c ''updateSupplementalDataRecordFunction_first'' kv"
  "\<forall>kv\<in>set (index_attributes (updateSupplementalDataRecordFunction_first c)). key_form c ''updateSupplementalDataRecordFunction_first'' kv"
  by (simp_all add: updateSupplementalDataRecordFunction_first_keys updateSupplementalDataRecordFunction_keys key_form_def key_lists form_rules)

lemma MutationSavePortfolioItemResolver_form:
  "\<forall>kv\<in>set (MutationSavePortfolioItemResolver c). key_form c ''MutationSavePortfolioItemResolver'' kv"
proof -
  have sk: "item_key c (''SK'', ''USER#'' @ toUpperCase c (render ''$portfolioUserId'' (ctx_netid c))
               @ ''#'' @ toUpperCase c (normalize_key c x) @ ''#'' @ r)" for x r
    unfolding item_key_def
    by (simp, intro exI[of _ "''#'' @ toUpperCase c (normalize_key c x)"] exI[of _ r])
       (simp add: identifiers_normal normalize_key_def)
  have gsi: "item_key c (''GSI1SK'', ''INTERNALITEM#'' @ r)" for r
    by (simp add: item_key_def)
  show ?thesis
    using sk gsi
    by (simp add: MutationSavePortfolioItemResolver_keys key_form_def key_lists form_rules
        del: first_non_blank.simps)
qed

lemma expandSubjectTermsFunction_subjects_form:
  assumes "\<forall>k\<in>set keys. \<forall>kv\<in>set k. key_form c ''expandSubjectTermsFunction'' kv"
      and "set subjects \<subseteq> set (elements (field (field (ctx_stash c) ''itemRecord'') ''subjects''))"
  shows "\<forall>k\<in>set (expandSubjectTermsFunction_subjects c subjects uriList keys).
           \<forall>kv\<in>set k. key_form c ''expandSubjectTermsFunction'' kv"
  using assms
proof (induction subjects arbitrary: uriList keys)
  case Nil
  then show ?case
    by simp
next
  case (Cons subject rest)
  define uri where "uri = toUpper c (defaultIfNullOrBlank c (str (field subject ''uri'')) (Some []))"
  from Cons.prems(2) have rest: "set rest \<subseteq> set (elements (field (field (ctx_stash c) ''itemRecord'') ''subjects''))"
    and here: "subject \<in> set (elements (field (field (ctx_stash c) ''itemRecord'') ''subjects''))"
    by simp_all
  show ?case
  proof (cases "uri \<noteq> Some [] \<and> render ''$uri'' uri \<notin> set uriList")
    case True
    then obtain s where s: "str (field subject ''uri'') = Some s" "uri = Some (toUpperCase c s)"
      unfolding uri_def
      by (cases "str (field subject ''uri'')")
         (auto simp: defaultIfNullOrBlank_def toUpper_def split: if_splits)
    from s(1) here have "s \<in> set (subject_uris c)"
      by (force simp: subject_uris_def)
    then have "subject_key c (''SK'', ''URI#'' @ render ''$uri'' uri)"
      by (simp add: subject_key_def s(2) render_def)
    then have new: "\<forall>kv\<in>set [(''PK'', ''SUBJECTTERM''), (''SK'', ''URI#'' @ render ''$uri'' uri)].
               key_form c ''expandSubjectTermsFunction'' kv"
      by (simp add: key_form_def key_lists form_rules subject_key_def)
    have "\<forall>k\<in>set (keys @ [[(''PK'', ''SUBJECTTERM''), (''SK'', ''URI#'' @ render ''$uri'' uri)]]).
            \<forall>kv\<in>set k. key_form c ''expandSubjectTermsFunction'' kv"
      using Cons.prems(1) new by auto
    from Cons.IH [OF this rest] True show ?thesis
      by (simp add: Let_def uri_def)
  next
    case False
    from Cons.IH [OF Cons.prems(1) rest] False show ?thesis
      by (auto simp add: Let_def uri_def)
  qed
qed

lemma expandSubjectTermsFunction_form:
  "\<forall>kv\<in>set (expandSubjectTermsFunction c). key_form c ''expandSubjectTermsFunction'' kv"
proof -
  have placeholder: "\<forall>kv\<in>set [(''PK'', ''NoKeyToFind''), (''SK'', ''YieldEmptyResultSet'')].
               key_form c ''expandSubjectTermsFunction'' kv"
    by (simp add: key_form_def key_lists form_rules subject_key_def)
  have "\<forall>k\<in>set (expandSubjectTermsFunction_subjects c
                   (elements (field (field (ctx_stash c) ''itemRecord'') ''subjects'')) [] []).
           \<forall>kv\<in>set k. key_form c ''expandSubjectTermsFunction'' kv"
    by (rule expandSubjectTermsFunction_subjects_form) simp_all
  with placeholder show ?thesis
    by (auto simp add: expandSubjectTermsFunction_def Let_def)
qed

lemma deletePortfolioContentForUserFunction_records_eq:
  "deletePortfolioContentForUserFunction_records records keys
     = keys @ map (\<lambda>entry. [(''PK'', field entry ''PK''), (''SK'', field entry ''SK'')]) records"
  by (induction records arbitrary: keys) simp_all

lemma deletePortfolioContentForUserFunction_keys:
  "deletePortfolioContentForUserFunction c =
     (if elements (field (ctx_stash c) ''portfolioRecordsToDelete'') = []
      then [[(''PK'', JStr ''NoKeyToFind''), (''SK'', JStr ''YieldEmptyResultSet'')]]
      else map (\<lambda>entry. [(''PK'', field entry ''PK''), (''SK'', field entry ''SK'')])
             (elements (field (ctx_stash c) ''portfolioRecordsToDelete'')))"
  by (simp add: deletePortfolioContentForUserFunction_def Let_def
      deletePortfolioContentForUserFunction_records_eq)

lemmas request_template_forms =
  getMergedItemRecordFunction_form
  expandSubjectTermsFunction_form
  findPortfolioContentForUserFunction_form
  updateSupplementalDataRecordFunction_form
  updateSupplementalDataRecordFunction_first_form
  updateItemFunction_form
  updateSupplementalDataFunction_form
  FileFileGroupResolver_form
  FileGroupFilesResolver_form
  ItemMetadataChildrenResolver_form
  ItemMetadataDefaultFileResolver_form
  ItemMetadataFilesResolver_form
  MutationAddItemMetadataToWebsiteResolver_form
  MutationAddItemToHarvestResolver_form
  MutationAddItemToWebsiteResolver_form
  MutationRemoveDefaultImageForWebsiteResolver_form
  MutationRemoveItemFromWebsiteResolver_form
  MutationRemovePortfolioItemResolver_form
  MutationSaveFileLastProcessedDateResolver_form
  MutationSavePortfolioCollectionResolver_form
  MutationSavePortfolioItemResolver_form
  MutationSavePortfolioUserResolver_form
  PortfolioCollectionPortfolioItemsResolver_form
  PortfolioUserPortfolioCollectionsResolver_form
  QueryGetExposedPortfolioCollectionResolver_form
  QueryGetFileGroupResolver_form
  QueryGetFileResolver_form
  QueryGetFileToProcessRecordResolver_form
  QueryGetPortfolioCollectionResolver_form
  QueryGetPortfolioItemResolver_form
  QueryGetPortfolioUserResolver_form
  QueryGetWebsiteResolver_form
  QueryListFileGroupsByStorageSystemResolver_form
  QueryListFileGroupsForS3Resolver_form
  QueryListFileGroupsResolver_form
  QueryListFilesToProcessResolver_form
  QueryListItemsBySourceSystemResolver_form
  QueryListItemsByWebsiteResolver_form
  QueryListPublicFeaturedPortfolioCollectionsResolver_form
  QueryListPublicHighlightedPortfolioCollectionsResolver_form
  QueryListPublicPortfolioCollectionsResolver_form
  QueryListSupplementalDataRecordsResolver_form
  QueryListWebsitesResolver_form
  WebsiteWebsiteItemsResolver_form

lemma request_templates_form:
  "\<forall>nt\<in>set request_templates. \<forall>kv\<in>set (snd nt c). key_form c (fst nt) kv"
  unfolding request_templates_def
  by (simp add: request_template_forms ball_Un del: One_nat_def)

lemma routine_Some_key:
  "toReplace (toUpper c (defaultIfNullOrBlank c x (Some []))) '' '' [] = Some (normalize_key c x)"
  by (simp add: routine_Some normalize_key_def)

lemma upper_lower_literals:
  "upper_char CHR ''a'' = CHR ''A''"
  "upper_char CHR ''b'' = CHR ''B''"
  "upper_char CHR ''c'' = CHR ''C''"
  "upper_char CHR ''d'' = CHR ''D''"
  "upper_char CHR ''e'' = CHR ''E''"
  "upper_char CHR ''f'' = CHR ''F''"
  "upper_char CHR ''g'' = CHR ''G''"
  "upper_char CHR ''h'' = CHR ''H''"
  "upper_char CHR ''i'' = CHR ''I''"
  "upper_char CHR ''j'' = CHR ''J''"
  "upper_char CHR ''k'' = CHR ''K''"
  "upper_char CHR ''l'' = CHR ''L''"
  "upper_char CHR ''m'' = CHR ''M''"
  "upper_char CHR ''n'' = CHR ''N''"
  "upper_char CHR ''o'' = CHR ''O''"
  "upper_char CHR ''p'' = CHR ''P''"
  "upper_char CHR ''q'' = CHR ''Q''"
  "upper_char CHR ''r'' = CHR ''R''"
  "upper_char CHR ''s'' = CHR ''S''"
  "upper_char CHR ''t'' = CHR ''T''"
  "upper_char CHR ''u'' = CHR ''U''"
  "upper_char CHR ''v'' = CHR ''V''"
  "upper_char CHR ''w'' = CHR ''W''"
  "upper_char CHR ''x'' = CHR ''X''"
  "upper_char CHR ''y'' = CHR ''Y''"
  "upper_char CHR ''z'' = CHR ''Z''"
  by code_simp+

lemma upper_space: "upper_char CHR '' '' = CHR '' ''"
  by code_simp

lemmas example_request_simps = example_request_def field_def str_def normalize_key_def
  normalize_or_def ascii_def continuation_def isWhitespace_def upper_literals
  upper_lower_literals upper_space Let_def

text \<open>
  C2, as amended. The routine is, in this order: the empty string for a null or blank
  identifier, then upper case, then the removal of every space. Apart from
  \<open>getMergedItemRecordFunction\<close>, \<open>expandSubjectTermsFunction\<close>,
  \<open>deletePortfolioContentForUserFunction\<close> and \<open>savePortfolioItem\<close>, a key value that
  holds identifiers is a record-type prefix followed, for each identifier, by \<open>#\<close> and
  the identifier after the routine (some keys end in a further \<open>#\<close>), except that:
  \<open>websiteId\<close> defaults to \<open>All\<close> in \<open>updateSupplementalDataRecordFunction\<close> and
  \<open>removeDefaultImageForWebsite\<close>; \<open>savePortfolioCollection\<close> defaults its collection
  id to an automatic id and starts \<open>GSI2SK\<close> with the upper-cased privacy level; the
  portfolio mutations and \<open>getPortfolioCollection\<close>, \<open>getPortfolioItem\<close> and
  \<open>getPortfolioUser\<close> put the \<open>netid\<close> claim, upper-cased only, after \<open>USER#\<close>
  (a null claim renders as the text of its reference);
  \<open>findPortfolioContentForUserFunction\<close> omits \<open>#\<close> and an empty collection id;
  written items carry a time stamp after \<open>ADDED#\<close> and \<open>DATELASTPROCESSED#\<close>;
  some portfolio keys upper-case an identifier a second time.
\<close>

theorem key_normalization:
  "QueryGetFileGroupResolver c =
     [(''PK'', ''FILEGROUP''),
      (''SK'', ''FILEGROUP#'' @ normalize_key c (str (field (ctx_args c) ''id'')))]
   \<and> MutationAddItemToWebsiteResolver c =
     [(''PK'', ''WEBSITE#'' @ normalize_key c (str (field (ctx_args c) ''websiteId''))),
      (''SK'', ''ITEM#'' @ normalize_key c (str (field (ctx_args c) ''itemId''))),
      (''GSI1PK'', ''WEBSITE#'' @ normalize_key c (str (field (ctx_args c) ''websiteId''))),
      (''GSI1SK'', ''ADDED#'' @ nowISO8601 c)]
   \<and> FileFileGroupResolver c =
     [(''PK'', ''FILEGROUP''),
      (''SK'', ''FILEGROUP#'' @ normalize_key c (str (field (ctx_source c) ''objectFileGroupId'')))]
   \<and> FileGroupFilesResolver c =
     [(''GSI1PK'', ''FILEGROUP#'' @ normalize_key c (str (field (ctx_source c) ''objectFileGroupId''))),
      (''GSI1SK'', ''SORT#'')]
   \<and> ItemMetadataDefaultFileResolver c =
     [(''PK'', ''FILE''),
      (''SK'', ''FILE#'' @ normalize_key c (str (field (ctx_source c) ''defaultFilePath'')))]
   \<and> ItemMetadataChildrenResolver c =
     [(''GSI1PK'', ''ITEM#'' @ normalize_key c (str (field (ctx_source c) ''id'')))]
   \<and> ItemMetadataFilesResolver c =
     [(''GSI1PK'', ''FILEGROUP#'' @ normalize_key c (str (field (ctx_source c) ''objectFileGroupId''))),
      (''GSI1SK'', ''SORT#'')]
   \<and> MutationAddItemMetadataToWebsiteResolver c =
     [(''PK'', ''WEBSITE#'' @ normalize_key c (str (field (field (ctx_args c) ''input'') ''websiteId''))),
      (''SK'', ''ITEM#'' @ normalize_key c (str (field (field (ctx_args c) ''input'') ''itemMetadataId''))),
      (''GSI1PK'', ''WEBSITE#'' @ normalize_key c (str (field (field (ctx_args c) ''input'') ''websiteId''))),
      (''GSI1SK'', ''ADDED#'' @ nowISO8601 c)]
   \<and> MutationAddItemToHarvestResolver c =
     [(''PK'', ''ITEMTOHARVEST''),
      (''SK'', ''SOURCESYSTEM#'' @ normalize_key c (str (field (ctx_args c) ''sourceSystem'')) @ ''#'' @ normalize_key c (str (field (ctx_args c) ''harvestItemId'')))]
   \<and> MutationRemoveItemFromWebsiteResolver c =
     [(''PK'', ''WEBSITE#'' @ normalize_key c (str (field (ctx_args c) ''websiteId''))),
      (''SK'', ''ITEM#'' @ normalize_key c (str (field (ctx_args c) ''itemId'')))]
   \<and> MutationRemoveDefaultImageForWebsiteResolver c =
     [(''PK'', ''ITEM#'' @ normalize_key c (str (field (ctx_args c) ''itemId''))),
      (''SK'', ''SUPPLEMENTALDATA#'' @ normalize_or c ''All'' (str (field (ctx_args c) ''websiteId'')))]
   \<and> MutationRemovePortfolioItemResolver c =
     [(''PK'', ''PORTFOLIO''),
      (''SK'', ''USER#'' @ render ''$util.str.toUpper($portfolioUserId)'' (toUpper c (ctx_netid c)) @ ''#'' @ normalize_key c (str (field (ctx_args c) ''portfolioCollectionId'')) @ ''#'' @ normalize_key c (str (field (ctx_args c) ''portfolioItemId'')))]
   \<and> MutationSaveFileLastProcessedDateResolver c =
     [(''PK'', ''FILETOPROCESS''),
      (''SK'', ''FILEPATH#'' @ normalize_key c (str (field (ctx_args c) ''itemId''))),
      (''GSI2PK'', ''FILETOPROCESS''),
      (''GSI2SK'', ''DATELASTPROCESSED#'' @ nowISO8601 c)]
   \<and> MutationSavePortfolioUserResolver c =
     [(''PK'', ''PORTFOLIO''),
      (''SK'', ''USER#'' @ render ''$util.str.toUpper($portfolioUserId)'' (toUpper c (ctx_netid c)))]
   \<and> PortfolioUserPortfolioCollectionsResolver c =
     [(''PK'', ''PORTFOLIO''),
      (''SK'', ''USER#'' @ normalize_key c (str (field (ctx_source c) ''portfolioUserId'')) @ ''#'')]
   \<and> PortfolioCollectionPortfolioItemsResolver c =
     [(''PK'', ''PORTFOLIO''),
      (''SK'', ''USER#'' @ normalize_key c (str (field (ctx_source c) ''portfolioUserId'')) @ ''#'' @ normalize_key c (str (field (ctx_source c) ''portfolioCollectionId'')) @ ''#'')]
   \<and> QueryGetExposedPortfolioCollectionResolver c =
     [(''GSI1PK'', ''PORTFOLIOCOLLECTION''),
      (''GSI1SK'', ''PORTFOLIOCOLLECTION#'' @ toUpperCase c (normalize_key c (str (field (ctx_args c) ''portfolioCollectionId''))))]
   \<and> QueryGetFileResolver c =
     [(''PK'', ''FILE''),
      (''SK'', ''FILE#'' @ normalize_key c (str (field (ctx_args c) ''id'')))]
   \<and> QueryGetFileToProcessRecordResolver c =
     [(''PK'', ''FILETOPROCESS''),
      (''SK'', ''FILEPATH#'' @ normalize_key c (str (field (ctx_args c) ''filePath'')))]
   \<and> QueryGetPortfolioCollectionResolver c =
     [(''PK'', ''PORTFOLIO''),
      (''SK'', ''USER#'' @ toUpperCase c (render ''$portfolioUserId'' (ctx_netid c)) @ ''#'' @ toUpperCase c (normalize_key c (str (field (ctx_args c) ''portfolioCollectionId''))))]
   \<and> QueryGetPortfolioItemResolver c =
     [(''PK'', ''PORTFOLIO''),
      (''SK'', ''USER#'' @ toUpperCase c (render ''$portfolioUserId'' (ctx_netid c)) @ ''#'' @ toUpperCase c (normalize_key c (str (field (ctx_args c) ''portfolioCollectionId''))) @ ''#'' @ toUpperCase c (normalize_key c (str (field (ctx_args c) ''portfolioItemId''))))]
   \<and> QueryGetPortfolioUserResolver c =
     [(''PK'', ''PORTFOLIO''),
      (''SK'', ''USER#'' @ toUpperCase c (render ''$portfolioUserId'' (ctx_netid c)))]
   \<and> QueryGetWebsiteResolver c =
     [(''PK'', ''WEBSITE''),
      (''SK'', ''WEBSITE#'' @ normalize_key c (str (field (ctx_args c) ''id'')))]
   \<and> QueryListFileGroupsResolver c =
     [(''PK'', ''FILEGROUP'')]
   \<and> QueryListFileGroupsByStorageSystemResolver c =
     [(''GSI2PK'', ''FILESYSTEM#'' @ normalize_key c (str (field (ctx_args c) ''storageSystem'')) @ ''#'' @ normalize_key c (str (field (ctx_args c) ''typeOfData'')))]
   \<and> QueryListFilesToProcessResolver c =
     [(''GSI2PK'', ''FILETOPROCESS''),
      (''GSI2SK'', ''DATELASTPROCESSED#'' @ normalize_key c (str (field (ctx_args c) ''dateLastProcessedBefore'')))]
   \<and> QueryListFileGroupsForS3Resolver c =
     [(''GSI2PK'', ''FILESYSTEM#S3#RBSCWEBSITEBUCKET'')]
   \<and> QueryListItemsBySourceSystemResolver c =
     [(''GSI2PK'', ''SOURCESYSTEM#'' @ normalize_key c (str (field (ctx_args c) ''id''))),
      (''GSI2SK'', ''SORT#'')]
   \<and> QueryListItemsByWebsiteResolver c =
     [(''PK'', ''WEBSITE#'' @ normalize_key c (str (field (ctx_args c) ''id'')))]
   \<and> QueryListPublicPortfolioCollectionsResolver c =
     [(''GSI2PK'', ''PORTFOLIOCOLLECTION''),
      (''GSI2SK'', ''PUBLIC#'')]
   \<and> QueryListPublicHighlightedPortfolioCollectionsResolver c =
     [(''GSI2PK'', ''PORTFOLIOCOLLECTION''),
      (''GSI2SK'', ''PUBLIC#'')]
   \<and> QueryListPublicFeaturedPortfolioCollectionsResolver c =
     [(''GSI2PK'', ''PORTFOLIOCOLLECTION''),
      (''GSI2SK'', ''PUBLIC#'')]
   \<and> QueryListSupplementalDataRecordsResolver c =
     [(''GSI1PK'', ''SUPPLEMENTALDATA'')]
   \<and> QueryListWebsitesResolver c =
     [(''PK'', ''WEBSITE'')]
   \<and> WebsiteWebsiteItemsResolver c =
     [(''PK'', ''WEBSITE#'' @ normalize_key c (str (field (ctx_source c) ''id'')))]
   \<and> (findPortfolioContentForUserFunction c =
         [(''PK'', ''PORTFOLIO''),
          (''SK'', if normalize_key c (str (field (ctx_stash c) ''portfolioCollectionId'')) = []
                   then ''USER#'' @ normalize_key c (str (field (ctx_stash c) ''portfolioUserId''))
                   else ''USER#'' @ normalize_key c (str (field (ctx_stash c) ''portfolioUserId''))
                        @ ''#'' @ normalize_key c (str (field (ctx_stash c) ''portfolioCollectionId'')))])
   \<and> (MutationSavePortfolioCollectionResolver c =
         [(''PK'', ''PORTFOLIO''),
          (''SK'', ''USER#'' @ toUpperCase c (render ''$portfolioUserId'' (ctx_netid c)) @ ''#''
                   @ toUpperCase c (normalize_key c
                       (defaultIfNullOrBlank c (str (field (ctx_args c) ''portfolioCollectionId''))
                          (Some (autoId c)))))]
         @ (if defaultIfNullOrBlank c (str (field (ctx_args c) ''privacy'')) (Some ''private'')
               = Some ''private''
            then []
            else [(''GSI1PK'', ''PORTFOLIOCOLLECTION''),
                  (''GSI1SK'', ''PORTFOLIOCOLLECTION#''
                     @ toUpperCase c (normalize_key c (defaultIfNullOrBlank c
                         (str (field (ctx_args c) ''portfolioCollectionId'')) (Some (autoId c))))),
                  (''GSI2PK'', ''PORTFOLIOCOLLECTION''),
                  (''GSI2SK'',
                     toUpperCase c (render ''$privacy''
                       (defaultIfNullOrBlank c (str (field (ctx_args c) ''privacy'')) (Some ''private'')))
                     @ ''#''
                     @ toUpperCase c (normalize_key c (defaultIfNullOrBlank c
                         (str (field (ctx_args c) ''portfolioCollectionId'')) (Some (autoId c)))))]))
   \<and> (key (updateSupplementalDataRecordFunction c) =
         [(''PK'', ''ITEM#'' @ normalize_key c
                     (str (field (field (ctx_stash c) ''supplementalDataArgs'') ''itemId''))),
          (''SK'', ''SUPPLEMENTALDATA#'' @ normalize_or c ''All''
                     (str (field (field (ctx_stash c) ''supplementalDataArgs'') ''websiteId'')))])
   \<and> (index_attributes (updateSupplementalDataRecordFunction c) =
         [(''GSI1PK'', ''SUPPLEMENTALDATA''),
          (''GSI1SK'', ''ITEM#'' @ normalize_key c
                     (str (field (field (ctx_stash c) ''supplementalDataArgs'') ''itemId'')))])
   \<and> (key (updateSupplementalDataRecordFunction_first c) = key (updateSupplementalDataRecordFunction c))
   \<and> (index_attributes (updateSupplementalDataRecordFunction_first c)
         = index_attributes (updateSupplementalDataRecordFunction c))
   \<and> (key (updateItemFunction c) =
         [(''PK'', ''ITEM#'' @ normalize_key c (str (field (ctx_stash c) ''itemId''))),
          (''SK'', ''ITEM#'' @ normalize_key c (str (field (ctx_stash c) ''itemId'')))])
   \<and> (index_attributes (updateItemFunction c) = [])
   \<and> (key (updateSupplementalDataFunction c) =
         [(''PK'', ''ITEM#'' @ normalize_key c (str (field (ctx_stash c) ''itemId''))),
          (''SK'', ''SUPPLEMENTALDATA#'' @ normalize_key c (str (field (ctx_stash c) ''itemId'')))])
   \<and> (index_attributes (updateSupplementalDataFunction c) = [])
   \<and> (toReplace (toUpper c (defaultIfNullOrBlank c x (Some []))) '' '' [] = Some (normalize_key c x))"
  by (intro conjI) (rule QueryGetFileGroupResolver_keys MutationAddItemToWebsiteResolver_keys FileFileGroupResolver_keys FileGroupFilesResolver_keys ItemMetadataDefaultFileResolver_keys ItemMetadataChildrenResolver_keys ItemMetadataFilesResolver_keys MutationAddItemMetadataToWebsiteResolver_keys MutationAddItemToHarvestResolver_keys MutationRemoveItemFromWebsiteResolver_keys MutationRemoveDefaultImageForWebsiteResolver_keys MutationRemovePortfolioItemResolver_keys MutationSaveFileLastProcessedDateResolver_keys MutationSavePortfolioUserResolver_keys PortfolioUserPortfolioCollectionsResolver_keys PortfolioCollectionPortfolioItemsResolver_keys QueryGetExposedPortfolioCollectionResolver_keys QueryGetFileResolver_keys QueryGetFileToProcessRecordResolver_keys QueryGetPortfolioCollectionResolver_keys QueryGetPortfolioItemResolver_keys QueryGetPortfolioUserResolver_keys QueryGetWebsiteResolver_keys QueryListFileGroupsResolver_keys QueryListFileGroupsByStorageSystemResolver_keys QueryListFilesToProcessResolver_keys QueryListFileGroupsForS3Resolver_keys QueryListItemsBySourceSystemResolver_keys QueryListItemsByWebsiteResolver_keys QueryListPublicPortfolioCollectionsResolver_keys QueryListPublicHighlightedPortfolioCollectionsResolver_keys QueryListPublicFeaturedPortfolioCollectionsResolver_keys QueryListSupplementalDataRecordsResolver_keys QueryListWebsitesResolver_keys WebsiteWebsiteItemsResolver_keys findPortfolioContentForUserFunction_keys MutationSavePortfolioCollectionResolver_keys updateSupplementalDataRecordFunction_keys updateSupplementalDataRecordFunction_first_keys updateItemFunction_keys updateSupplementalDataFunction_keys routine_Some_key)+

text \<open>The claim's own example, \<open>getFileGroup\<close>, on the identifier \<open>ab 1\<close> and on one with two accented letters.\<close>

theorem key_normalization_witness:
  "QueryGetFileGroupResolver example_request = [(''PK'', ''FILEGROUP''), (''SK'', ''FILEGROUP#AB1'')]
   \<and> QueryGetFileGroupResolver
         (example_request\<lparr>ctx_args := JMap [(''id'', JStr [CHR 0xC3, CHR 0xA9, CHR ''t'', CHR 0xC3, CHR 0xA9])]\<rparr>)
       = [(''PK'', ''FILEGROUP''),
          (''SK'', ''FILEGROUP#'' @ [CHR 0xC3, CHR 0x89, CHR ''T'', CHR 0xC3, CHR 0x89])]"
  using key_normalization [of example_request, THEN conjunct1]
    key_normalization [of "example_request\<lparr>ctx_args := JMap [(''id'', JStr [CHR 0xC3, CHR 0xA9, CHR ''t'', CHR 0xC3, CHR 0xA9])]\<rparr>", THEN conjunct1]
  by (simp add: example_request_simps)

text \<open>
  As stated, C2 has every template substitute the empty string. With no \<open>websiteId\<close>
  argument \<open>removeDefaultImageForWebsite\<close> addresses \<open>SUPPLEMENTALDATA#ALL\<close>, where the
  routine of the claim gives \<open>SUPPLEMENTALDATA#\<close>.
\<close>

theorem website_default_counterexample:
  "MutationRemoveDefaultImageForWebsiteResolver example_request
     = [(''PK'', ''ITEM#A1''), (''SK'', ''SUPPLEMENTALDATA#ALL'')]
   \<and> ''SUPPLEMENTALDATA#'' @ normalize_key example_request (str (field (ctx_args example_request) ''websiteId''))
     = ''SUPPLEMENTALDATA#''
   \<and> MutationRemoveDefaultImageForWebsiteResolver example_request
     \<noteq> [(''PK'', ''ITEM#'' @ normalize_key example_request (str (field (ctx_args example_request) ''itemId''))),
         (''SK'', ''SUPPLEMENTALDATA#''
            @ normalize_key example_request (str (field (ctx_args example_request) ''websiteId'')))]"
  by (simp add: MutationRemoveDefaultImageForWebsiteResolver_keys example_request_simps)

text \<open>
  C4, as amended. What the third assignment does with a null right-hand side depends on the
  template engine. If the engine assigns null, the partition key is \<open>ITEM#\<close> and the
  normalized \<open>$ctx.source.itemMetadataId\<close> for every input, and the three other sources
  never influence it. If the engine leaves the variable as it was (the default of Velocity
  1.7), the key is that only when \<open>$ctx.source.itemMetadataId\<close> is not null; otherwise
  it is \<open>ITEM#\<close> and the normalized first non-blank of \<open>$ctx.stash.itemId\<close>,
  \<open>$ctx.source.itemId\<close> and \<open>$ctx.source.id\<close>. Either way \<open>itemMetadataId\<close> comes
  first, not last as the comment of the template has it.
\<close>

theorem merged_record_key:
  "getMergedItemRecordFunction c =
     [(''PK'', ''ITEM#'' @ normalize_key c
         (if set_null_allowed c \<or> str (field (ctx_source c) ''itemMetadataId'') \<noteq> None
          then str (field (ctx_source c) ''itemMetadataId'')
          else first_non_blank c [str (field (ctx_stash c) ''itemId''),
                                  str (field (ctx_source c) ''itemId''),
                                  str (field (ctx_source c) ''id'')]))]"
proof -
  define a0 where "a0 = defaultIfNullOrBlank c (str (field (ctx_stash c) ''itemId''))
                          (str (field (ctx_source c) ''itemId''))"
  define a1 where "a1 = set_var c a0 (defaultIfNullOrBlank c a0 (str (field (ctx_source c) ''id'')))"
  define meta where "meta = str (field (ctx_source c) ''itemMetadataId'')"
  have pk: "getMergedItemRecordFunction c = [(''PK'', ''ITEM#'' @ normalize_key c (set_var c a1 meta))]"
    unfolding a0_def a1_def meta_def by (rule getMergedItemRecordFunction_keys)
  show ?thesis
  proof (cases "set_null_allowed c \<or> meta \<noteq> None")
    case True
    then have "set_var c a1 meta = meta"
      by (auto simp add: set_var_def split: option.splits)
    with True show ?thesis
      unfolding pk meta_def by simp
  next
    case False
    then have skip: "\<not> set_null_allowed c" and none: "meta = None"
      by simp_all
    have "set_var c a1 meta = a1"
      using skip none by (simp add: set_var_def)
    moreover have "normalize_key c a1 = normalize_key c (first_non_blank c [a0, str (field (ctx_source c) ''id'')])"
      unfolding a1_def by (rule normalize_key_set_var [OF skip])
    moreover have "first_non_blank c [a0, str (field (ctx_source c) ''id'')]
        = first_non_blank c [str (field (ctx_stash c) ''itemId''), str (field (ctx_source c) ''itemId''),
                           str (field (ctx_source c) ''id'')]"
      unfolding a0_def by (rule first_non_blank_default)
    ultimately show ?thesis
      using False unfolding pk meta_def by simp
  qed
qed

text \<open>Two requests: one under an engine that assigns null, one that names \<open>itemMetadataId\<close>.\<close>

theorem merged_record_key_witness:
  "getMergedItemRecordFunction (example_request\<lparr>set_null_allowed := True\<rparr>) = [(''PK'', ''ITEM#'')]
   \<and> getMergedItemRecordFunction
         (example_request\<lparr>ctx_source := JMap [(''itemMetadataId'', JStr ''m 7'')]\<rparr>)
       = [(''PK'', ''ITEM#M7'')]"
  using merged_record_key [of "example_request\<lparr>set_null_allowed := True\<rparr>"]
    merged_record_key [of "example_request\<lparr>ctx_source := JMap [(''itemMetadataId'', JStr ''m 7'')]\<rparr>"]
  by (simp add: example_request_simps)

text \<open>
  As stated, C4 holds for every input. Under an engine that skips a \<open>#set\<close> with a null
  right-hand side, a request with \<open>itemId\<close> in the stash and no \<open>itemMetadataId\<close>
  is answered from the stash.
\<close>

theorem stash_item_counterexample:
  "getMergedItemRecordFunction example_request = [(''PK'', ''ITEM#ABC'')]
   \<and> ''ITEM#'' @ normalize_key example_request (defaultIfNullOrBlank example_request
                       (str (field (ctx_source example_request) ''itemMetadataId'')) (Some []))
     = ''ITEM#''
   \<and> getMergedItemRecordFunction example_request
     \<noteq> [(''PK'', ''ITEM#'' @ normalize_key example_request (defaultIfNullOrBlank example_request
                       (str (field (ctx_source example_request) ''itemMetadataId'')) (Some [])))]"
  by (simp add: getMergedItemRecordFunction_keys example_request_simps defaultIfNullOrBlank_def
      set_var_def)

text \<open>
  C7, as amended. Every key value of every request template is a record-type tag alone or
  followed by normalized identifiers, each after \<open>#\<close> (possibly empty, a fixed text,
  or upper-cased a second time), except: \<open>GSI2SK\<close> starts with the
  upper-cased privacy level in \<open>savePortfolioCollection\<close> and is \<open>PUBLIC#\<close> in the
  public list queries; a time stamp follows \<open>ADDED#\<close> or \<open>DATELASTPROCESSED#\<close> in
  the index sort key written by \<open>addItemToWebsite\<close>, \<open>addItemMetadataToWebsite\<close> and
  \<open>saveFileLastProcessedDate\<close>; in the \<open>SK\<close> of the portfolio mutations and of
  \<open>getPortfolioCollection\<close>, \<open>getPortfolioItem\<close> and \<open>getPortfolioUser\<close> the
  \<open>netid\<close> claim, upper-cased only, follows \<open>USER#\<close>, before any identifiers;
  \<open>expandSubjectTermsFunction\<close> sends \<open>SUBJECTTERM\<close> with \<open>URI#\<close> and the
  upper-cased uri of a subject, or \<open>NoKeyToFind\<close> with \<open>YieldEmptyResultSet\<close>;
  \<open>deletePortfolioContentForUserFunction\<close> passes on the stashed \<open>PK\<close> and
  \<open>SK\<close>. Of the \<open>SK\<close> and \<open>GSI1SK\<close> of \<open>savePortfolioItem\<close> only the part
  before the item id is described.
\<close>

theorem keys_are_prefixed:
  "(\<forall>nt\<in>set request_templates. \<forall>kv\<in>set (snd nt c). key_form c (fst nt) kv)
   \<and> deletePortfolioContentForUserFunction c =
       (if elements (field (ctx_stash c) ''portfolioRecordsToDelete'') = []
        then [[(''PK'', JStr ''NoKeyToFind''), (''SK'', JStr ''YieldEmptyResultSet'')]]
        else map (\<lambda>entry. [(''PK'', field entry ''PK''), (''SK'', field entry ''SK'')])
               (elements (field (ctx_stash c) ''portfolioRecordsToDelete'')))"
  using request_templates_form [of c] deletePortfolioContentForUserFunction_keys [of c]
  by simp

text \<open>The sort key of \<open>addItemToHarvest\<close> in the example request.\<close>

theorem keys_are_prefixed_witness:
  "(''MutationAddItemToHarvestResolver'', MutationAddItemToHarvestResolver) \<in> set request_templates
   \<and> (''SK'', ''SOURCESYSTEM#ALEPH#001234'') \<in> set (MutationAddItemToHarvestResolver example_request)
   \<and> key_form example_request ''MutationAddItemToHarvestResolver'' (''SK'', ''SOURCESYSTEM#ALEPH#001234'')
   \<and> composite_key example_request ''SOURCESYSTEM#ALEPH#001234''"
proof -
  have t: "(''MutationAddItemToHarvestResolver'', MutationAddItemToHarvestResolver)
             \<in> set request_templates"
    by (simp add: request_templates_def)
  have k: "(''SK'', ''SOURCESYSTEM#ALEPH#001234'') \<in> set (MutationAddItemToHarvestResolver example_request)"
    by (simp add: MutationAddItemToHarvestResolver_keys example_request_simps)
  from keys_are_prefixed [of example_request] t k
  have f: "key_form example_request ''MutationAddItemToHarvestResolver'' (''SK'', ''SOURCESYSTEM#ALEPH#001234'')"
    by fastforce
  then have "composite_key example_request ''SOURCESYSTEM#ALEPH#001234''"
    by (simp add: key_form_def key_lists)
  with t k f show ?thesis
    by blast
qed

text \<open>
  As stated, C7 has every key value start with a record-type tag. \<open>savePortfolioCollection\<close>
  with the privacy level \<open>shared\<close> writes the index sort key \<open>SHARED#C1\<close>, which starts
  with the caller's text.
\<close>

theorem privacy_level_counterexample:
  "(''GSI2SK'', ''SHARED#C1'')
     \<in> set (MutationSavePortfolioCollectionResolver
              (example_request\<lparr>ctx_args := JMap [(''portfolioCollectionId'', JStr ''c 1''),
                                                  (''privacy'', JStr ''shared'')]\<rparr>))
   \<and> \<not> tagged ''SHARED#C1''
   \<and> \<not> composite_key
          (example_request\<lparr>ctx_args := JMap [(''portfolioCollectionId'', JStr ''c 1''),
                                              (''privacy'', JStr ''shared'')]\<rparr>)
          ''SHARED#C1''"
proof -
  have 1: "(''GSI2SK'', ''SHARED#C1'')
     \<in> set (MutationSavePortfolioCollectionResolver
              (example_request\<lparr>ctx_args := JMap [(''portfolioCollectionId'', JStr ''c 1''),
                                                  (''privacy'', JStr ''shared'')]\<rparr>))"
    by (simp add: MutationSavePortfolioCollectionResolver_keys example_request_simps
        defaultIfNullOrBlank_def render_def)
  have 2: "\<not> tagged ''SHARED#C1''"
    by (simp add: tagged_def record_type_tags_def)
  have "\<not> list_ex (\<lambda>t. prefix t ''SHARED#C1'') record_type_tags"
    by (simp add: record_type_tags_def)
  with composite_tagged have 3: "\<not> composite_key u ''SHARED#C1''" for u :: ctx
    by blast
  from 1 2 3 show ?thesis by blast
qed

text \<open>
  C3, as amended. The response templates of the pipeline functions and of
  \<open>QueryListSupplementalDataRecordsResolver\<close> start with the guard: when \<open>$ctx.error\<close>
  is set they raise it as a field error, with its message and type, and render no result.
  Every other resolver has a response template without the guard, which renders a result
  whether \<open>$ctx.error\<close> is set or not.
\<close>

theorem guarded_responses_forward_error:
  "(\<forall>nt\<in>set guarded_responses. \<forall>err. ctx_error rc = Some err \<longrightarrow> snd nt rc = Inl err)
   \<and> (\<forall>nt\<in>set unguarded_responses. \<exists>j. snd nt rc = Inr j)"
proof (intro conjI)
  show "\<forall>nt\<in>set guarded_responses. \<forall>err. ctx_error rc = Some err \<longrightarrow> snd nt rc = Inl err"
    by (simp add: guarded_responses_def getMergedItemRecordFunction_response_def
        expandSubjectTermsFunction_response_def findPortfolioContentForUserFunction_response_def
        deletePortfolioContentForUserFunction_response_def update_response_def
        QueryListSupplementalDataRecordsResolver_response_def)
  show "\<forall>nt\<in>set unguarded_responses. \<exists>j. snd nt rc = Inr j"
    by (simp add: unguarded_responses_def dynamoDbResultItem_def items_defaulted_token_def
        items_token_def ItemMetadataChildrenResolver_response_def
        QueryGetExposedPortfolioCollectionResolver_response_def split: list.splits)
qed

text \<open>The response of \<open>getMergedItemRecordFunction\<close> to a failed query.\<close>

theorem guarded_responses_forward_error_witness:
  "(''getMergedItemRecordFunction'', getMergedItemRecordFunction_response) \<in> set guarded_responses
   \<and> ctx_error example_response
       = Some (''Throughput exceeded'', ''DynamoDB:ProvisionedThroughputExceededException'')
   \<and> getMergedItemRecordFunction_response example_response
       = Inl (''Throughput exceeded'', ''DynamoDB:ProvisionedThroughputExceededException'')"
proof -
  have t: "(''getMergedItemRecordFunction'', getMergedItemRecordFunction_response)
             \<in> set guarded_responses"
    by (simp add: guarded_responses_def)
  have e: "ctx_error example_response
       = Some (''Throughput exceeded'', ''DynamoDB:ProvisionedThroughputExceededException'')"
    by (simp add: example_response_def)
  from guarded_responses_forward_error [of example_response] t e
  have "getMergedItemRecordFunction_response example_response
       = Inl (''Throughput exceeded'', ''DynamoDB:ProvisionedThroughputExceededException'')"
    by fastforce
  with t e show ?thesis
    by blast
qed

text \<open>
  As stated, C3 is about every resolver. The response template of
  \<open>QueryListWebsitesResolver\<close> renders the items of the result although the data source
  has set an error.
\<close>

theorem list_websites_counterexample:
  "ctx_error example_response
     = Some (''Throughput exceeded'', ''DynamoDB:ProvisionedThroughputExceededException'')
   \<and> (''QueryListWebsitesResolver'', items_token) \<in> set unguarded_responses
   \<and> items_token example_response
     = Inr (JMap [(''items'', JList [JMap [(''id'', JStr ''w1'')]]), (''nextToken'', JNull)])"
  by (simp add: example_response_def unguarded_responses_def items_token_def field_def)

end
